theory Spec2Isabelle
  imports Main "HOL-Library.AList"
begin

section \<open>JavaScript values\<close>

text \<open>
  A property of a JavaScript object is in one of three states: the key is absent, the key
  is present with the value \<^verbatim>\<open>undefined\<close>, or the key is present with a value.
  Reading the property gives \<^verbatim>\<open>undefined\<close> in the first two states; object spread
  (\<^verbatim>\<open>{...a, ...b}\<close>) tells them apart, since it copies every own key of \<^verbatim>\<open>b\<close>,
  also one whose value is \<^verbatim>\<open>undefined\<close>. Fields that the TypeScript interfaces
  declare optional (\<^verbatim>\<open>name?: T\<close>) therefore have the type \<open>T field\<close>; fields
  declared required have the plain type.
\<close>

datatype 'a field = Absent | Undefined | Value 'a

text \<open>Reading a property: \<open>None\<close> stands for \<^verbatim>\<open>undefined\<close>.\<close>

fun read :: "'a field \<Rightarrow> 'a option" where
  "read Absent = None"
| "read Undefined = None"
| "read (Value v) = Some v"

text \<open>The test \<^verbatim>\<open>x == undefined\<close> on a property.\<close>

definition isUndefined :: "'a field \<Rightarrow> bool" where
  "isUndefined f = (read f = None)"

text \<open>
  One key of \<^verbatim>\<open>{...defaults, ...props}\<close>: the key of \<^verbatim>\<open>props\<close> wins whenever it is
  present, whatever its value.
\<close>

fun layer :: "'a field \<Rightarrow> 'a field \<Rightarrow> 'a field" where
  "layer d Absent = d"
| "layer d Undefined = Undefined"
| "layer d (Value v) = Value v"

text \<open>A string property inside a template literal.\<close>

fun template :: "string field \<Rightarrow> string" where
  "template (Value s) = s"
| "template Absent = ''undefined''"
| "template Undefined = ''undefined''"

text \<open>
  An object with string keys is the list of its entries in the order of
  \<^verbatim>\<open>Object.entries\<close>. \<open>fromEntries\<close> builds an object from entries, a later entry
  replacing the value of an earlier one with the same key, as \<^verbatim>\<open>Object.fromEntries\<close>
  and an object literal with spreads do.
\<close>

definition fromEntries :: "(string \<times> 'v) list \<Rightarrow> (string \<times> 'v) list" where
  "fromEntries es = foldl (\<lambda>obj (k, v). AList.update k v obj) [] es"

definition keys :: "(string \<times> 'v) list \<Rightarrow> string list" where
  "keys obj = map fst obj"

text \<open>\<^verbatim>\<open>new Set(xs)\<close>, listed in insertion order; \<^verbatim>\<open>s.has(x)\<close>.\<close>

definition newSet :: "'a list \<Rightarrow> 'a list" where
  "newSet xs = rev (remdups (rev xs))"

definition has :: "'a list \<Rightarrow> 'a \<Rightarrow> bool" where
  "has s x = (x \<in> set s)"

text \<open>\<^verbatim>\<open>xs.join(sep)\<close>, which is also how a template literal prints an array (with a comma).\<close>

fun join :: "string \<Rightarrow> string list \<Rightarrow> string" where
  "join sep [] = []"
| "join sep [x] = x"
| "join sep (x # y # ys) = x @ sep @ join sep (y # ys)"

text \<open>\<^verbatim>\<open>n.toString()\<close> for an integral number; \<^verbatim>\<open>b.toString()\<close> for a boolean.\<close>

fun digits :: "nat \<Rightarrow> string" where
  "digits n = (if n < 10 then [''0123456789'' ! n]
               else digits (n div 10) @ [''0123456789'' ! (n mod 10)])"

declare digits.simps [simp del]

definition numberToString :: "int \<Rightarrow> string" where
  "numberToString n = (if n < 0 then ''-'' @ digits (nat (- n)) else digits (nat n))"

definition boolToString :: "bool \<Rightarrow> string" where
  "boolToString b = (if b then ''true'' else ''false'')"

text \<open>\<^verbatim>\<open>s.replace(/:$/, "")\<close>: a colon at the very end of the string is removed.\<close>

definition stripColon :: "string \<Rightarrow> string" where
  "stripColon s = (if s \<noteq> [] \<and> last s = CHR '':'' then butlast s else s)"

text \<open>
  The result of \<^verbatim>\<open>new URL(s)\<close> of the library whatwg-url, as far as the chart reads it.
  The parser itself is not part of this repository: every function that parses a URL takes
  it as the parameter \<open>parseURL\<close>, where \<open>None\<close> stands for the \<^verbatim>\<open>TypeError\<close> of an
  invalid URL.
\<close>

record URL =
  protocol :: string
  host :: string
  port :: string
  pathname :: string

text \<open>
  A parser for the plainest URLs, \<^verbatim>\<open>scheme://hostname[:port][/path]\<close>, with which the
  parameter is instantiated in the examples.
\<close>

definition exampleURL :: "string \<Rightarrow> URL option" where
  "exampleURL s =
     (let scheme = takeWhile (\<lambda>c. c \<noteq> CHR '':'') s;
          rest = dropWhile (\<lambda>c. c \<noteq> CHR '':'') s;
          afterSlashes = drop 3 rest;
          authority = takeWhile (\<lambda>c. c \<noteq> CHR ''/'') afterSlashes;
          path = dropWhile (\<lambda>c. c \<noteq> CHR ''/'') afterSlashes;
          hostname = takeWhile (\<lambda>c. c \<noteq> CHR '':'') authority;
          portNumber = drop 1 (dropWhile (\<lambda>c. c \<noteq> CHR '':'') authority)
      in if scheme = [] \<or> take 3 rest \<noteq> ''://'' \<or> hostname = [] then None
         else Some \<lparr> protocol = scheme @ '':'',
                     host = (if portNumber = [] then hostname else hostname @ '':'' @ portNumber),
                     port = portNumber,
                     pathname = (if path = [] then ''/'' else path) \<rparr>)"

section \<open>Configuration: shanoir-ng-props.ts\<close>

record ShanoirCredentials =
  username :: string
  password :: string

record ShanoirDatabaseProps = ShanoirCredentials +
  db :: string
  host :: string
  port :: "int field"

datatype starttls_mode = disabled | optional | required

record ShanoirSmtpDefaults =
  port :: int
  auth :: "ShanoirCredentials field"
  starttls :: starttls_mode

definition shanoirSmtpDefaults :: ShanoirSmtpDefaults where
  "shanoirSmtpDefaults = \<lparr> port = 25, auth = Undefined, starttls = disabled \<rparr>"

record ShanoirSmtpProps =
  host :: string
  port :: "int field"
  auth :: "ShanoirCredentials field"
  starttls :: "starttls_mode field"
  fromAddress :: string

text \<open>
  The interface declares the three fields of \<open>ShanoirVipProps\<close> required; the constructor
  layers them over the defaults key by key, so each of them may be absent here.
\<close>

record ShanoirVipProps =
  url :: "string field"
  clientSecret :: "string field"
  serviceEmail :: "string field"

definition shanoirVipDefaults :: ShanoirVipProps where
  "shanoirVipDefaults =
     \<lparr> url = Value ''https://vip.creatis.insa-lyon.fr'',
       clientSecret = Value ''SECRET'',
       serviceEmail = Value '''' \<rparr>"

definition shanoirVolumes :: "string list" where
  "shanoirVolumes =
     [''datasets-data'', ''dcm4chee-arc-storage-data'', ''extra-data'', ''studies-data'',
      ''database-data'', ''dcm4chee-database-data'', ''keycloak-database-data'',
      ''logs'', ''keycloak-logs'',
      ''dcm4chee-arc-wildfly-data'', ''dcm4chee-ldap-data'', ''dcm4chee-sldap-data'',
      ''rabbitmq-data'', ''solr-data'', ''tmp'']"

definition shanoirMysqlDatabases :: "string list" where
  "shanoirMysqlDatabases =
     [''datasets'', ''import'', ''keycloak'', ''migrations'', ''mysql'', ''preclinical'',
      ''studies'', ''sys'', ''users'']"

definition shanoirPostgresqlDatabases :: "string list" where
  "shanoirPostgresqlDatabases = [''dcm4chee'']"

definition defaultMysqlDatabases :: "(string \<times> ShanoirDatabaseProps) list" where
  "defaultMysqlDatabases =
     foldl (\<lambda>dbProps name.
              AList.update name
                \<lparr> username = name, password = name, db = name,
                  ShanoirDatabaseProps.host = ''database'',
                  ShanoirDatabaseProps.port = Absent \<rparr> dbProps)
       [] shanoirMysqlDatabases"

definition defaultPostgresqlDatabases :: "(string \<times> ShanoirDatabaseProps) list" where
  "defaultPostgresqlDatabases =
     [(''dcm4chee'',
       \<lparr> username = ''pacs'', password = ''pacs'', db = ''pacsdb'',
         ShanoirDatabaseProps.host = ''dcm4chee-database'',
         ShanoirDatabaseProps.port = Absent \<rparr>)]"

record ShanoirNGDefaults =
  version :: string
  instanceName :: string
  instanceColor :: string
  dockerRepository :: string
  allowedAdminIps :: "string list"
  smtp :: ShanoirSmtpDefaults
  vip :: ShanoirVipProps
  createNamespace :: bool
  mysqlDatabases :: "(string \<times> ShanoirDatabaseProps) list"
  postgresqlDatabases :: "(string \<times> ShanoirDatabaseProps) list"

definition shanoirNGDefaults :: ShanoirNGDefaults where
  "shanoirNGDefaults =
     \<lparr> version = ''NG_v2.9.2'',
       instanceName = '''',
       instanceColor = '''',
       dockerRepository = ''ghcr.io/fli-iam/shanoir-ng'',
       allowedAdminIps = [],
       smtp = shanoirSmtpDefaults,
       vip = shanoirVipDefaults,
       createNamespace = True,
       mysqlDatabases = defaultMysqlDatabases,
       postgresqlDatabases = defaultPostgresqlDatabases \<rparr>"

text \<open>
  \<open>ShanoirNGProps\<close> extends the chart properties of cdk8s (\<open>namespace\<close>, \<open>labels\<close>,
  \<open>disableResourceNameHashes\<close>, all optional). The properties of a volume claim belong to
  cdk8s-plus and are only passed on: they are the type parameter \<open>'c\<close>.
\<close>

record 'c ShanoirNGProps =
  namespace :: "string field"
  labels :: "(string \<times> string) list field"
  disableResourceNameHashes :: "bool field"
  version :: "string field"
  url :: string
  viewerUrl :: string
  instanceName :: "string field"
  instanceColor :: "string field"
  adminName :: string
  adminEmail :: string
  dockerRepository :: "string field"
  mysqlDatabases :: "(string \<times> ShanoirDatabaseProps) list field"
  postgresqlDatabases :: "(string \<times> ShanoirDatabaseProps) list field"
  smtp :: ShanoirSmtpProps
  allowedAdminIps :: "string list field"
  keycloakUrl :: "string field"
  keycloakCredentials :: ShanoirCredentials
  vip :: "ShanoirVipProps field"
  volumeClaimProps :: "(string \<times> 'c) list"
  createNamespace :: "bool field"

text \<open>
  The defaults are applied by
  \<^verbatim>\<open>{ namespace: id, ...shanoirNGDefaults, ...props, smtp: {...shanoirSmtpDefaults, ...props.smtp}, vip: {...shanoirVipDefaults, ...props.vip} }\<close>.
  Spreading \<^verbatim>\<open>props.vip\<close> when it is \<^verbatim>\<open>undefined\<close> copies nothing.
\<close>

definition applyDefaults :: "string \<Rightarrow> 'c ShanoirNGProps \<Rightarrow> 'c ShanoirNGProps" where
  "applyDefaults ident props =
     \<lparr> namespace = layer (Value ident) (namespace props),
       labels = labels props,
       disableResourceNameHashes = disableResourceNameHashes props,
       version = layer (Value (ShanoirNGDefaults.version shanoirNGDefaults)) (version props),
       url = url props,
       viewerUrl = viewerUrl props,
       instanceName =
         layer (Value (ShanoirNGDefaults.instanceName shanoirNGDefaults)) (instanceName props),
       instanceColor =
         layer (Value (ShanoirNGDefaults.instanceColor shanoirNGDefaults)) (instanceColor props),
       adminName = adminName props,
       adminEmail = adminEmail props,
       dockerRepository =
         layer (Value (ShanoirNGDefaults.dockerRepository shanoirNGDefaults))
           (dockerRepository props),
       mysqlDatabases =
         layer (Value (ShanoirNGDefaults.mysqlDatabases shanoirNGDefaults))
           (mysqlDatabases props),
       postgresqlDatabases =
         layer (Value (ShanoirNGDefaults.postgresqlDatabases shanoirNGDefaults))
           (postgresqlDatabases props),
       smtp =
         \<lparr> host = host (smtp props),
           port = layer (Value (ShanoirSmtpDefaults.port shanoirSmtpDefaults)) (port (smtp props)),
           auth = layer (ShanoirSmtpDefaults.auth shanoirSmtpDefaults) (auth (smtp props)),
           starttls =
             layer (Value (ShanoirSmtpDefaults.starttls shanoirSmtpDefaults))
               (starttls (smtp props)),
           fromAddress = fromAddress (smtp props) \<rparr>,
       allowedAdminIps =
         layer (Value (ShanoirNGDefaults.allowedAdminIps shanoirNGDefaults))
           (allowedAdminIps props),
       keycloakUrl = keycloakUrl props,
       keycloakCredentials = keycloakCredentials props,
       vip =
         Value
           (case read (vip props) of
              None \<Rightarrow> shanoirVipDefaults
            | Some v \<Rightarrow>
                \<lparr> ShanoirVipProps.url =
                    layer (ShanoirVipProps.url shanoirVipDefaults) (ShanoirVipProps.url v),
                  clientSecret = layer (clientSecret shanoirVipDefaults) (clientSecret v),
                  serviceEmail = layer (serviceEmail shanoirVipDefaults) (serviceEmail v) \<rparr>),
       volumeClaimProps = volumeClaimProps props,
       createNamespace =
         layer (Value (ShanoirNGDefaults.createNamespace shanoirNGDefaults))
           (createNamespace props) \<rparr>"

section \<open>Constructs, effects and errors\<close>

text \<open>
  The constructs of cdk8s and cdk8s-plus are recorded as the chart creates them: the kind
  of the construct, its id in the chart and the properties it is given. A construct is
  referred to by its id. Creating one is taken never to fail: what the libraries check of
  their arguments is outside this repository.
\<close>

datatype EnvValue =
    fromValue "string option"
  | fromConfigMap string string
  | fromSecretValue string string

record VolumeMount =
  path :: string
  volume :: "string option"
  subPath :: "string option"

record ContainerProps =
  image :: string
  args :: "string list option"
  envFrom :: "string list option"
  envVariables :: "(string \<times> EnvValue) list option"
  volumeMounts :: "VolumeMount list option"

datatype 'c construct =
    Chart string "'c ShanoirNGProps"
  | PersistentVolumeClaim string 'c
  | Volume string string
  | ConfigMap string "(string \<times> string option) list"
  | Secret string "(string \<times> string option) list"
  | Namespace string "string option"
  | Deployment string ContainerProps
  | Service string string "int list" string

text \<open>What \<^verbatim>\<open>console.error\<close> prints.\<close>

datatype 'c console_line =
    origProps "'c ShanoirNGProps"
  | compiledProps "'c ShanoirNGProps"
  | message string

text \<open>
  What is thrown: the \<^verbatim>\<open>AssertionError\<close> of \<^verbatim>\<open>assert\<close>, the string that
  \<open>checkResourceMap\<close> throws, the \<^verbatim>\<open>TypeError\<close> of the runtime (a property or a
  method of \<^verbatim>\<open>undefined\<close>, an invalid URL), and the \<^verbatim>\<open>Error\<close> with which the library
  \<^verbatim>\<open>constructs\<close> refuses a second child with the id of another child of the same scope.
\<close>

datatype error = AssertionError | Thrown string | TypeError | DuplicateId string

record 'c world =
  constructs :: "'c construct list"
  console :: "'c console_line list"

type_synonym ('c, 'a) js = "'c world \<Rightarrow> (error + 'a) \<times> 'c world"

definition ret :: "'a \<Rightarrow> ('c, 'a) js" where
  "ret a = (\<lambda>w. (Inr a, w))"

definition throw :: "error \<Rightarrow> ('c, 'a) js" where
  "throw e = (\<lambda>w. (Inl e, w))"

definition andThen :: "('c, 'a) js \<Rightarrow> ('a \<Rightarrow> ('c, 'b) js) \<Rightarrow> ('c, 'b) js" where
  "andThen m f = (\<lambda>w. case m w of (Inl e, w') \<Rightarrow> (Inl e, w') | (Inr a, w') \<Rightarrow> f a w')"

definition assert :: "bool \<Rightarrow> ('c, unit) js" where
  "assert b = (if b then ret () else throw AssertionError)"

definition console_error :: "'c console_line \<Rightarrow> ('c, unit) js" where
  "console_error l = (\<lambda>w. (Inr (), w\<lparr> console := console w @ [l] \<rparr>))"

definition new :: "'c construct list \<Rightarrow> ('c, unit) js" where
  "new cs = (\<lambda>w. (Inr (), w\<lparr> constructs := constructs w @ cs \<rparr>))"

section \<open>The chart: shanoir-ng-charts.ts\<close>

definition checkResourceMap ::
    "string \<Rightarrow> (string \<times> 'v) list option \<Rightarrow> string list \<Rightarrow> ('c, unit) js" where
  "checkResourceMap desc m expect =
     (case m of
        None \<Rightarrow> ret ()
      | Some obj \<Rightarrow>
          (let actualSet = newSet (keys obj);
               expectSet = newSet expect;
               unknown = filter (\<lambda>x. \<not> has expectSet x) actualSet
           in andThen
                (if unknown \<noteq> []
                 then console_error
                        (message (''warning: unknown '' @ desc @ '': '' @ join '','' unknown))
                 else ret ())
                (\<lambda>_. let missing = filter (\<lambda>x. \<not> has actualSet x) expectSet
                     in if missing \<noteq> []
                        then throw (Thrown (''error: missing '' @ desc @ '': '' @ join '','' missing))
                        else ret ())))"

text \<open>
  The fields of the chart object. \<open>commonConfigMap\<close> and \<open>secret\<close> hold the id of their
  construct; \<open>volumeClaims\<close> and \<open>volumes\<close> map the name of a volume to the id of its
  construct.
\<close>

record 'c ShanoirNGChart =
  props :: "'c ShanoirNGProps"
  commonConfigMap :: string
  secret :: string
  volumes :: "(string \<times> string) list"
  volumeClaims :: "(string \<times> string) list"

definition shanoirImage :: "'c ShanoirNGProps \<Rightarrow> string \<Rightarrow> string" where
  "shanoirImage p service =
     template (dockerRepository p) @ ''/'' @ service @ '':'' @ template (version p)"

definition createVolumeClaims :: "'c ShanoirNGProps \<Rightarrow> ('c, (string \<times> string) list) js" where
  "createVolumeClaims p =
     andThen
       (new (map (\<lambda>(name, claimProps). PersistentVolumeClaim (name @ ''-pvc'') claimProps)
               (volumeClaimProps p)))
       (\<lambda>_. ret (fromEntries (map (\<lambda>(name, claimProps). (name, name @ ''-pvc''))
                                 (volumeClaimProps p))))"

definition createVolumes :: "(string \<times> string) list \<Rightarrow> ('c, (string \<times> string) list) js" where
  "createVolumes claims =
     andThen
       (new (map (\<lambda>(name, pvc). Volume (name @ ''-rv'') pvc) claims))
       (\<lambda>_. ret (fromEntries (map (\<lambda>(name, pvc). (name, name @ ''-rv'')) claims)))"

definition createSecret :: "'c ShanoirNGProps \<Rightarrow> ('c, string) js" where
  "createSecret p =
     (case read (mysqlDatabases p) of
        None \<Rightarrow> throw TypeError
      | Some mysql \<Rightarrow>
     (case read (postgresqlDatabases p) of
        None \<Rightarrow> throw TypeError
      | Some postgresql \<Rightarrow>
     (case read (vip p) of
        None \<Rightarrow> throw TypeError
      | Some v \<Rightarrow>
          andThen
            (new [Secret ''sec''
                    (fromEntries
                       (fromEntries
                          (map (\<lambda>(name, cred). (name, Some (password cred)))
                             (mysql @ postgresql)) @
                        [(''keycloak-admin'', Some (password (keycloakCredentials p))),
                         (''vip-client-secret'', read (clientSecret v)),
                         (''smtp'',
                          Some (case read (auth (smtp p)) of
                                  None \<Rightarrow> []
                                | Some a \<Rightarrow> password a))]))])
            (\<lambda>_. ret ''sec''))))"

definition createCommonConfigMap ::
    "(string \<Rightarrow> URL option) \<Rightarrow> 'c ShanoirNGProps \<Rightarrow> ('c, string) js" where
  "createCommonConfigMap parseURL p =
     (case parseURL (url p) of
        None \<Rightarrow> throw TypeError
      | Some u \<Rightarrow>
     andThen (assert (URL.port u = [])) (\<lambda>_.
     andThen (assert (pathname u = ''/'')) (\<lambda>_.
     (case parseURL (viewerUrl p) of
        None \<Rightarrow> throw TypeError
      | Some viewer \<Rightarrow>
     andThen (assert (URL.port viewer = [])) (\<lambda>_.
     andThen (assert (pathname viewer = ''/'')) (\<lambda>_.
     andThen
       (new [ConfigMap ''common-cm''
               (fromEntries
                  [(''SHANOIR_PREFIX'', Some []),
                   (''SHANOIR_URL_SCHEME'', Some (stripColon (protocol u))),
                   (''SHANOIR_URL_HOST'', Some (URL.host u)),
                   (''SHANOIR_VIEWER_OHIF_URL_SCHEME'', Some (stripColon (protocol viewer))),
                   (''SHANOIR_VIEWER_OHIF_URL_HOST'', Some (URL.host viewer)),
                   (''SHANOIR_ADMIN_EMAIL'', Some (adminEmail p)),
                   (''SHANOIR_ADMIN_NAME'', Some (adminName p)),
                   (''SHANOIR_INSTANCE_COLOR'', read (instanceColor p)),
                   (''SHANOIR_INSTANCE_NAME'', read (instanceName p)),
                   (''SHANOIR_KEYCLOAK_ADAPTER_MODE'', Some ''check-sso''),
                   (''SHANOIR_X_FORWARDED'', Some ''trust''),
                   (''SHANOIR_CERTIFICATE'', Some ''manual''),
                   (''SHANOIR_CERTIFICATE_PEM_CRT'', Some ''none''),
                   (''SHANOIR_CERTIFICATE_PEM_KEY'', Some ''none''),
                   (''SHANOIR_MIGRATION'', Some ''never'')])])
       (\<lambda>_. ret ''common-cm'')))))))"

definition createSmtpEnvVariables ::
    "'c ShanoirNGProps \<Rightarrow> string \<Rightarrow> ('c, (string \<times> EnvValue) list) js" where
  "createSmtpEnvVariables p sec =
     (case read (port (smtp p)) of
        None \<Rightarrow> throw TypeError
      | Some n \<Rightarrow>
          ret (fromEntries
                 [(''SHANOIR_SMTP_HOST'', fromValue (Some (host (smtp p)))),
                  (''SHANOIR_SMTP_PORT'', fromValue (Some (numberToString n))),
                  (''SHANOIR_STMP_AUTH'',
                   fromValue (Some (boolToString (\<not> isUndefined (auth (smtp p)))))),
                  (''SHANOIR_SMTP_USERNAME'',
                   fromValue (Some (case read (auth (smtp p)) of
                                      None \<Rightarrow> []
                                    | Some a \<Rightarrow> username a))),
                  (''SHANOIR_SMTP_STARTTLS_ENABLE'',
                   fromValue (Some (boolToString (read (starttls (smtp p)) \<noteq> Some disabled)))),
                  (''SHANOIR_SMTP_STARTTLS_REQUIRED'',
                   fromValue (Some (boolToString (read (starttls (smtp p)) = Some required)))),
                  (''SHANOIR_SMTP_FROM'', fromValue (Some (fromAddress (smtp p)))),
                  (''SHANOIR_SMTP_PASSWORD'', fromSecretValue sec ''smtp'')]))"

definition createVipEnvVariables ::
    "(string \<Rightarrow> URL option) \<Rightarrow> 'c ShanoirNGProps \<Rightarrow> ('c, (string \<times> EnvValue) list) js" where
  "createVipEnvVariables parseURL p =
     (case read (vip p) of
        None \<Rightarrow> throw TypeError
      | Some v \<Rightarrow>
     (case parseURL (template (ShanoirVipProps.url v)) of
        None \<Rightarrow> throw TypeError
      | Some u \<Rightarrow>
     andThen (assert (URL.port u = [])) (\<lambda>_.
     andThen (assert (pathname u = ''/'')) (\<lambda>_.
     ret (fromEntries
            [(''VIP_URL_SCHEME'', fromValue (Some (stripColon (protocol u)))),
             (''VIP_URL_HOST'', fromValue (Some (URL.host u)))])))))"

definition createKeycloakCredentialsEnvVariables ::
    "'c ShanoirNGProps \<Rightarrow> string \<Rightarrow> (string \<times> EnvValue) list" where
  "createKeycloakCredentialsEnvVariables p sec =
     fromEntries
       [(''SHANOIR_KEYCLOAK_USER'', fromValue (Some (username (keycloakCredentials p)))),
        (''SHANOIR_KEYCLOAK_PASSWORD'', fromSecretValue sec ''keycloak-admin'')]"

text \<open>
  \<open>createService\<close> returns the id of the service, or \<open>None\<close> (\<^verbatim>\<open>undefined\<close>) when
  \<open>ports\<close> is \<^verbatim>\<open>undefined\<close>. The service is named \<open>name\<close> and selects the deployment.
\<close>

definition createService ::
    "string \<Rightarrow> int list option \<Rightarrow> ContainerProps \<Rightarrow> ('c, string option) js" where
  "createService name ports containerProps =
     andThen (new [Deployment (name @ ''-deploy'') containerProps]) (\<lambda>_.
     (case ports of
        None \<Rightarrow> ret None
      | Some ps \<Rightarrow>
          andThen (assert (ps \<noteq> [])) (\<lambda>_.
          andThen (new [Service (name @ ''-svc'') name ps (name @ ''-deploy'')]) (\<lambda>_.
          ret (Some (name @ ''-svc''))))))"

definition createShanoirMicroservice ::
    "'c ShanoirNGChart \<Rightarrow> string \<Rightarrow> int list option \<Rightarrow> (string \<times> EnvValue) list option \<Rightarrow>
     VolumeMount list option \<Rightarrow> ('c, string option) js" where
  "createShanoirMicroservice this name ports envVars extraVolumeMounts =
     createService name ports
       \<lparr> image = shanoirImage (props this) name,
         args = None,
         envFrom = Some [commonConfigMap this],
         envVariables = Some (case envVars of None \<Rightarrow> [] | Some e \<Rightarrow> e),
         volumeMounts =
           Some (\<lparr> path = ''/var/log/shanoir-ng-logs'',
                    volume = map_of (volumes this) ''logs'',
                    subPath = None \<rparr> #
                 (case extraVolumeMounts of None \<Rightarrow> [] | Some ms \<Rightarrow> ms)) \<rparr>"

text \<open>
  The object literal \<^verbatim>\<open>{ path: p, volume: this.volumes[name] }\<close>; the volume is
  \<open>None\<close> (\<^verbatim>\<open>undefined\<close>) when the chart has no volume of that name.
\<close>

definition volumeMount :: "'c ShanoirNGChart \<Rightarrow> string \<Rightarrow> string \<Rightarrow> VolumeMount" where
  "volumeMount this p name =
     \<lparr> path = p, volume = map_of (volumes this) name, subPath = None \<rparr>"

text \<open>
  The constructor creates the services in one straight line; its sections (marked by
  comments in the source) are the definitions \<open>backendServices\<close>, \<open>dcm4chee\<close>,
  \<open>shanoirMicroServices\<close> and \<open>front\<close>, in the order of the source. An object literal
  is evaluated before the call it is an argument of, so a \<^verbatim>\<open>TypeError\<close> in a literal
  precedes the creation of the deployment.
\<close>

definition backendServices ::
    "'c ShanoirNGChart \<Rightarrow> bool \<Rightarrow> bool \<Rightarrow> (string \<times> EnvValue) list \<Rightarrow>
     (string \<times> EnvValue) list \<Rightarrow> ('c, unit) js" where
  "backendServices this useInternalMysqlDatabases useInternalKeycloak
       keycloakCredentialsEnvVariables smtpEnvVariables =
     andThen
       (if useInternalMysqlDatabases
        then andThen
               (createService ''database'' (Some [3306])
                  \<lparr> image = shanoirImage (props this) ''database'',
                    args = Some [''--max_allowed_packet'', ''20000000'',
                                 ''--ignore-db-dir=lost+found''],
                    envFrom = None,
                    envVariables =
                      Some (fromEntries
                              [(''MYSQL_ROOT_PASSWORD'', fromValue (Some ''password'')),
                               (''SHANOIR_MIGRATION'',
                                fromConfigMap (commonConfigMap this) ''never'')]),
                    volumeMounts = Some [volumeMount this ''/var/lib/mysql'' ''database-data''] \<rparr>)
               (\<lambda>_. ret ())
        else ret ()) (\<lambda>_.
     andThen
       (createService ''rabbitmq'' (Some [5672])
          \<lparr> image = ''rabbitmq:3.10.7'',
            args = None,
            envFrom = None,
            envVariables = None,
            volumeMounts =
              Some [volumeMount this ''/var/lib/rabbitmq/mnesia/rabbitmq'' ''rabbitmq-data''] \<rparr>)
       (\<lambda>_.
     andThen
       (createService ''solr'' (Some [8983])
          \<lparr> image = shanoirImage (props this) ''solr'',
            args = None,
            envFrom = None,
            envVariables = Some (fromEntries [(''SOLR_LOG_LEVEL'', fromValue (Some ''SEVERE''))]),
            volumeMounts = Some [volumeMount this ''/var/solr'' ''solr-data''] \<rparr>)
       (\<lambda>_.
     (if useInternalKeycloak
      then (case read (allowedAdminIps (props this)) of
              None \<Rightarrow> throw TypeError
            | Some ips \<Rightarrow>
                andThen
                  (createService ''keycloak'' (Some [8080])
                     \<lparr> image = shanoirImage (props this) ''keycloak'',
                       args = None,
                       envFrom = Some [commonConfigMap this],
                       envVariables =
                         Some (fromEntries
                                 (keycloakCredentialsEnvVariables @ smtpEnvVariables @
                                  [(''SHANOIR_ALLOWED_ADMIN_IPS'',
                                    fromValue (Some (join '','' ips)))])),
                       volumeMounts = None \<rparr>)
                  (\<lambda>_. ret ()))
      else ret ()))))"

definition dcm4chee :: "'c ShanoirNGChart \<Rightarrow> bool \<Rightarrow> ('c, unit) js" where
  "dcm4chee this useInternalPostgresqlDatabases =
     (case read (postgresqlDatabases (props this)) of
        None \<Rightarrow> throw TypeError
      | Some postgresql \<Rightarrow>
     (case map_of postgresql ''dcm4chee'' of
        None \<Rightarrow> throw TypeError
      | Some dcm4cheeDb \<Rightarrow>
     (let dcm4cheeDbVariables =
            fromEntries
              [(''POSTGRES_DB'', fromValue (Some (db dcm4cheeDb))),
               (''POSTGRES_USER'', fromValue (Some (username dcm4cheeDb))),
               (''POSTGRES_PASSWORD'', fromSecretValue (secret this) ''dcm4chee'')]
      in
     andThen
       (createService ''dcm4chee-ldap'' (Some [389])
          \<lparr> image = ''dcm4che/slapd-dcm4chee:2.6.2-27.0'',
            args = None,
            envFrom = None,
            envVariables = Some (fromEntries [(''STORAGE_DIR'', fromValue (Some ''/storage/fs1''))]),
            volumeMounts =
              Some [volumeMount this ''/var/lib/openldap/openldap-data'' ''dcm4chee-ldap-data'',
                    volumeMount this ''/etc/openldap/slapd.d'' ''dcm4chee-sldap-data''] \<rparr>)
       (\<lambda>_.
     andThen
       (if useInternalPostgresqlDatabases
        then andThen
               (createService ''dcm4chee-database'' (Some [5432])
                  \<lparr> image = ''dcm4che/postgres-dcm4chee:14.4-27'',
                    args = None,
                    envFrom = None,
                    envVariables = Some dcm4cheeDbVariables,
                    volumeMounts =
                      Some [volumeMount this ''/var/lib/postgresql/data''
                              ''dcm4chee-database-data''] \<rparr>)
               (\<lambda>_. ret ())
        else ret ()) (\<lambda>_.
     andThen
       (createService ''dcm4chee-arc'' (Some [8080])
          \<lparr> image = ''dcm4che/dcm4chee-arc-psql:5.27.0'',
            args = None,
            envFrom = None,
            envVariables =
              Some (fromEntries
                      (dcm4cheeDbVariables @
                       [(''LDAP_URL'', fromValue (Some ''ldap://dcm4chee-ldap:389'')),
                        (''POSTGRES_HOST'',
                         fromValue (Some (ShanoirDatabaseProps.host dcm4cheeDb))),
                        (''WILDFLY_CHOWN'', fromValue (Some ''/storage'')),
                        (''WILDFLY_WAIT_FOR'',
                         fromValue (Some ''dcm4chee-ldap:389 dcm4chee-database:5432''))])),
            volumeMounts =
              Some [volumeMount this ''/opt/wildfly/standalone'' ''dcm4chee-arc-wildfly-data'',
                    volumeMount this ''/storage'' ''dcm4chee-arc-storage-data''] \<rparr>)
       (\<lambda>_. ret ()))))))"

definition shanoirMicroServices ::
    "'c ShanoirNGChart \<Rightarrow> (string \<times> EnvValue) list \<Rightarrow> (string \<times> EnvValue) list \<Rightarrow>
     (string \<times> EnvValue) list \<Rightarrow> ('c, unit) js" where
  "shanoirMicroServices this keycloakCredentialsEnvVariables smtpEnvVariables vipEnvVariables =
     (case read (vip (props this)) of
        None \<Rightarrow> throw TypeError
      | Some v \<Rightarrow>
     andThen
       (createShanoirMicroservice this ''users'' (Some [9901])
          (Some (fromEntries
                   (keycloakCredentialsEnvVariables @ smtpEnvVariables @
                    [(''VIP_SERVICE_EMAIL'', fromValue (read (serviceEmail v)))])))
          None) (\<lambda>_.
     andThen
       (createShanoirMicroservice this ''studies'' (Some [9902]) None
          (Some [volumeMount this ''/tmp'' ''tmp'',
                 volumeMount this ''/var/studies-data'' ''studies-data'',
                 volumeMount this ''/var/datasets-data'' ''datasets-data''])) (\<lambda>_.
     andThen
       (createShanoirMicroservice this ''import'' (Some [9903]) None
          (Some [volumeMount this ''/tmp'' ''tmp''])) (\<lambda>_.
     andThen
       (createShanoirMicroservice this ''datasets'' (Some [9904])
          (Some (fromEntries
                   (vipEnvVariables @
                    [(''VIP_CLIENT_SECRET'',
                      fromSecretValue (secret this) ''vip-client-secret'')])))
          (Some [volumeMount this ''/tmp'' ''tmp'',
                 volumeMount this ''/var/datasets-data'' ''datasets-data''])) (\<lambda>_.
     andThen
       (createShanoirMicroservice this ''preclinical'' (Some [9905]) None
          (Some [volumeMount this ''/tmp'' ''tmp'',
                 volumeMount this ''/var/extra-data'' ''extra-data''])) (\<lambda>_.
     andThen
       (createShanoirMicroservice this ''nifti-conversion'' None None
          (Some [volumeMount this ''/tmp'' ''tmp'',
                 volumeMount this ''/var/datasets-data'' ''datasets-data''])) (\<lambda>_.
     ret ())))))))"

definition front :: "'c ShanoirNGChart \<Rightarrow> (string \<times> EnvValue) list \<Rightarrow> ('c, unit) js" where
  "front this vipEnvVariables =
     andThen
       (createService ''nginx'' (Some [80, 443])
          \<lparr> image = shanoirImage (props this) ''nginx'',
            args = None,
            envFrom = Some [commonConfigMap this],
            envVariables = Some vipEnvVariables,
            volumeMounts =
              Some [\<lparr> path = ''/var/log/nginx'',
                      volume = map_of (volumes this) ''logs'',
                      subPath = Some ''nginx'' \<rparr>] \<rparr>)
       (\<lambda>_. ret ())"

text \<open>
  What the constructor does after \<^verbatim>\<open>super(scope, id, props)\<close> and
  \<^verbatim>\<open>this.props = props\<close>, on the properties \<open>p\<close> that the defaults were applied to:
  the volume claims and volumes, the shared config map and secret, the environment
  variables, the namespace and the services. It is a definition of its own so that the
  statements can speak of everything that follows the creation of the chart.
\<close>

definition afterSuper ::
    "(string \<Rightarrow> URL option) \<Rightarrow> 'c ShanoirNGProps \<Rightarrow> bool \<Rightarrow> bool \<Rightarrow> bool \<Rightarrow>
     ('c, 'c ShanoirNGChart) js" where
  "afterSuper parseURL p useInternalKeycloak useInternalMysqlDatabases
       useInternalPostgresqlDatabases =
     andThen (createVolumeClaims p) (\<lambda>claims.
     andThen (createVolumes claims) (\<lambda>vols.
     andThen (createCommonConfigMap parseURL p) (\<lambda>cm.
     andThen (createSecret p) (\<lambda>sec.
     andThen (createSmtpEnvVariables p sec) (\<lambda>smtpEnvVariables.
     andThen (createVipEnvVariables parseURL p) (\<lambda>vipEnvVariables.
     (let keycloakCredentialsEnvVariables = createKeycloakCredentialsEnvVariables p sec;
          this = \<lparr> props = p, commonConfigMap = cm, secret = sec, volumes = vols,
                   volumeClaims = claims \<rparr>
      in
     andThen
       (if read (createNamespace p) = Some True
        then new [Namespace ''ns'' (read (namespace p))]
        else ret ()) (\<lambda>_.
     andThen (backendServices this useInternalMysqlDatabases useInternalKeycloak
                keycloakCredentialsEnvVariables smtpEnvVariables) (\<lambda>_.
     andThen (dcm4chee this useInternalPostgresqlDatabases) (\<lambda>_.
     andThen (shanoirMicroServices this keycloakCredentialsEnvVariables smtpEnvVariables
                vipEnvVariables) (\<lambda>_.
     andThen (front this vipEnvVariables) (\<lambda>_.
     ret this))))))))))))"

text \<open>
  The constructor of \<open>ShanoirNGChart\<close>. Its argument \<open>scope\<close> is only handed to the
  constructor of the cdk8s chart and is left out; \<open>ident\<close> is the argument \<open>id\<close>.
  The chart itself is the construct \<open>Chart\<close>, created by \<^verbatim>\<open>super(scope, id, props)\<close>,
  here in a scope that has no child called \<open>ident\<close>; the constructor with the check of
  the scope is \<open>new_ShanoirNGChart_in_scope\<close> below.
\<close>

definition new_ShanoirNGChart ::
    "(string \<Rightarrow> URL option) \<Rightarrow> string \<Rightarrow> 'c ShanoirNGProps \<Rightarrow> ('c, 'c ShanoirNGChart) js" where
  "new_ShanoirNGChart parseURL ident cfg =
     andThen (console_error (origProps cfg)) (\<lambda>_.
     andThen (assert (isUndefined (mysqlDatabases cfg))) (\<lambda>_.
     andThen (assert (isUndefined (postgresqlDatabases cfg))) (\<lambda>_.
     andThen (assert (isUndefined (keycloakUrl cfg))) (\<lambda>_.
     andThen (checkResourceMap ''volume claim'' (Some (volumeClaimProps cfg)) shanoirVolumes)
       (\<lambda>_.
     andThen (checkResourceMap ''mysql database'' (read (mysqlDatabases cfg))
                shanoirMysqlDatabases) (\<lambda>_.
     andThen (checkResourceMap ''postgresql database'' (read (postgresqlDatabases cfg))
                shanoirPostgresqlDatabases) (\<lambda>_.
     (let useInternalKeycloak = isUndefined (keycloakUrl cfg);
          useInternalMysqlDatabases = isUndefined (mysqlDatabases cfg);
          useInternalPostgresqlDatabases = isUndefined (postgresqlDatabases cfg);
          p = applyDefaults ident cfg
      in
     andThen (console_error (compiledProps p)) (\<lambda>_.
     andThen (new [Chart ident p]) (\<lambda>_.
     afterSuper parseURL p useInternalKeycloak useInternalMysqlDatabases
       useInternalPostgresqlDatabases))))))))))"

text \<open>
  The scope. The library \<^verbatim>\<open>constructs\<close> keeps the children of a scope by id, and
  \<^verbatim>\<open>super(scope, id, props)\<close> makes the chart a child of \<open>scope\<close>: it throws when the scope
  has a child with that id already. The library is not part of this repository; this is
  its documented behaviour. The charts of the world are the children of the scope, the one
  application that the charts are created in.
\<close>

fun chartId :: "'c construct \<Rightarrow> string option" where
  "chartId (Chart i _) = Some i"
| "chartId _ = None"

definition children :: "'c world \<Rightarrow> string list" where
  "children w = List.map_filter chartId (constructs w)"



text \<open>The state before the constructor runs: nothing created, nothing printed.\<close>

definition emptyWorld :: "'c world" where
  "emptyWorld = \<lparr> constructs = [], console = [] \<rparr>"

text \<open>The configuration of the example of the README, with an empty object for every volume claim.\<close>

definition readmeProps :: "unit ShanoirNGProps" where
  "readmeProps =
     \<lparr> namespace = Absent,
       labels = Absent,
       disableResourceNameHashes = Absent,
       version = Absent,
       url = ''https://shanoir-dummy.localhost/'',
       viewerUrl = ''https://shanoir-dummy-viewer.localhost/'',
       instanceName = Absent,
       instanceColor = Absent,
       adminName = ''Dummy Admin'',
       adminEmail = ''admin@shanoir-dummy.localhost'',
       dockerRepository = Absent,
       mysqlDatabases = Absent,
       postgresqlDatabases = Absent,
       smtp =
         \<lparr> host = ''dummy-stmp.localhost'',
           port = Absent,
           auth = Value \<lparr> username = ''smtp-user'', password = ''stmp-pass'' \<rparr>,
           starttls = Absent,
           fromAddress = ''no-reply@shanoir-dummy.localhost'' \<rparr>,
       allowedAdminIps = Absent,
       keycloakUrl = Absent,
       keycloakCredentials = \<lparr> username = ''admin'', password = ''qzflpuy;'' \<rparr>,
       vip = Absent,
       volumeClaimProps = map (\<lambda>name. (name, ())) shanoirVolumes,
       createNamespace = Absent \<rparr>"

section \<open>Observations used in the statements\<close>

text \<open>The id of a construct in the chart.\<close>

fun constructId :: "'c construct \<Rightarrow> string" where
  "constructId (Chart i _) = i"
| "constructId (PersistentVolumeClaim i _) = i"
| "constructId (Volume i _) = i"
| "constructId (ConfigMap i _) = i"
| "constructId (Secret i _) = i"
| "constructId (Namespace i _) = i"
| "constructId (Deployment i _) = i"
| "constructId (Service i _ _ _) = i"

text \<open>The kind of a construct.\<close>

fun constructKind :: "'c construct \<Rightarrow> string" where
  "constructKind (Chart _ _) = ''Chart''"
| "constructKind (PersistentVolumeClaim _ _) = ''PersistentVolumeClaim''"
| "constructKind (Volume _ _) = ''Volume''"
| "constructKind (ConfigMap _ _) = ''ConfigMap''"
| "constructKind (Secret _ _) = ''Secret''"
| "constructKind (Namespace _ _) = ''Namespace''"
| "constructKind (Deployment _ _) = ''Deployment''"
| "constructKind (Service _ _ _ _) = ''Service''"

text \<open>
  What the chart asserts of a URL: it parses, its port is empty and its path is \<open>/\<close>.
\<close>

definition rootURL :: "(string \<Rightarrow> URL option) \<Rightarrow> string \<Rightarrow> bool" where
  "rootURL parseURL s =
     (case parseURL s of None \<Rightarrow> False | Some u \<Rightarrow> URL.port u = [] \<and> pathname u = ''/'')"



text \<open>
  The deployments and services of the chart when every backend is internal, by kind and
  id, in the order of their creation.
\<close>

definition chartServices :: "(string \<times> string) list" where
  "chartServices =
     [(''Deployment'', ''database-deploy''), (''Service'', ''database-svc''),
      (''Deployment'', ''rabbitmq-deploy''), (''Service'', ''rabbitmq-svc''),
      (''Deployment'', ''solr-deploy''), (''Service'', ''solr-svc''),
      (''Deployment'', ''keycloak-deploy''), (''Service'', ''keycloak-svc''),
      (''Deployment'', ''dcm4chee-ldap-deploy''), (''Service'', ''dcm4chee-ldap-svc''),
      (''Deployment'', ''dcm4chee-database-deploy''), (''Service'', ''dcm4chee-database-svc''),
      (''Deployment'', ''dcm4chee-arc-deploy''), (''Service'', ''dcm4chee-arc-svc''),
      (''Deployment'', ''users-deploy''), (''Service'', ''users-svc''),
      (''Deployment'', ''studies-deploy''), (''Service'', ''studies-svc''),
      (''Deployment'', ''import-deploy''), (''Service'', ''import-svc''),
      (''Deployment'', ''datasets-deploy''), (''Service'', ''datasets-svc''),
      (''Deployment'', ''preclinical-deploy''), (''Service'', ''preclinical-svc''),
      (''Deployment'', ''nifti-conversion-deploy''), (''Deployment'', ''nginx-deploy''),
      (''Service'', ''nginx-svc'')]"

text \<open>
  The chart that an accepted configuration is assembled into: the fields of the chart
  object \<open>this\<close>, the console lines and the constructs, in the order of their creation,
  that the constructor adds to the state \<open>w\<close>, giving \<open>w'\<close>. Here \<open>u\<close>, \<open>viewer\<close> are the
  parsed URLs of the instance and of the viewer, \<open>v\<close> is the VIP configuration after the
  defaults, and \<open>svcs\<close> are the deployments and services.
\<close>

definition assembled ::
    "string \<Rightarrow> 'c ShanoirNGProps \<Rightarrow> URL \<Rightarrow> URL \<Rightarrow> ShanoirVipProps \<Rightarrow> 'c world \<Rightarrow>
     'c ShanoirNGChart \<Rightarrow> 'c world \<Rightarrow> 'c construct list \<Rightarrow> bool" where
  "assembled ident cfg u viewer v w this w' svcs =
     (let p = applyDefaults ident cfg in
  props this = p \<and> commonConfigMap this = ''common-cm'' \<and> secret this = ''sec'' \<and>
    volumeClaims this =
      fromEntries (map (\<lambda>(name, c). (name, name @ ''-pvc'')) (volumeClaimProps cfg)) \<and>
    volumes this =
      fromEntries (map (\<lambda>(name, pvc). (name, name @ ''-rv'')) (volumeClaims this)) \<and>
    console w' =
      console w @ origProps cfg #
      (if filter (\<lambda>x. x \<notin> set shanoirVolumes) (newSet (keys (volumeClaimProps cfg))) = []
       then []
       else [message (''warning: unknown volume claim: '' @
               join '','' (filter (\<lambda>x. x \<notin> set shanoirVolumes)
                            (newSet (keys (volumeClaimProps cfg)))))]) @
      [compiledProps p] \<and>
    constructs w' =
      constructs w @ Chart ident p #
      map (\<lambda>(name, c). PersistentVolumeClaim (name @ ''-pvc'') c) (volumeClaimProps cfg) @
      map (\<lambda>(name, pvc). Volume (name @ ''-rv'') pvc) (volumeClaims this) @
      [ConfigMap ''common-cm''
         [(''SHANOIR_PREFIX'', Some []),
          (''SHANOIR_URL_SCHEME'', Some (stripColon (protocol u))),
          (''SHANOIR_URL_HOST'', Some (URL.host u)),
          (''SHANOIR_VIEWER_OHIF_URL_SCHEME'', Some (stripColon (protocol viewer))),
          (''SHANOIR_VIEWER_OHIF_URL_HOST'', Some (URL.host viewer)),
          (''SHANOIR_ADMIN_EMAIL'', Some (adminEmail cfg)),
          (''SHANOIR_ADMIN_NAME'', Some (adminName cfg)),
          (''SHANOIR_INSTANCE_COLOR'', read (instanceColor p)),
          (''SHANOIR_INSTANCE_NAME'', read (instanceName p)),
          (''SHANOIR_KEYCLOAK_ADAPTER_MODE'', Some ''check-sso''),
          (''SHANOIR_X_FORWARDED'', Some ''trust''),
          (''SHANOIR_CERTIFICATE'', Some ''manual''),
          (''SHANOIR_CERTIFICATE_PEM_CRT'', Some ''none''),
          (''SHANOIR_CERTIFICATE_PEM_KEY'', Some ''none''),
          (''SHANOIR_MIGRATION'', Some ''never'')],
       Secret ''sec''
         (map (\<lambda>(name, cred). (name, Some (password cred)))
            (defaultMysqlDatabases @ defaultPostgresqlDatabases) @
          [(''keycloak-admin'', Some (password (keycloakCredentials cfg))),
           (''vip-client-secret'', read (clientSecret v)),
           (''smtp'', Some (case read (auth (smtp cfg)) of None \<Rightarrow> [] | Some a \<Rightarrow> password a))])] @
      (if read (createNamespace p) = Some True then [Namespace ''ns'' (read (namespace p))]
       else []) @
      svcs \<and>
    map (\<lambda>c. (constructKind c, constructId c)) svcs = chartServices \<and>
    Service ''database-svc'' ''database'' [3306] ''database-deploy'' \<in> set svcs \<and>
    Service ''keycloak-svc'' ''keycloak'' [8080] ''keycloak-deploy'' \<in> set svcs)"


definition externalMysqlDatabases :: "(string \<times> ShanoirDatabaseProps) list" where
  "externalMysqlDatabases =
     map (\<lambda>name. (name, \<lparr> username = name, password = ''secret'', db = name,
                          ShanoirDatabaseProps.host = ''mysql.example.org'',
                          ShanoirDatabaseProps.port = Value 3306 \<rparr>))
       shanoirMysqlDatabases"


section \<open>Running the model\<close>

subsection \<open>Sequencing\<close>

lemma andThen_ret [simp]: "andThen (ret a) f = f a"
  by (simp add: andThen_def ret_def)

lemma andThen_throw [simp]: "andThen (throw e) f = throw e"
  by (simp add: andThen_def throw_def)

lemma andThen_new [simp]:
  "andThen (new cs) f w = f () (w\<lparr> constructs := constructs w @ cs \<rparr>)"
  by (simp add: andThen_def new_def)

lemma andThen_console_error [simp]:
  "andThen (console_error l) f w = f () (w\<lparr> console := console w @ [l] \<rparr>)"
  by (simp add: andThen_def console_error_def)

lemma andThen_assoc [simp]: "andThen (andThen m f) g = andThen m (\<lambda>a. andThen (f a) g)"
  by (auto simp: andThen_def fun_eq_iff split: prod.splits sum.splits)

lemma assert_True [simp]: "assert True = ret ()"
  by (simp add: assert_def)

lemma assert_False [simp]: "assert False = throw AssertionError"
  by (simp add: assert_def)

lemma ret_apply [simp]: "ret a w = (Inr a, w)"
  by (simp add: ret_def)

lemma throw_apply [simp]: "throw e w = (Inl e, w)"
  by (simp add: throw_def)

lemma new_apply [simp]: "new cs w = (Inr (), w\<lparr> constructs := constructs w @ cs \<rparr>)"
  by (simp add: new_def)

lemma andThen_Inr:
  "andThen m f w = (Inr b, w') \<longleftrightarrow> (\<exists>a w1. m w = (Inr a, w1) \<and> f a w1 = (Inr b, w'))"
  by (auto simp: andThen_def split: prod.splits sum.splits)

lemma world_constructs_eq [simp]:
  "(w\<lparr> constructs := xs \<rparr> = w\<lparr> constructs := ys \<rparr>) = (xs = ys)"
  by (cases w) simp

subsection \<open>checkResourceMap\<close>

lemma set_newSet [simp]: "set (newSet xs) = set xs"
  by (simp add: newSet_def)

lemma checkResourceMap_None [simp]: "checkResourceMap desc None expect = ret ()"
  by (simp add: checkResourceMap_def)

lemma checkResourceMap_missing:
  assumes "k \<in> set expect" and "k \<notin> set (keys obj)"
  shows "\<exists>msg w'. checkResourceMap desc (Some obj) expect w = (Inl (Thrown msg), w') \<and>
           constructs w' = constructs w"
proof -
  have "filter (\<lambda>x. \<not> has (newSet (keys obj)) x) (newSet expect) \<noteq> []"
    using assms by (auto simp: filter_empty_conv has_def)
  then show ?thesis
    by (simp add: checkResourceMap_def Let_def)
qed

lemma checkResourceMap_complete:
  assumes "set expect \<subseteq> set (keys obj)"
  shows "checkResourceMap desc (Some obj) expect w =
           (Inr (),
            w\<lparr> console := console w @
                 (if filter (\<lambda>x. x \<notin> set expect) (newSet (keys obj)) = [] then []
                  else [message (''warning: unknown '' @ desc @ '': '' @
                          join '','' (filter (\<lambda>x. x \<notin> set expect) (newSet (keys obj))))]) \<rparr>)"
proof -
  have "filter (\<lambda>x. \<not> has (newSet (keys obj)) x) (newSet expect) = []"
    using assms by (auto simp: filter_empty_conv has_def)
  then show ?thesis
    by (simp add: checkResourceMap_def Let_def has_def)
qed

lemma checkResourceMap_Inr:
  assumes "checkResourceMap desc (Some obj) expect w = (Inr a, w')"
  shows "set expect \<subseteq> set (keys obj)"
proof (rule ccontr)
  assume "\<not> set expect \<subseteq> set (keys obj)"
  then obtain k where "k \<in> set expect" "k \<notin> set (keys obj)" by blast
  from checkResourceMap_missing [OF this, where desc = desc and w = w] assms show False by auto
qed

subsection \<open>Objects\<close>

lemma foldl_update_distinct:
  "distinct (map fst (acc @ es)) \<Longrightarrow>
   foldl (\<lambda>obj (k, v). AList.update k v obj) acc es = acc @ es"
proof (induction es arbitrary: acc)
  case Nil
  then show ?case by simp
next
  case (Cons e es)
  obtain k v where e: "e = (k, v)" by (cases e)
  from Cons.prems have "k \<notin> fst ` set acc" by (auto simp: e)
  then have "AList.update k v acc = acc @ [(k, v)]"
    by (induction acc) auto
  with Cons show ?case by (simp add: e)
qed

lemma fromEntries_distinct: "distinct (map fst es) \<Longrightarrow> fromEntries es = es"
  using foldl_update_distinct [of "[]" es] by (simp add: fromEntries_def)

lemma createVolumeClaims_run:
  "createVolumeClaims p w =
     (Inr (fromEntries (map (\<lambda>(name, claimProps). (name, name @ ''-pvc'')) (volumeClaimProps p))),
      w\<lparr> constructs := constructs w @
            map (\<lambda>(name, claimProps). PersistentVolumeClaim (name @ ''-pvc'') claimProps)
              (volumeClaimProps p) \<rparr>)"
  by (simp add: createVolumeClaims_def)

lemma createVolumes_run:
  "createVolumes claims w =
     (Inr (fromEntries (map (\<lambda>(name, pvc). (name, name @ ''-rv'')) claims)),
      w\<lparr> constructs := constructs w @ map (\<lambda>(name, pvc). Volume (name @ ''-rv'') pvc) claims \<rparr>)"
  by (simp add: createVolumes_def)

lemma createCommonConfigMap_run:
  assumes "parseURL (url p) = Some u" and "URL.port u = []" and "pathname u = ''/''"
    and "parseURL (viewerUrl p) = Some viewer" and "URL.port viewer = []"
    and "pathname viewer = ''/''"
  shows "createCommonConfigMap parseURL p w =
     (Inr ''common-cm'',
      w\<lparr> constructs := constructs w @
        [ConfigMap ''common-cm''
           [(''SHANOIR_PREFIX'', Some []),
            (''SHANOIR_URL_SCHEME'', Some (stripColon (protocol u))),
            (''SHANOIR_URL_HOST'', Some (URL.host u)),
            (''SHANOIR_VIEWER_OHIF_URL_SCHEME'', Some (stripColon (protocol viewer))),
            (''SHANOIR_VIEWER_OHIF_URL_HOST'', Some (URL.host viewer)),
            (''SHANOIR_ADMIN_EMAIL'', Some (adminEmail p)),
            (''SHANOIR_ADMIN_NAME'', Some (adminName p)),
            (''SHANOIR_INSTANCE_COLOR'', read (instanceColor p)),
            (''SHANOIR_INSTANCE_NAME'', read (instanceName p)),
            (''SHANOIR_KEYCLOAK_ADAPTER_MODE'', Some ''check-sso''),
            (''SHANOIR_X_FORWARDED'', Some ''trust''),
            (''SHANOIR_CERTIFICATE'', Some ''manual''),
            (''SHANOIR_CERTIFICATE_PEM_CRT'', Some ''none''),
            (''SHANOIR_CERTIFICATE_PEM_KEY'', Some ''none''),
            (''SHANOIR_MIGRATION'', Some ''never'')]] \<rparr>)"
  using assms by (simp add: createCommonConfigMap_def fromEntries_distinct)

lemma createSecret_run:
  assumes "mysqlDatabases p = Value mysql" and "postgresqlDatabases p = Value postgresql"
    and "vip p = Value v"
  shows "createSecret p w =
     (Inr ''sec'',
      w\<lparr> constructs := constructs w @
        [Secret ''sec''
           (fromEntries
              (fromEntries (map (\<lambda>(name, cred). (name, Some (password cred)))
                              (mysql @ postgresql)) @
               [(''keycloak-admin'', Some (password (keycloakCredentials p))),
                (''vip-client-secret'', read (clientSecret v)),
                (''smtp'', Some (case read (auth (smtp p)) of None \<Rightarrow> [] | Some a \<Rightarrow> password a))]))] \<rparr>)"
  using assms by (simp add: createSecret_def)

lemma createSecret_Inr:
  assumes "createSecret p w = (Inr s, w')"
  shows "read (mysqlDatabases p) \<noteq> None \<and> read (postgresqlDatabases p) \<noteq> None"
  using assms by (auto simp: createSecret_def split: option.splits)

lemma createSmtpEnvVariables_run:
  assumes "port (smtp p) = Value n"
  shows "createSmtpEnvVariables p sec w =
     (Inr [(''SHANOIR_SMTP_HOST'', fromValue (Some (host (smtp p)))),
           (''SHANOIR_SMTP_PORT'', fromValue (Some (numberToString n))),
           (''SHANOIR_STMP_AUTH'', fromValue (Some (boolToString (\<not> isUndefined (auth (smtp p)))))),
           (''SHANOIR_SMTP_USERNAME'',
            fromValue (Some (case read (auth (smtp p)) of None \<Rightarrow> [] | Some a \<Rightarrow> username a))),
           (''SHANOIR_SMTP_STARTTLS_ENABLE'',
            fromValue (Some (boolToString (read (starttls (smtp p)) \<noteq> Some disabled)))),
           (''SHANOIR_SMTP_STARTTLS_REQUIRED'',
            fromValue (Some (boolToString (read (starttls (smtp p)) = Some required)))),
           (''SHANOIR_SMTP_FROM'', fromValue (Some (fromAddress (smtp p)))),
           (''SHANOIR_SMTP_PASSWORD'', fromSecretValue sec ''smtp'')], w)"
  using assms by (simp add: createSmtpEnvVariables_def fromEntries_distinct)

lemma createSmtpEnvVariables_Inr:
  assumes "createSmtpEnvVariables p sec w = (Inr env, w')"
  shows "read (port (smtp p)) \<noteq> None"
  using assms by (auto simp: createSmtpEnvVariables_def split: option.splits)

lemma createVipEnvVariables_run:
  assumes "vip p = Value v" and "parseURL (template (ShanoirVipProps.url v)) = Some u"
    and "URL.port u = []" and "pathname u = ''/''"
  shows "createVipEnvVariables parseURL p w =
     (Inr [(''VIP_URL_SCHEME'', fromValue (Some (stripColon (protocol u)))),
           (''VIP_URL_HOST'', fromValue (Some (URL.host u)))], w)"
  using assms by (simp add: createVipEnvVariables_def fromEntries_distinct)

lemma createVipEnvVariables_Inr:
  assumes "createVipEnvVariables parseURL p w = (Inr env, w')" and "vip p = Value v"
  shows "rootURL parseURL (template (ShanoirVipProps.url v))"
  using assms
  by (auto simp: createVipEnvVariables_def rootURL_def assert_def split: option.splits if_splits)

lemma createCommonConfigMap_Inr:
  assumes "createCommonConfigMap parseURL p w = (Inr cm, w')"
  shows "rootURL parseURL (url p) \<and> rootURL parseURL (viewerUrl p)"
  using assms
  by (auto simp: createCommonConfigMap_def rootURL_def assert_def split: option.splits if_splits)

lemma createService_Some:
  "ps \<noteq> [] \<Longrightarrow> createService name (Some ps) c w =
     (Inr (Some (name @ ''-svc'')),
      w\<lparr> constructs := constructs w @
            [Deployment (name @ ''-deploy'') c,
             Service (name @ ''-svc'') name ps (name @ ''-deploy'')] \<rparr>)"
  by (simp add: createService_def)

lemma createService_None:
  "createService name None c w =
     (Inr None, w\<lparr> constructs := constructs w @ [Deployment (name @ ''-deploy'') c] \<rparr>)"
  by (simp add: createService_def)

lemma andThen_createService_Some [simp]:
  "ps \<noteq> [] \<Longrightarrow> andThen (createService name (Some ps) c) f w =
     f (Some (name @ ''-svc''))
       (w\<lparr> constructs := constructs w @
            [Deployment (name @ ''-deploy'') c,
             Service (name @ ''-svc'') name ps (name @ ''-deploy'')] \<rparr>)"
  by (simp add: andThen_def createService_Some)

lemma andThen_createService_None [simp]:
  "andThen (createService name None c) f w =
     f None (w\<lparr> constructs := constructs w @ [Deployment (name @ ''-deploy'') c] \<rparr>)"
  by (simp add: andThen_def createService_None)

lemma andThen_createShanoirMicroservice [simp]:
  "andThen (createShanoirMicroservice this name ports ev ms) f w =
   andThen
     (createService name ports
        \<lparr> image = shanoirImage (props this) name, args = None,
          envFrom = Some [commonConfigMap this],
          envVariables = Some (case ev of None \<Rightarrow> [] | Some e \<Rightarrow> e),
          volumeMounts =
            Some (\<lparr> path = ''/var/log/shanoir-ng-logs'', volume = map_of (volumes this) ''logs'',
                     subPath = None \<rparr> # (case ms of None \<Rightarrow> [] | Some ms \<Rightarrow> ms)) \<rparr>) f w"
  by (simp add: createShanoirMicroservice_def)

lemma backendServices_Inr:
  assumes "backendServices this um True kc smtpEnv w = (Inr a, w')"
  shows "read (allowedAdminIps (props this)) \<noteq> None"
  using assms by (cases um) (auto simp: backendServices_def split: option.splits)

lemma applyDefaults_simps:
  "url (applyDefaults i q) = url q"
  "viewerUrl (applyDefaults i q) = viewerUrl q"
  "adminName (applyDefaults i q) = adminName q"
  "adminEmail (applyDefaults i q) = adminEmail q"
  "keycloakCredentials (applyDefaults i q) = keycloakCredentials q"
  "keycloakUrl (applyDefaults i q) = keycloakUrl q"
  "volumeClaimProps (applyDefaults i q) = volumeClaimProps q"
  "namespace (applyDefaults i q) = layer (Value i) (namespace q)"
  "version (applyDefaults i q) = layer (Value ''NG_v2.9.2'') (version q)"
  "instanceName (applyDefaults i q) = layer (Value []) (instanceName q)"
  "instanceColor (applyDefaults i q) = layer (Value []) (instanceColor q)"
  "dockerRepository (applyDefaults i q) =
     layer (Value ''ghcr.io/fli-iam/shanoir-ng'') (dockerRepository q)"
  "allowedAdminIps (applyDefaults i q) = layer (Value []) (allowedAdminIps q)"
  "createNamespace (applyDefaults i q) = layer (Value True) (createNamespace q)"
  "mysqlDatabases (applyDefaults i q) = layer (Value defaultMysqlDatabases) (mysqlDatabases q)"
  "postgresqlDatabases (applyDefaults i q) =
     layer (Value defaultPostgresqlDatabases) (postgresqlDatabases q)"
  "host (smtp (applyDefaults i q)) = host (smtp q)"
  "fromAddress (smtp (applyDefaults i q)) = fromAddress (smtp q)"
  "port (smtp (applyDefaults i q)) = layer (Value 25) (port (smtp q))"
  "auth (smtp (applyDefaults i q)) = layer Undefined (auth (smtp q))"
  "starttls (smtp (applyDefaults i q)) = layer (Value disabled) (starttls (smtp q))"
  by (simp_all add: applyDefaults_def shanoirNGDefaults_def shanoirSmtpDefaults_def)

lemma applyDefaults_vip:
  "vip (applyDefaults i q) =
     Value (case read (vip q) of
              None \<Rightarrow> shanoirVipDefaults
            | Some v \<Rightarrow>
                \<lparr> ShanoirVipProps.url =
                    layer (Value ''https://vip.creatis.insa-lyon.fr'') (ShanoirVipProps.url v),
                  clientSecret = layer (Value ''SECRET'') (clientSecret v),
                  serviceEmail = layer (Value []) (serviceEmail v) \<rparr>)"
  by (simp add: applyDefaults_def shanoirVipDefaults_def split: option.split)

lemma read_layer_Value [simp]: "read (layer (Value d) f) = None \<longleftrightarrow> f = Undefined"
  by (cases f) simp_all

lemma layer_eq_Absent [simp]: "layer (Value d) f \<noteq> Absent"
  by (cases f) simp_all

lemma backendServices_ex:
  "\<exists>F. \<forall>(this :: 'c ShanoirNGChart) kc se.
     read (allowedAdminIps (props this)) \<noteq> None \<longrightarrow>
       (\<forall>w. backendServices this True True kc se w =
              (Inr (), w\<lparr> constructs := constructs w @ F this kc se \<rparr>)) \<and>
       map (\<lambda>c. (constructKind c, constructId c)) (F this kc se) =
         [(''Deployment'', ''database-deploy''), (''Service'', ''database-svc''), (''Deployment'', ''rabbitmq-deploy''), (''Service'', ''rabbitmq-svc''),
          (''Deployment'', ''solr-deploy''), (''Service'', ''solr-svc''), (''Deployment'', ''keycloak-deploy''), (''Service'', ''keycloak-svc'')] \<and>
       Service ''database-svc'' ''database'' [3306] ''database-deploy'' \<in> set (F this kc se) \<and>
       Service ''keycloak-svc'' ''keycloak'' [8080] ''keycloak-deploy'' \<in> set (F this kc se)"
  by (rule exI [of _ "\<lambda>this kc se.
        constructs (snd (backendServices this True True kc se emptyWorld))"])
     (auto simp: backendServices_def emptyWorld_def)

lemma dcm4chee_ex:
  "\<exists>F. \<forall>(this :: 'c ShanoirNGChart).
     postgresqlDatabases (props this) = Value defaultPostgresqlDatabases \<longrightarrow>
       (\<forall>w. dcm4chee this True w = (Inr (), w\<lparr> constructs := constructs w @ F this \<rparr>)) \<and>
       map (\<lambda>c. (constructKind c, constructId c)) (F this) =
         [(''Deployment'', ''dcm4chee-ldap-deploy''), (''Service'', ''dcm4chee-ldap-svc''), (''Deployment'', ''dcm4chee-database-deploy''),
          (''Service'', ''dcm4chee-database-svc''), (''Deployment'', ''dcm4chee-arc-deploy''), (''Service'', ''dcm4chee-arc-svc'')]"
  by (rule exI [of _ "\<lambda>this. constructs (snd (dcm4chee this True emptyWorld))"])
     (auto simp: dcm4chee_def defaultPostgresqlDatabases_def Let_def emptyWorld_def)

lemma shanoirMicroServices_ex:
  "\<exists>F. \<forall>(this :: 'c ShanoirNGChart) kc se ve.
     read (vip (props this)) \<noteq> None \<longrightarrow>
       (\<forall>w. shanoirMicroServices this kc se ve w =
              (Inr (), w\<lparr> constructs := constructs w @ F this kc se ve \<rparr>)) \<and>
       map (\<lambda>c. (constructKind c, constructId c)) (F this kc se ve) =
         [(''Deployment'', ''users-deploy''), (''Service'', ''users-svc''), (''Deployment'', ''studies-deploy''), (''Service'', ''studies-svc''),
          (''Deployment'', ''import-deploy''), (''Service'', ''import-svc''), (''Deployment'', ''datasets-deploy''), (''Service'', ''datasets-svc''),
          (''Deployment'', ''preclinical-deploy''), (''Service'', ''preclinical-svc''), (''Deployment'', ''nifti-conversion-deploy'')]"
  by (rule exI [of _ "\<lambda>this kc se ve.
        constructs (snd (shanoirMicroServices this kc se ve emptyWorld))"])
     (auto simp: shanoirMicroServices_def emptyWorld_def)

lemma front_ex:
  "\<exists>F. \<forall>(this :: 'c ShanoirNGChart) ve.
       (\<forall>w. front this ve w = (Inr (), w\<lparr> constructs := constructs w @ F this ve \<rparr>)) \<and>
       map (\<lambda>c. (constructKind c, constructId c)) (F this ve) = [(''Deployment'', ''nginx-deploy''), (''Service'', ''nginx-svc'')]"
  by (rule exI [of _ "\<lambda>this ve. constructs (snd (front this ve emptyWorld))"])
     (auto simp: front_def emptyWorld_def)

lemma isUndefined_simps [simp]:
  "isUndefined Absent" "isUndefined Undefined" "\<not> isUndefined (Value v)"
  by (simp_all add: isUndefined_def)

lemma read_layer_Undefined [simp]: "read (layer Undefined f) = read f"
  by (cases f) simp_all

lemma defaultMysqlDatabases_keys:
  "map fst defaultMysqlDatabases = shanoirMysqlDatabases"
  by (simp add: defaultMysqlDatabases_def shanoirMysqlDatabases_def)

lemma secret_default_entries:
  "fromEntries
     (fromEntries (map (\<lambda>(name, cred). (name, Some (password cred)))
                     (defaultMysqlDatabases @ defaultPostgresqlDatabases)) @
      [(''keycloak-admin'', a), (''vip-client-secret'', b), (''smtp'', c)]) =
   map (\<lambda>(name, cred). (name, Some (password cred)))
     (defaultMysqlDatabases @ defaultPostgresqlDatabases) @
   [(''keycloak-admin'', a), (''vip-client-secret'', b), (''smtp'', c)]"
proof -
  have d: "distinct (map fst (map (\<lambda>(name, cred). (name, Some (password cred)))
             (defaultMysqlDatabases @ defaultPostgresqlDatabases) @
           [(''keycloak-admin'', a), (''vip-client-secret'', b), (''smtp'', c)]))"
    by (simp add: defaultMysqlDatabases_def shanoirMysqlDatabases_def
        defaultPostgresqlDatabases_def)
  then have "distinct (map fst (map (\<lambda>(name, cred). (name, Some (password cred)))
             (defaultMysqlDatabases @ defaultPostgresqlDatabases)))"
    by simp
  then show ?thesis
    using d by (simp only: fromEntries_distinct)
qed

lemma new_ShanoirNGChart_run:
  fixes cfg :: "'c ShanoirNGProps"
  assumes p: "p = applyDefaults ident cfg"
    and kc: "isUndefined (keycloakUrl cfg)"
    and my: "mysqlDatabases cfg = Absent"
    and pg: "postgresqlDatabases cfg = Absent"
    and vol: "set shanoirVolumes \<subseteq> set (keys (volumeClaimProps cfg))"
    and u: "parseURL (url cfg) = Some u" "URL.port u = []" "pathname u = ''/''"
    and vw: "parseURL (viewerUrl cfg) = Some viewer" "URL.port viewer = []"
      "pathname viewer = ''/''"
    and vp: "vip p = Value v" "parseURL (template (ShanoirVipProps.url v)) = Some vu"
      "URL.port vu = []" "pathname vu = ''/''"
    and sp: "port (smtp cfg) \<noteq> Undefined"
    and ips: "allowedAdminIps cfg \<noteq> Undefined"
  shows "\<exists>this w' svcs.
    new_ShanoirNGChart parseURL ident cfg w = (Inr this, w') \<and>
    assembled ident cfg u viewer v w this w' svcs"
proof -
  obtain F1 where F1: "\<And>(this :: 'c ShanoirNGChart) kc se.
      read (allowedAdminIps (props this)) \<noteq> None \<Longrightarrow>
       (\<forall>w. backendServices this True True kc se w =
              (Inr (), w\<lparr> constructs := constructs w @ F1 this kc se \<rparr>)) \<and>
       map (\<lambda>c. (constructKind c, constructId c)) (F1 this kc se) =
         [(''Deployment'', ''database-deploy''), (''Service'', ''database-svc''), (''Deployment'', ''rabbitmq-deploy''), (''Service'', ''rabbitmq-svc''),
          (''Deployment'', ''solr-deploy''), (''Service'', ''solr-svc''), (''Deployment'', ''keycloak-deploy''), (''Service'', ''keycloak-svc'')] \<and>
       Service ''database-svc'' ''database'' [3306] ''database-deploy'' \<in> set (F1 this kc se) \<and>
       Service ''keycloak-svc'' ''keycloak'' [8080] ''keycloak-deploy'' \<in> set (F1 this kc se)"
    using backendServices_ex by blast
  obtain F2 where F2: "\<And>(this :: 'c ShanoirNGChart).
      postgresqlDatabases (props this) = Value defaultPostgresqlDatabases \<Longrightarrow>
       (\<forall>w. dcm4chee this True w = (Inr (), w\<lparr> constructs := constructs w @ F2 this \<rparr>)) \<and>
       map (\<lambda>c. (constructKind c, constructId c)) (F2 this) =
         [(''Deployment'', ''dcm4chee-ldap-deploy''), (''Service'', ''dcm4chee-ldap-svc''), (''Deployment'', ''dcm4chee-database-deploy''),
          (''Service'', ''dcm4chee-database-svc''), (''Deployment'', ''dcm4chee-arc-deploy''), (''Service'', ''dcm4chee-arc-svc'')]"
    using dcm4chee_ex by blast
  obtain F3 where F3: "\<And>(this :: 'c ShanoirNGChart) kc se ve.
      read (vip (props this)) \<noteq> None \<Longrightarrow>
       (\<forall>w. shanoirMicroServices this kc se ve w =
              (Inr (), w\<lparr> constructs := constructs w @ F3 this kc se ve \<rparr>)) \<and>
       map (\<lambda>c. (constructKind c, constructId c)) (F3 this kc se ve) =
         [(''Deployment'', ''users-deploy''), (''Service'', ''users-svc''), (''Deployment'', ''studies-deploy''), (''Service'', ''studies-svc''),
          (''Deployment'', ''import-deploy''), (''Service'', ''import-svc''), (''Deployment'', ''datasets-deploy''), (''Service'', ''datasets-svc''),
          (''Deployment'', ''preclinical-deploy''), (''Service'', ''preclinical-svc''), (''Deployment'', ''nifti-conversion-deploy'')]"
    using shanoirMicroServices_ex by blast
  obtain F4 where F4: "\<And>(this :: 'c ShanoirNGChart) ve.
       (\<forall>w. front this ve w = (Inr (), w\<lparr> constructs := constructs w @ F4 this ve \<rparr>)) \<and>
       map (\<lambda>c. (constructKind c, constructId c)) (F4 this ve) = [(''Deployment'', ''nginx-deploy''), (''Service'', ''nginx-svc'')]"
    using front_ex by blast
  have b1: "\<And>(this :: 'c ShanoirNGChart) kc se f w.
      read (allowedAdminIps (props this)) \<noteq> None \<Longrightarrow>
      andThen (backendServices this True True kc se) f w =
        f () (w\<lparr> constructs := constructs w @ F1 this kc se \<rparr>)"
    using F1 by (simp add: andThen_def)
  have b2: "\<And>(this :: 'c ShanoirNGChart) f w.
      postgresqlDatabases (props this) = Value defaultPostgresqlDatabases \<Longrightarrow>
      andThen (dcm4chee this True) f w = f () (w\<lparr> constructs := constructs w @ F2 this \<rparr>)"
    using F2 by (simp add: andThen_def)
  have b3: "\<And>(this :: 'c ShanoirNGChart) kc se ve f w.
      read (vip (props this)) \<noteq> None \<Longrightarrow>
      andThen (shanoirMicroServices this kc se ve) f w =
        f () (w\<lparr> constructs := constructs w @ F3 this kc se ve \<rparr>)"
    using F3 by (simp add: andThen_def)
  have b4: "\<And>(this :: 'c ShanoirNGChart) ve f w.
      andThen (front this ve) f w = f () (w\<lparr> constructs := constructs w @ F4 this ve \<rparr>)"
    using F4 by (simp add: andThen_def)
  have p_my: "mysqlDatabases p = Value defaultMysqlDatabases"
    and p_pg: "postgresqlDatabases p = Value defaultPostgresqlDatabases"
    using my pg by (simp_all add: p applyDefaults_simps)
  obtain n where p_port: "port (smtp p) = Value n"
    using sp by (cases "port (smtp cfg)") (simp_all add: p applyDefaults_simps)
  have p_ips: "read (allowedAdminIps p) \<noteq> None"
    using ips by (simp add: p applyDefaults_simps)
  have p_url: "url p = url cfg" "viewerUrl p = viewerUrl cfg"
    "volumeClaimProps p = volumeClaimProps cfg" "adminEmail p = adminEmail cfg"
    "adminName p = adminName cfg" "keycloakCredentials p = keycloakCredentials cfg"
    "read (auth (smtp p)) = read (auth (smtp cfg))"
    by (simp_all add: p applyDefaults_simps)
  have c1: "\<And>f w. andThen (checkResourceMap ''volume claim'' (Some (volumeClaimProps cfg))
                      shanoirVolumes) f (w :: 'c world) =
      f () (w\<lparr> console := console w @
        (if filter (\<lambda>x. x \<notin> set shanoirVolumes) (newSet (keys (volumeClaimProps cfg))) = []
         then []
         else [message (''warning: unknown volume claim: '' @
                 join '','' (filter (\<lambda>x. x \<notin> set shanoirVolumes)
                              (newSet (keys (volumeClaimProps cfg)))))]) \<rparr>)"
    by (simp add: andThen_def checkResourceMap_complete [OF vol])
  have c2: "\<And>f w. andThen (createVolumeClaims p) f (w :: 'c world) =
      f (fromEntries (map (\<lambda>(name, c). (name, name @ ''-pvc'')) (volumeClaimProps cfg)))
        (w\<lparr> constructs := constructs w @
           map (\<lambda>(name, c). PersistentVolumeClaim (name @ ''-pvc'') c) (volumeClaimProps cfg) \<rparr>)"
    by (simp add: andThen_def createVolumeClaims_run p_url)
  have c3: "\<And>claims f w. andThen (createVolumes claims) f (w :: 'c world) =
      f (fromEntries (map (\<lambda>(name, pvc). (name, name @ ''-rv'')) claims))
        (w\<lparr> constructs := constructs w @ map (\<lambda>(name, pvc). Volume (name @ ''-rv'') pvc) claims \<rparr>)"
    by (simp add: andThen_def createVolumes_run)
  have c4: "\<And>f w. andThen (createCommonConfigMap parseURL p) f (w :: 'c world) =
      f ''common-cm''
        (w\<lparr> constructs := constructs w @
        [ConfigMap ''common-cm''
         [(''SHANOIR_PREFIX'', Some []),
          (''SHANOIR_URL_SCHEME'', Some (stripColon (protocol u))),
          (''SHANOIR_URL_HOST'', Some (URL.host u)),
          (''SHANOIR_VIEWER_OHIF_URL_SCHEME'', Some (stripColon (protocol viewer))),
          (''SHANOIR_VIEWER_OHIF_URL_HOST'', Some (URL.host viewer)),
          (''SHANOIR_ADMIN_EMAIL'', Some (adminEmail cfg)),
          (''SHANOIR_ADMIN_NAME'', Some (adminName cfg)),
          (''SHANOIR_INSTANCE_COLOR'', read (instanceColor p)),
          (''SHANOIR_INSTANCE_NAME'', read (instanceName p)),
          (''SHANOIR_KEYCLOAK_ADAPTER_MODE'', Some ''check-sso''),
          (''SHANOIR_X_FORWARDED'', Some ''trust''),
          (''SHANOIR_CERTIFICATE'', Some ''manual''),
          (''SHANOIR_CERTIFICATE_PEM_CRT'', Some ''none''),
          (''SHANOIR_CERTIFICATE_PEM_KEY'', Some ''none''),
          (''SHANOIR_MIGRATION'', Some ''never'')]] \<rparr>)"
    using createCommonConfigMap_run [of parseURL p u viewer] u vw
    by (simp add: andThen_def p_url)
  have c5: "\<And>f w. andThen (createSecret p) f (w :: 'c world) =
      f ''sec''
        (w\<lparr> constructs := constructs w @
        [Secret ''sec''
         (map (\<lambda>(name, cred). (name, Some (password cred)))
            (defaultMysqlDatabases @ defaultPostgresqlDatabases) @
          [(''keycloak-admin'', Some (password (keycloakCredentials cfg))),
           (''vip-client-secret'', read (clientSecret v)),
           (''smtp'', Some (case read (auth (smtp cfg)) of None \<Rightarrow> [] | Some a \<Rightarrow> password a))])] \<rparr>)"
    by (simp only: andThen_def createSecret_run [OF p_my p_pg vp(1)] secret_default_entries
        p_url prod.case sum.case)
  obtain se where se: "\<And>w :: 'c world. createSmtpEnvVariables p ''sec'' w = (Inr se, w)"
    by (simp add: createSmtpEnvVariables_run [OF p_port])
  have c6: "\<And>f w. andThen (createSmtpEnvVariables p ''sec'') f (w :: 'c world) = f se w"
    by (simp add: andThen_def se)
  obtain ve where ve: "\<And>w :: 'c world. createVipEnvVariables parseURL p w = (Inr ve, w)"
    using createVipEnvVariables_run [where parseURL = parseURL and p = p and v = v and u = vu] vp
    by simp
  have c7: "\<And>f w. andThen (createVipEnvVariables parseURL p) f (w :: 'c world) = f ve w"
    by (simp add: andThen_def ve)
  show ?thesis
    by (simp add: new_ShanoirNGChart_def afterSuper_def Let_def kc my pg c1 c2 c3 c4 c5 c6 c7
        b1 b2 b3 b4
        p [symmetric] p_pg p_ips vp(1) F1 F2 F3 F4 assembled_def chartServices_def)
qed

subsection \<open>Validation and acceptance\<close>

lemma assert_Inr [simp]: "assert b w = (Inr a, w1) \<longleftrightarrow> b \<and> w1 = w"
  by (cases b) auto

lemma abort_mysql:
  "mysqlDatabases cfg = Value m \<Longrightarrow>
   new_ShanoirNGChart parseURL ident cfg w =
     (Inl AssertionError, w\<lparr> console := console w @ [origProps cfg] \<rparr>)"
  by (simp add: new_ShanoirNGChart_def)

lemma abort_postgresql:
  "postgresqlDatabases cfg = Value m \<Longrightarrow>
   new_ShanoirNGChart parseURL ident cfg w =
     (Inl AssertionError, w\<lparr> console := console w @ [origProps cfg] \<rparr>)"
  by (cases "isUndefined (mysqlDatabases cfg)") (simp_all add: new_ShanoirNGChart_def)

lemma abort_keycloakUrl:
  "keycloakUrl cfg = Value k \<Longrightarrow>
   new_ShanoirNGChart parseURL ident cfg w =
     (Inl AssertionError, w\<lparr> console := console w @ [origProps cfg] \<rparr>)"
  by (cases "isUndefined (mysqlDatabases cfg)"; cases "isUndefined (postgresqlDatabases cfg)")
     (simp_all add: new_ShanoirNGChart_def)

lemma abort_volume:
  assumes "k \<in> set shanoirVolumes" and "k \<notin> set (keys (volumeClaimProps cfg))"
  shows "\<exists>e w'. new_ShanoirNGChart parseURL ident cfg w = (Inl e, w') \<and>
           constructs w' = constructs w"
proof -
  obtain msg w1
    where "checkResourceMap ''volume claim'' (Some (volumeClaimProps cfg)) shanoirVolumes
             (w\<lparr> console := console w @ [origProps cfg] \<rparr>) = (Inl (Thrown msg), w1)"
      and "constructs w1 = constructs w"
    using checkResourceMap_missing [OF assms, where desc = "''volume claim''"
        and w = "w\<lparr> console := console w @ [origProps cfg] \<rparr>"]
    by auto
  then have step: "\<And>f. andThen (checkResourceMap ''volume claim'' (Some (volumeClaimProps cfg))
                 shanoirVolumes) f (w\<lparr> console := console w @ [origProps cfg] \<rparr>) =
             (Inl (Thrown msg), w1)"
    by (simp add: andThen_def)
  show ?thesis
    by (cases "isUndefined (mysqlDatabases cfg)";
        cases "isUndefined (postgresqlDatabases cfg)";
        cases "isUndefined (keycloakUrl cfg)")
       (simp_all add: new_ShanoirNGChart_def step \<open>constructs w1 = constructs w\<close>)
qed


lemma console_error_Inr [simp]:
  "console_error l w = (Inr a, w1) \<longleftrightarrow> w1 = w\<lparr> console := console w @ [l] \<rparr>"
  by (auto simp: console_error_def)

lemma new_ShanoirNGChart_Inr:
  assumes "new_ShanoirNGChart parseURL ident cfg w = (Inr this, w')"
  shows "isUndefined (keycloakUrl cfg)"
    and "mysqlDatabases cfg = Absent"
    and "postgresqlDatabases cfg = Absent"
    and "set shanoirVolumes \<subseteq> set (keys (volumeClaimProps cfg))"
    and "rootURL parseURL (url cfg)"
    and "rootURL parseURL (viewerUrl cfg)"
    and "\<exists>v. vip (applyDefaults ident cfg) = Value v \<and>
              rootURL parseURL (template (ShanoirVipProps.url v))"
    and "port (smtp cfg) \<noteq> Undefined"
    and "allowedAdminIps cfg \<noteq> Undefined"
proof -
  let ?p = "applyDefaults ident cfg"
  from assms have kc: "isUndefined (keycloakUrl cfg)"
    and my: "isUndefined (mysqlDatabases cfg)"
    and pg: "isUndefined (postgresqlDatabases cfg)"
    by (auto simp: new_ShanoirNGChart_def andThen_Inr)
  then have rd: "read (mysqlDatabases cfg) = None" "read (postgresqlDatabases cfg) = None"
    by (simp_all add: isUndefined_def)
  from assms kc my pg rd obtain w1 w2 claims vols cm w3 sec w4 se w5 ve w6 w7 w8 a
    where chk: "checkResourceMap ''volume claim'' (Some (volumeClaimProps cfg)) shanoirVolumes
                  (w\<lparr> console := console w @ [origProps cfg] \<rparr>) = (Inr (), w1)"
      and cmr: "createCommonConfigMap parseURL ?p w2 = (Inr cm, w3)"
      and secr: "createSecret ?p w3 = (Inr sec, w4)"
      and smtpr: "createSmtpEnvVariables ?p sec w4 = (Inr se, w5)"
      and vipr: "createVipEnvVariables parseURL ?p w5 = (Inr ve, w6)"
      and bsr: "backendServices
                  \<lparr> props = ?p, commonConfigMap = cm, secret = sec, volumes = vols,
                    volumeClaims = claims \<rparr> True True
                  (createKeycloakCredentialsEnvVariables ?p sec) se w7 = (Inr a, w8)"
    by (auto simp: new_ShanoirNGChart_def afterSuper_def andThen_Inr Let_def
        createVolumeClaims_run createVolumes_run split: if_splits)
  show "isUndefined (keycloakUrl cfg)" by (rule kc)
  from createSecret_Inr [OF secr] my pg
  show "mysqlDatabases cfg = Absent" and "postgresqlDatabases cfg = Absent"
    by (cases "mysqlDatabases cfg"; cases "postgresqlDatabases cfg";
        simp add: applyDefaults_simps)+
  from checkResourceMap_Inr [OF chk]
  show "set shanoirVolumes \<subseteq> set (keys (volumeClaimProps cfg))" .
  from createCommonConfigMap_Inr [OF cmr]
  show "rootURL parseURL (url cfg)" and "rootURL parseURL (viewerUrl cfg)"
    by (simp_all add: applyDefaults_simps)
  obtain v where v: "vip ?p = Value v" by (simp add: applyDefaults_vip)
  from createVipEnvVariables_Inr [OF vipr v] v
  show "\<exists>v. vip ?p = Value v \<and> rootURL parseURL (template (ShanoirVipProps.url v))"
    by blast
  from createSmtpEnvVariables_Inr [OF smtpr]
  show "port (smtp cfg) \<noteq> Undefined"
    by (simp add: applyDefaults_simps)
  from backendServices_Inr [OF bsr]
  show "allowedAdminIps cfg \<noteq> Undefined"
    by (simp add: applyDefaults_simps)
qed

subsection \<open>The example of the README\<close>

lemma checkResourceMap_missing_message:
  assumes "k \<in> set expect" and "k \<notin> set (keys obj)"
  shows "\<exists>w'. checkResourceMap desc (Some obj) expect w =
           (Inl (Thrown (''error: missing '' @ desc @ '': '' @
              join '','' (filter (\<lambda>x. x \<notin> set (keys obj)) (newSet expect)))), w') \<and>
           constructs w' = constructs w"
proof -
  have "filter (\<lambda>x. \<not> has (newSet (keys obj)) x) (newSet expect) \<noteq> []"
    using assms by (auto simp: filter_empty_conv has_def)
  then show ?thesis
    by (simp add: checkResourceMap_def Let_def has_def)
qed

lemma exampleURL_readme:
  "exampleURL ''https://shanoir-dummy.localhost/'' =
     Some \<lparr> protocol = ''https:'', URL.host = ''shanoir-dummy.localhost'', URL.port = [],
            pathname = ''/'' \<rparr>"
  "exampleURL ''https://shanoir-dummy-viewer.localhost/'' =
     Some \<lparr> protocol = ''https:'', URL.host = ''shanoir-dummy-viewer.localhost'', URL.port = [],
            pathname = ''/'' \<rparr>"
  "exampleURL ''https://vip.creatis.insa-lyon.fr'' =
     Some \<lparr> protocol = ''https:'', URL.host = ''vip.creatis.insa-lyon.fr'', URL.port = [],
            pathname = ''/'' \<rparr>"
  by (simp_all add: exampleURL_def)

lemma readmeProps_fields:
  "isUndefined (keycloakUrl readmeProps)"
  "mysqlDatabases readmeProps = Absent"
  "postgresqlDatabases readmeProps = Absent"
  "set shanoirVolumes \<subseteq> set (keys (volumeClaimProps readmeProps))"
  "url readmeProps = ''https://shanoir-dummy.localhost/''"
  "viewerUrl readmeProps = ''https://shanoir-dummy-viewer.localhost/''"
  "vip (applyDefaults ident readmeProps) = Value shanoirVipDefaults"
  "port (smtp readmeProps) \<noteq> Undefined"
  "allowedAdminIps readmeProps \<noteq> Undefined"
  by (simp_all add: readmeProps_def keys_def comp_def applyDefaults_vip)

lemma readme_accepted:
  "\<exists>this w'. new_ShanoirNGChart exampleURL ''dummy'' readmeProps w = (Inr this, w')"
proof -
  let ?root = "\<lambda>h. \<lparr> protocol = ''https:'', URL.host = h, URL.port = [], pathname = ''/'' \<rparr>"
  have u: "exampleURL (url readmeProps) = Some (?root ''shanoir-dummy.localhost'')"
    and vw: "exampleURL (viewerUrl readmeProps) = Some (?root ''shanoir-dummy-viewer.localhost'')"
    by (simp_all only: readmeProps_fields exampleURL_readme)
  have "ShanoirVipProps.url shanoirVipDefaults = Value ''https://vip.creatis.insa-lyon.fr''"
    by (simp add: shanoirVipDefaults_def)
  then have vp: "exampleURL (template (ShanoirVipProps.url shanoirVipDefaults)) =
      Some (?root ''vip.creatis.insa-lyon.fr'')"
    by (simp only: template.simps exampleURL_readme)
  have root: "\<And>h. URL.port (?root h) = []" "\<And>h. pathname (?root h) = ''/''"
    by simp_all
  from new_ShanoirNGChart_run [where parseURL = exampleURL and cfg = readmeProps
      and ident = "''dummy''" and w = w, OF refl readmeProps_fields(1-4) u root vw root
      readmeProps_fields(7) vp root readmeProps_fields(8,9)]
  show ?thesis
    by (elim exE conjE) (intro exI, assumption)
qed

lemma rootURL_E:
  assumes "rootURL parseURL s"
  obtains u where "parseURL s = Some u" and "URL.port u = []" and "pathname u = ''/''"
  using assms by (auto simp: rootURL_def split: option.splits)

lemma new_ShanoirNGChart_accepted:
  assumes acc: "new_ShanoirNGChart parseURL ident cfg w = (Inr this, w')"
  shows "\<exists>u viewer v svcs.
           parseURL (url cfg) = Some u \<and> parseURL (viewerUrl cfg) = Some viewer \<and>
           vip (applyDefaults ident cfg) = Value v \<and>
           assembled ident cfg u viewer v w this w' svcs"
proof -
  note h = new_ShanoirNGChart_Inr [OF acc]
  from h(5) obtain u
    where u: "parseURL (url cfg) = Some u" "URL.port u = []" "pathname u = ''/''"
    by (rule rootURL_E)
  from h(6) obtain viewer
    where vw: "parseURL (viewerUrl cfg) = Some viewer" "URL.port viewer = []"
      "pathname viewer = ''/''"
    by (rule rootURL_E)
  from h(7) obtain v
    where v: "vip (applyDefaults ident cfg) = Value v"
      and "rootURL parseURL (template (ShanoirVipProps.url v))"
    by blast
  then obtain vu
    where vu: "parseURL (template (ShanoirVipProps.url v)) = Some vu" "URL.port vu = []"
      "pathname vu = ''/''"
    by (auto elim: rootURL_E)
  from new_ShanoirNGChart_run [OF refl h(1-4) u vw v vu h(8,9), of w]
  obtain this' w'' svcs
    where "new_ShanoirNGChart parseURL ident cfg w = (Inr this', w'')"
      and "assembled ident cfg u viewer v w this' w'' svcs"
    by (elim exE conjE)
  with acc have "assembled ident cfg u viewer v w this w' svcs"
    by simp
  with u(1) vw(1) v show ?thesis
    by (intro exI conjI)
qed

subsection \<open>What a run produces does not depend on the state\<close>















subsection \<open>Accepted and rejected configurations\<close>

lemma validated_run:
  assumes "isUndefined (mysqlDatabases cfg)" and "isUndefined (postgresqlDatabases cfg)"
    and "isUndefined (keycloakUrl cfg)"
    and "set shanoirVolumes \<subseteq> set (keys (volumeClaimProps cfg))"
  shows "new_ShanoirNGChart parseURL ident cfg w =
           afterSuper parseURL (applyDefaults ident cfg) True True True
             (w\<lparr> console := console w @ origProps cfg #
                   (if filter (\<lambda>x. x \<notin> set shanoirVolumes)
                         (newSet (keys (volumeClaimProps cfg))) = []
                    then []
                    else [message (''warning: unknown volume claim: '' @
                            join '','' (filter (\<lambda>x. x \<notin> set shanoirVolumes)
                                         (newSet (keys (volumeClaimProps cfg)))))]) @
                   [compiledProps (applyDefaults ident cfg)],
                 constructs := constructs w @ [Chart ident (applyDefaults ident cfg)] \<rparr>)"
proof -
  have c1: "\<And>f w. andThen (checkResourceMap ''volume claim'' (Some (volumeClaimProps cfg))
                      shanoirVolumes) f (w :: 'a world) =
      f () (w\<lparr> console := console w @
        (if filter (\<lambda>x. x \<notin> set shanoirVolumes) (newSet (keys (volumeClaimProps cfg))) = []
         then []
         else [message (''warning: unknown volume claim: '' @
                 join '','' (filter (\<lambda>x. x \<notin> set shanoirVolumes)
                              (newSet (keys (volumeClaimProps cfg)))))]) \<rparr>)"
    by (simp add: andThen_def checkResourceMap_complete [OF assms(4)])
  from assms(1,2) have "read (mysqlDatabases cfg) = None" "read (postgresqlDatabases cfg) = None"
    by (simp_all add: isUndefined_def)
  with assms(1-3) show ?thesis
    by (simp add: new_ShanoirNGChart_def Let_def c1)
qed



lemma accepted_iff:
  "(\<exists>this w'. new_ShanoirNGChart parseURL ident cfg w = (Inr this, w')) \<longleftrightarrow>
   isUndefined (keycloakUrl cfg) \<and> mysqlDatabases cfg = Absent \<and>
   postgresqlDatabases cfg = Absent \<and>
   set shanoirVolumes \<subseteq> set (keys (volumeClaimProps cfg)) \<and>
   rootURL parseURL (url cfg) \<and> rootURL parseURL (viewerUrl cfg) \<and>
   (\<exists>v. vip (applyDefaults ident cfg) = Value v \<and>
        rootURL parseURL (template (ShanoirVipProps.url v))) \<and>
   port (smtp cfg) \<noteq> Undefined \<and> allowedAdminIps cfg \<noteq> Undefined"
  (is "?acc \<longleftrightarrow> ?cond")
proof
  assume ?acc
  then obtain this w' where "new_ShanoirNGChart parseURL ident cfg w = (Inr this, w')"
    by blast
  from new_ShanoirNGChart_Inr [OF this] show ?cond
    by (intro conjI)
next
  assume c: ?cond
  then obtain u where u: "parseURL (url cfg) = Some u" "URL.port u = []" "pathname u = ''/''"
    by (auto elim: rootURL_E)
  from c obtain viewer
    where vw: "parseURL (viewerUrl cfg) = Some viewer" "URL.port viewer = []"
      "pathname viewer = ''/''"
    by (auto elim: rootURL_E)
  from c obtain v vu
    where v: "vip (applyDefaults ident cfg) = Value v"
      and vu: "parseURL (template (ShanoirVipProps.url v)) = Some vu" "URL.port vu = []"
        "pathname vu = ''/''"
    by (auto elim: rootURL_E)
  from c have h: "isUndefined (keycloakUrl cfg)" "mysqlDatabases cfg = Absent"
    "postgresqlDatabases cfg = Absent"
    "set shanoirVolumes \<subseteq> set (keys (volumeClaimProps cfg))"
    "port (smtp cfg) \<noteq> Undefined" "allowedAdminIps cfg \<noteq> Undefined"
    by simp_all
  from new_ShanoirNGChart_run [OF refl h(1-4) u vw v vu h(5,6), of w]
  show ?acc
    by (elim exE conjE) (intro exI, assumption)
qed

lemma kind_in_services:
  assumes "map (\<lambda>c. (constructKind c, constructId c)) svcs = l"
    and "(''Deployment'', i) \<in> set l"
  shows "\<exists>c. Deployment i c \<in> set svcs"
proof -
  from assms obtain x where x: "x \<in> set svcs" "constructKind x = ''Deployment''"
    "constructId x = i"
    by auto
  from x(2,3) obtain c where "x = Deployment i c"
    by (cases x) simp_all
  with x(1) show ?thesis by blast
qed

lemma accepted_services:
  assumes acc: "new_ShanoirNGChart parseURL ident cfg w = (Inr this, w')"
  shows "(\<exists>c. Deployment ''database-deploy'' c \<in> set (constructs w'))"
    and "Service ''database-svc'' ''database'' [3306] ''database-deploy'' \<in> set (constructs w')"
    and "(\<exists>c. Deployment ''keycloak-deploy'' c \<in> set (constructs w'))"
    and "Service ''keycloak-svc'' ''keycloak'' [8080] ''keycloak-deploy'' \<in> set (constructs w')"
proof -
  from new_ShanoirNGChart_accepted [OF acc] obtain u viewer v svcs
    where a: "assembled ident cfg u viewer v w this w' svcs"
    by blast
  then have sub: "set svcs \<subseteq> set (constructs w')"
    by (auto simp: assembled_def Let_def)
  from a have k: "map (\<lambda>c. (constructKind c, constructId c)) svcs = chartServices"
    and s: "Service ''database-svc'' ''database'' [3306] ''database-deploy'' \<in> set svcs"
      "Service ''keycloak-svc'' ''keycloak'' [8080] ''keycloak-deploy'' \<in> set svcs"
    by (simp_all add: assembled_def Let_def)
  from kind_in_services [OF k, of "''database-deploy''"] sub
  show "\<exists>c. Deployment ''database-deploy'' c \<in> set (constructs w')"
    by (auto simp: chartServices_def)
  from kind_in_services [OF k, of "''keycloak-deploy''"] sub
  show "\<exists>c. Deployment ''keycloak-deploy'' c \<in> set (constructs w')"
    by (auto simp: chartServices_def)
  from s sub
  show "Service ''database-svc'' ''database'' [3306] ''database-deploy'' \<in> set (constructs w')"
    and "Service ''keycloak-svc'' ''keycloak'' [8080] ''keycloak-deploy'' \<in> set (constructs w')"
    by auto
qed

lemma externalMysqlDatabases_complete:
  "set shanoirMysqlDatabases \<subseteq> set (keys externalMysqlDatabases)"
  by (simp add: externalMysqlDatabases_def keys_def comp_def)

lemma defaultMysqlDatabases_entries:
  assumes "(name, d) \<in> set defaultMysqlDatabases"
  shows "ShanoirDatabaseProps.host d = ''database'' \<and> db d = name \<and> username d = name \<and>
         password d = name"
  using assms by (auto simp: defaultMysqlDatabases_def shanoirMysqlDatabases_def)


lemma services_kinds:
  assumes "assembled ident cfg u viewer v w this w' svcs"
  shows "filter (\<lambda>c. constructKind c = ''Secret'') svcs = []"
proof -
  from assms have k: "map (\<lambda>c. (constructKind c, constructId c)) svcs = chartServices"
    by (simp add: assembled_def Let_def)
  have "\<forall>c\<in>set svcs. constructKind c \<noteq> ''Secret''"
  proof
    fix c assume "c \<in> set svcs"
    then have "(constructKind c, constructId c) \<in>
        set (map (\<lambda>c. (constructKind c, constructId c)) svcs)"
      by simp
    then have "(constructKind c, constructId c) \<in> set chartServices"
      by (simp only: k)
    then show "constructKind c \<noteq> ''Secret''"
      by (auto simp: chartServices_def)
  qed
  then show ?thesis by (simp add: filter_empty_conv)
qed

lemma createCommonConfigMap_url_assertion:
  assumes "parseURL (url p) = Some u" and "\<not> (URL.port u = [] \<and> pathname u = ''/'')"
  shows "createCommonConfigMap parseURL p w = (Inl AssertionError, w)"
  using assms by (cases "URL.port u = []") (simp_all add: createCommonConfigMap_def)

lemma createCommonConfigMap_viewer_assertion:
  assumes "rootURL parseURL (url p)" and "parseURL (viewerUrl p) = Some viewer"
    and "\<not> (URL.port viewer = [] \<and> pathname viewer = ''/'')"
  shows "createCommonConfigMap parseURL p w = (Inl AssertionError, w)"
proof -
  from assms(1) obtain u
    where "parseURL (url p) = Some u" "URL.port u = []" "pathname u = ''/''"
    by (rule rootURL_E)
  with assms(2,3) show ?thesis
    by (cases "URL.port viewer = []") (simp_all add: createCommonConfigMap_def)
qed

lemma createVipEnvVariables_assertion:
  assumes "vip p = Value v" and "parseURL (template (ShanoirVipProps.url v)) = Some u"
    and "\<not> (URL.port u = [] \<and> pathname u = ''/'')"
  shows "createVipEnvVariables parseURL p w = (Inl AssertionError, w)"
  using assms by (cases "URL.port u = []") (simp_all add: createVipEnvVariables_def)

lemma afterSuper_config_assertion:
  assumes "\<And>w :: 'c world. createCommonConfigMap parseURL p w = (Inl AssertionError, w)"
  shows "fst (afterSuper parseURL p a b c (w :: 'c world)) = Inl AssertionError"
proof -
  have c4: "\<And>f w. andThen (createCommonConfigMap parseURL p) f (w :: 'c world) =
          (Inl AssertionError, w)"
    by (simp add: andThen_def assms)
  have c2: "\<And>f w. andThen (createVolumeClaims p) f (w :: 'c world) =
      f (fromEntries (map (\<lambda>(name, c). (name, name @ ''-pvc'')) (volumeClaimProps p)))
        (w\<lparr> constructs := constructs w @
           map (\<lambda>(name, c). PersistentVolumeClaim (name @ ''-pvc'') c) (volumeClaimProps p) \<rparr>)"
    by (simp add: andThen_def createVolumeClaims_run)
  have c3: "\<And>claims f w. andThen (createVolumes claims) f (w :: 'c world) =
      f (fromEntries (map (\<lambda>(name, pvc). (name, name @ ''-rv'')) claims))
        (w\<lparr> constructs := constructs w @ map (\<lambda>(name, pvc). Volume (name @ ''-rv'') pvc) claims \<rparr>)"
    by (simp add: andThen_def createVolumes_run)
  show ?thesis
    by (simp add: afterSuper_def c2 c3 c4)
qed

lemma afterSuper_vip_assertion:
  assumes "rootURL parseURL (url p)" and "rootURL parseURL (viewerUrl p)"
    and "mysqlDatabases p = Value mysql" and "postgresqlDatabases p = Value postgresql"
    and "port (smtp p) \<noteq> Undefined" and "port (smtp p) \<noteq> Absent"
    and "vip p = Value v" and "parseURL (template (ShanoirVipProps.url v)) = Some u"
    and "\<not> (URL.port u = [] \<and> pathname u = ''/'')"
  shows "fst (afterSuper parseURL p a b c (w :: 'c world)) = Inl AssertionError"
proof -
  from assms(1) obtain x
    where x: "parseURL (url p) = Some x" "URL.port x = []" "pathname x = ''/''"
    by (rule rootURL_E)
  from assms(2) obtain y
    where y: "parseURL (viewerUrl p) = Some y" "URL.port y = []" "pathname y = ''/''"
    by (rule rootURL_E)
  from assms(5,6) obtain n where n: "port (smtp p) = Value n"
    by (cases "port (smtp p)") simp_all
  have c2: "\<And>f w. andThen (createVolumeClaims p) f (w :: 'c world) =
      f (fromEntries (map (\<lambda>(name, c). (name, name @ ''-pvc'')) (volumeClaimProps p)))
        (w\<lparr> constructs := constructs w @
           map (\<lambda>(name, c). PersistentVolumeClaim (name @ ''-pvc'') c) (volumeClaimProps p) \<rparr>)"
    by (simp add: andThen_def createVolumeClaims_run)
  have c3: "\<And>claims f w. andThen (createVolumes claims) f (w :: 'c world) =
      f (fromEntries (map (\<lambda>(name, pvc). (name, name @ ''-rv'')) claims))
        (w\<lparr> constructs := constructs w @ map (\<lambda>(name, pvc). Volume (name @ ''-rv'') pvc) claims \<rparr>)"
    by (simp add: andThen_def createVolumes_run)
  obtain d where d: "\<And>w :: 'c world. createCommonConfigMap parseURL p w =
      (Inr ''common-cm'', w\<lparr> constructs := constructs w @ [ConfigMap ''common-cm'' d] \<rparr>)"
    using createCommonConfigMap_run [where parseURL = parseURL, OF x y] by blast
  have c4: "\<And>f w. andThen (createCommonConfigMap parseURL p) f (w :: 'c world) =
      f ''common-cm'' (w\<lparr> constructs := constructs w @ [ConfigMap ''common-cm'' d] \<rparr>)"
    by (simp add: andThen_def d)
  obtain s where s: "\<And>w :: 'c world. createSecret p w =
      (Inr ''sec'', w\<lparr> constructs := constructs w @ [Secret ''sec'' s] \<rparr>)"
    using createSecret_run [where p = p, OF assms(3,4,7)] by blast
  have c5: "\<And>f w. andThen (createSecret p) f (w :: 'c world) =
      f ''sec'' (w\<lparr> constructs := constructs w @ [Secret ''sec'' s] \<rparr>)"
    by (simp add: andThen_def s)
  obtain se where se: "\<And>w :: 'c world. createSmtpEnvVariables p ''sec'' w = (Inr se, w)"
    using createSmtpEnvVariables_run [OF n] by blast
  have c6: "\<And>f w. andThen (createSmtpEnvVariables p ''sec'') f (w :: 'c world) = f se w"
    by (simp add: andThen_def se)
  have c7: "\<And>f w. andThen (createVipEnvVariables parseURL p) f (w :: 'c world) =
      (Inl AssertionError, w)"
    by (simp add: andThen_def createVipEnvVariables_assertion [where parseURL = parseURL, OF assms(7,8,9)])
  show ?thesis
    by (simp add: afterSuper_def c2 c3 c4 c5 c6 c7)
qed

lemma afterSuper_secret_TypeError:
  assumes "rootURL parseURL (url p)" and "rootURL parseURL (viewerUrl p)"
    and "read (mysqlDatabases p) = None \<or> read (postgresqlDatabases p) = None"
  shows "\<exists>d. afterSuper parseURL p a b c (w :: 'c world) =
     (Inl TypeError,
      w\<lparr> constructs := constructs w @
         map (\<lambda>(name, c). PersistentVolumeClaim (name @ ''-pvc'') c) (volumeClaimProps p) @
         map (\<lambda>(name, pvc). Volume (name @ ''-rv'') pvc)
           (fromEntries (map (\<lambda>(name, c). (name, name @ ''-pvc'')) (volumeClaimProps p))) @
         [ConfigMap ''common-cm'' d] \<rparr>)"
proof -
  from assms(1) obtain x
    where x: "parseURL (url p) = Some x" "URL.port x = []" "pathname x = ''/''"
    by (rule rootURL_E)
  from assms(2) obtain y
    where y: "parseURL (viewerUrl p) = Some y" "URL.port y = []" "pathname y = ''/''"
    by (rule rootURL_E)
  have c2: "\<And>f w. andThen (createVolumeClaims p) f (w :: 'c world) =
      f (fromEntries (map (\<lambda>(name, c). (name, name @ ''-pvc'')) (volumeClaimProps p)))
        (w\<lparr> constructs := constructs w @
           map (\<lambda>(name, c). PersistentVolumeClaim (name @ ''-pvc'') c) (volumeClaimProps p) \<rparr>)"
    by (simp add: andThen_def createVolumeClaims_run)
  have c3: "\<And>claims f w. andThen (createVolumes claims) f (w :: 'c world) =
      f (fromEntries (map (\<lambda>(name, pvc). (name, name @ ''-rv'')) claims))
        (w\<lparr> constructs := constructs w @ map (\<lambda>(name, pvc). Volume (name @ ''-rv'') pvc) claims \<rparr>)"
    by (simp add: andThen_def createVolumes_run)
  obtain d where d: "\<And>w :: 'c world. createCommonConfigMap parseURL p w =
      (Inr ''common-cm'', w\<lparr> constructs := constructs w @ [ConfigMap ''common-cm'' d] \<rparr>)"
    using createCommonConfigMap_run [where parseURL = parseURL, OF x y] by blast
  have c4: "\<And>f w. andThen (createCommonConfigMap parseURL p) f (w :: 'c world) =
      f ''common-cm'' (w\<lparr> constructs := constructs w @ [ConfigMap ''common-cm'' d] \<rparr>)"
    by (simp add: andThen_def d)
  have s: "\<And>w :: 'c world. createSecret p w = (Inl TypeError, w)"
    using assms(3) by (auto simp: createSecret_def split: option.splits)
  have c5: "\<And>f w. andThen (createSecret p) f (w :: 'c world) = (Inl TypeError, w)"
    by (simp add: andThen_def s)
  have "afterSuper parseURL p a b c w =
     (Inl TypeError,
      w\<lparr> constructs := constructs w @
         map (\<lambda>(name, c). PersistentVolumeClaim (name @ ''-pvc'') c) (volumeClaimProps p) @
         map (\<lambda>(name, pvc). Volume (name @ ''-rv'') pvc)
           (fromEntries (map (\<lambda>(name, c). (name, name @ ''-pvc'')) (volumeClaimProps p))) @
         [ConfigMap ''common-cm'' d] \<rparr>)"
    by (simp add: afterSuper_def c2 c3 c4 c5)
  then show ?thesis ..
qed

subsection \<open>The constructor in its scope\<close>

lemma children_console [simp]: "children (w\<lparr> console := ls \<rparr>) = children w"
  by (simp add: children_def)

lemma children_append [simp]:
  "children (w\<lparr> constructs := constructs w @ cs \<rparr>) =
     children w @ List.map_filter chartId cs"
  by (simp add: children_def List.map_filter_def)






text \<open>
  The constructs that the constructor creates after the chart are children of the new
  chart, which has no other child. Their ids are distinct whenever the keys of the volume
  claims are, as the keys of an object are, so the library refuses none of them.
\<close>

lemma suffix_ids_distinct:
  assumes "distinct ks"
  shows "distinct (map (\<lambda>k. k @ ''-pvc'') ks @ map (\<lambda>k. k @ ''-rv'') ks @
           [''common-cm'', ''sec'', ''ns''] @ map snd chartServices)"
proof -
  have pvc: "distinct (map (\<lambda>k. k @ ''-pvc'') ks)" and rv: "distinct (map (\<lambda>k. k @ ''-rv'') ks)"
    using assms by (simp_all add: distinct_map inj_on_def)
  have fixed: "distinct ([''common-cm'', ''sec'', ''ns''] @ map snd chartServices)"
    by (simp add: chartServices_def)
  have a: "k @ ''-pvc'' \<noteq> k' @ ''-rv''" for k k' :: string
    by (auto dest!: arg_cong [where f = rev])
  have b: "k @ ''-pvc'' \<notin> set ([''common-cm'', ''sec'', ''ns''] @ map snd chartServices)"
    for k :: string
    by (auto simp: chartServices_def dest!: arg_cong [where f = rev])
  have c: "k @ ''-rv'' \<notin> set ([''common-cm'', ''sec'', ''ns''] @ map snd chartServices)"
    for k :: string
    by (auto simp: chartServices_def dest!: arg_cong [where f = rev])
  from pvc rv fixed a b c show ?thesis
    unfolding distinct_append by (auto simp del: append.simps)
qed

lemma chart_children_distinct:
  fixes cfg :: "'c ShanoirNGProps" and w :: "'c world"
  assumes acc: "new_ShanoirNGChart parseURL ident cfg w = (Inr this, w')"
    and d: "distinct (keys (volumeClaimProps cfg))"
  shows "distinct (map constructId (drop (Suc (length (constructs w))) (constructs w')))"
proof -
  from new_ShanoirNGChart_accepted [OF acc] obtain u viewer v svcs
    where a: "assembled ident cfg u viewer v w this w' svcs"
    by blast
  let ?ks = "keys (volumeClaimProps cfg)"
  from a have "map (\<lambda>c. (constructKind c, constructId c)) svcs = chartServices"
    by (simp add: assembled_def Let_def)
  then have "map snd (map (\<lambda>c. (constructKind c, constructId c)) svcs) = map snd chartServices"
    by simp
  then have ids: "map constructId svcs = map snd chartServices"
    by (simp add: comp_def)
  have "distinct (map fst (map (\<lambda>(name, c). (name, name @ ''-pvc'')) (volumeClaimProps cfg)))"
    using d by (simp add: keys_def comp_def case_prod_beta)
  then have "fromEntries (map (\<lambda>(name, c). (name, name @ ''-pvc'')) (volumeClaimProps cfg)) =
      map (\<lambda>(name, c). (name, name @ ''-pvc'')) (volumeClaimProps cfg)"
    by (rule fromEntries_distinct)
  with a have vc: "volumeClaims this =
      map (\<lambda>(name, c). (name, name @ ''-pvc'')) (volumeClaimProps cfg)"
    by (simp add: assembled_def Let_def)
  from a have "\<exists>c s. drop (Suc (length (constructs w))) (constructs w') =
      map (\<lambda>(name, c). PersistentVolumeClaim (name @ ''-pvc'') c) (volumeClaimProps cfg) @
      map (\<lambda>(name, pvc). Volume (name @ ''-rv'') pvc) (volumeClaims this) @
      [ConfigMap ''common-cm'' c, Secret ''sec'' s] @
      (if read (createNamespace (applyDefaults ident cfg)) = Some True
       then [Namespace ''ns'' (read (namespace (applyDefaults ident cfg)))]
       else []) @ svcs"
    by (simp add: assembled_def Let_def)
  then have "map constructId (drop (Suc (length (constructs w))) (constructs w')) =
      map (\<lambda>k. k @ ''-pvc'') ?ks @ map (\<lambda>k. k @ ''-rv'') ?ks @ [''common-cm'', ''sec''] @
      (if read (createNamespace (applyDefaults ident cfg)) = Some True then [''ns''] else []) @
      map snd chartServices"
    by (auto simp: vc ids keys_def comp_def case_prod_beta)
  moreover from suffix_ids_distinct [OF d]
  have "distinct (map (\<lambda>k. k @ ''-pvc'') ?ks @ map (\<lambda>k. k @ ''-rv'') ?ks @
      [''common-cm'', ''sec''] @
      (if read (createNamespace (applyDefaults ident cfg)) = Some True then [''ns''] else []) @
      map snd chartServices)"
    by auto
  ultimately show ?thesis
    by simp
qed


section \<open>The claims\<close>

lemma abort_volume_message:
  assumes "k \<in> set shanoirVolumes" and "k \<notin> set (keys (volumeClaimProps cfg))"
    and "isUndefined (mysqlDatabases cfg)" and "isUndefined (postgresqlDatabases cfg)"
    and "isUndefined (keycloakUrl cfg)"
  shows "fst (new_ShanoirNGChart parseURL ident cfg w) =
           Inl (Thrown (''error: missing volume claim: '' @
                  join '','' (filter (\<lambda>x. x \<notin> set (keys (volumeClaimProps cfg)))
                               (newSet shanoirVolumes))))"
proof -
  obtain w1
    where "checkResourceMap ''volume claim'' (Some (volumeClaimProps cfg)) shanoirVolumes
             (w\<lparr> console := console w @ [origProps cfg] \<rparr>) =
           (Inl (Thrown (''error: missing volume claim: '' @
                   join '','' (filter (\<lambda>x. x \<notin> set (keys (volumeClaimProps cfg)))
                                (newSet shanoirVolumes)))), w1)"
    using checkResourceMap_missing_message [OF assms(1,2), where desc = "''volume claim''"
        and w = "w\<lparr> console := console w @ [origProps cfg] \<rparr>"]
    by auto
  then have step: "\<And>f. andThen (checkResourceMap ''volume claim'' (Some (volumeClaimProps cfg))
                 shanoirVolumes) f (w\<lparr> console := console w @ [origProps cfg] \<rparr>) =
           (Inl (Thrown (''error: missing volume claim: '' @
                   join '','' (filter (\<lambda>x. x \<notin> set (keys (volumeClaimProps cfg)))
                                (newSet shanoirVolumes)))), w1)"
    by (simp add: andThen_def)
  show ?thesis
    using assms(3-5) by (simp add: new_ShanoirNGChart_def step)
qed

text \<open>
  Resource maps that lack a key. A supplied resource map (volume claims, MySQL databases,
  PostgreSQL databases) that lacks an expected key makes the constructor fail before it
  creates any construct; for the volume claims, the only map the constructor lets past
  its assertions, what is thrown is the message of \<open>checkResourceMap\<close> listing the
  missing keys. A database map that is undefined is not checked; when its key is absent
  the defaults stand in for it, and every accepted construction has both keys absent and
  runs on the default databases.
\<close>

theorem missing_key_aborts_before_creation:
  fixes cfg :: "'c ShanoirNGProps" and w :: "'c world"
  shows
    "((\<exists>k\<in>set shanoirVolumes. k \<notin> set (keys (volumeClaimProps cfg))) \<or>
      (\<exists>m. mysqlDatabases cfg = Value m \<and>
           (\<exists>k\<in>set shanoirMysqlDatabases. k \<notin> set (keys m))) \<or>
      (\<exists>m. postgresqlDatabases cfg = Value m \<and>
           (\<exists>k\<in>set shanoirPostgresqlDatabases. k \<notin> set (keys m))) \<longrightarrow>
      (\<exists>e w'. new_ShanoirNGChart parseURL ident cfg w = (Inl e, w') \<and>
              constructs w' = constructs w)) \<and>
     (isUndefined (mysqlDatabases cfg) \<and> isUndefined (postgresqlDatabases cfg) \<and>
      isUndefined (keycloakUrl cfg) \<and>
      (\<exists>k\<in>set shanoirVolumes. k \<notin> set (keys (volumeClaimProps cfg))) \<longrightarrow>
      fst (new_ShanoirNGChart parseURL ident cfg w) =
        Inl (Thrown (''error: missing volume claim: '' @
               join '','' (filter (\<lambda>x. x \<notin> set (keys (volumeClaimProps cfg)))
                            (newSet shanoirVolumes))))) \<and>
     (isUndefined (mysqlDatabases cfg) \<longrightarrow>
      checkResourceMap ''mysql database'' (read (mysqlDatabases cfg)) shanoirMysqlDatabases w =
        (Inr (), w)) \<and>
     (isUndefined (postgresqlDatabases cfg) \<longrightarrow>
      checkResourceMap ''postgresql database'' (read (postgresqlDatabases cfg))
        shanoirPostgresqlDatabases w = (Inr (), w)) \<and>
     (mysqlDatabases cfg = Absent \<longrightarrow>
      mysqlDatabases (applyDefaults ident cfg) = Value defaultMysqlDatabases) \<and>
     (postgresqlDatabases cfg = Absent \<longrightarrow>
      postgresqlDatabases (applyDefaults ident cfg) = Value defaultPostgresqlDatabases) \<and>
     (\<forall>this w'. new_ShanoirNGChart parseURL ident cfg w = (Inr this, w') \<longrightarrow>
        mysqlDatabases cfg = Absent \<and> postgresqlDatabases cfg = Absent \<and>
        mysqlDatabases (props this) = Value defaultMysqlDatabases \<and>
        postgresqlDatabases (props this) = Value defaultPostgresqlDatabases)"
proof (intro conjI impI allI)
  assume "(\<exists>k\<in>set shanoirVolumes. k \<notin> set (keys (volumeClaimProps cfg))) \<or>
      (\<exists>m. mysqlDatabases cfg = Value m \<and>
           (\<exists>k\<in>set shanoirMysqlDatabases. k \<notin> set (keys m))) \<or>
      (\<exists>m. postgresqlDatabases cfg = Value m \<and>
           (\<exists>k\<in>set shanoirPostgresqlDatabases. k \<notin> set (keys m)))"
  then show "\<exists>e w'. new_ShanoirNGChart parseURL ident cfg w = (Inl e, w') \<and>
      constructs w' = constructs w"
  proof (elim disjE bexE exE conjE)
    fix k assume "k \<in> set shanoirVolumes" "k \<notin> set (keys (volumeClaimProps cfg))"
    then show ?thesis by (rule abort_volume)
  next
    fix m assume "mysqlDatabases cfg = Value m"
    then show ?thesis by (simp add: abort_mysql)
  next
    fix m assume "postgresqlDatabases cfg = Value m"
    then show ?thesis by (simp add: abort_postgresql)
  qed
next
  assume "isUndefined (mysqlDatabases cfg) \<and> isUndefined (postgresqlDatabases cfg) \<and>
      isUndefined (keycloakUrl cfg) \<and>
      (\<exists>k\<in>set shanoirVolumes. k \<notin> set (keys (volumeClaimProps cfg)))"
  then show "fst (new_ShanoirNGChart parseURL ident cfg w) =
        Inl (Thrown (''error: missing volume claim: '' @
               join '','' (filter (\<lambda>x. x \<notin> set (keys (volumeClaimProps cfg)))
                            (newSet shanoirVolumes))))"
    by (elim conjE bexE) (rule abort_volume_message)
next
  assume "isUndefined (mysqlDatabases cfg)"
  then show "checkResourceMap ''mysql database'' (read (mysqlDatabases cfg))
      shanoirMysqlDatabases w = (Inr (), w)"
    by (simp add: isUndefined_def)
next
  assume "isUndefined (postgresqlDatabases cfg)"
  then show "checkResourceMap ''postgresql database'' (read (postgresqlDatabases cfg))
      shanoirPostgresqlDatabases w = (Inr (), w)"
    by (simp add: isUndefined_def)
next
  assume "mysqlDatabases cfg = Absent"
  then show "mysqlDatabases (applyDefaults ident cfg) = Value defaultMysqlDatabases"
    by (simp add: applyDefaults_simps)
next
  assume "postgresqlDatabases cfg = Absent"
  then show "postgresqlDatabases (applyDefaults ident cfg) = Value defaultPostgresqlDatabases"
    by (simp add: applyDefaults_simps)
next
  fix this w'
  assume acc: "new_ShanoirNGChart parseURL ident cfg w = (Inr this, w')"
  note h = new_ShanoirNGChart_Inr [OF acc]
  from new_ShanoirNGChart_accepted [OF acc]
  have p: "props this = applyDefaults ident cfg"
    by (auto simp: assembled_def Let_def)
  show "mysqlDatabases cfg = Absent" and "postgresqlDatabases cfg = Absent"
    by (rule h(2), rule h(3))
  show "mysqlDatabases (props this) = Value defaultMysqlDatabases"
    and "postgresqlDatabases (props this) = Value defaultPostgresqlDatabases"
    by (simp_all add: p h(2,3) applyDefaults_simps)
qed

theorem missing_key_aborts_before_creation_witness:
  "(\<exists>k\<in>set shanoirVolumes. k \<notin> set (keys (volumeClaimProps (readmeProps\<lparr> volumeClaimProps := [] \<rparr>)))) \<and>
   (\<exists>e w'. new_ShanoirNGChart exampleURL ''dummy'' (readmeProps\<lparr> volumeClaimProps := [] \<rparr>)
              emptyWorld = (Inl e, w') \<and>
           constructs w' = constructs (emptyWorld :: unit world)) \<and>
   mysqlDatabases readmeProps = Absent \<and>
   mysqlDatabases (applyDefaults ''dummy'' readmeProps) = Value defaultMysqlDatabases \<and>
   (\<exists>this w'. new_ShanoirNGChart exampleURL ''dummy'' readmeProps emptyWorld = (Inr this, w') \<and>
       mysqlDatabases (props this) = Value defaultMysqlDatabases)"
proof -
  have missing: "\<exists>k\<in>set shanoirVolumes.
      k \<notin> set (keys (volumeClaimProps (readmeProps\<lparr> volumeClaimProps := [] \<rparr>)))"
    by (rule bexI [of _ "''tmp''"]) (simp_all add: keys_def shanoirVolumes_def)
  obtain this w'
    where acc: "new_ShanoirNGChart exampleURL ''dummy'' readmeProps emptyWorld = (Inr this, w')"
    using readme_accepted by blast
  note t1 = missing_key_aborts_before_creation [where cfg = "readmeProps\<lparr> volumeClaimProps := [] \<rparr>"
      and parseURL = exampleURL and ident = "''dummy''" and w = emptyWorld]
  note t2 = missing_key_aborts_before_creation [where cfg = readmeProps
      and parseURL = exampleURL and ident = "''dummy''" and w = emptyWorld]
  from t1 missing
  have "\<exists>e w'. new_ShanoirNGChart exampleURL ''dummy'' (readmeProps\<lparr> volumeClaimProps := [] \<rparr>)
              emptyWorld = (Inl e, w') \<and>
           constructs w' = constructs (emptyWorld :: unit world)"
    by blast
  moreover from t2 have "mysqlDatabases (applyDefaults ''dummy'' readmeProps) =
      Value defaultMysqlDatabases"
    by (simp add: readmeProps_fields)
  moreover from t2 acc have "mysqlDatabases (props this) = Value defaultMysqlDatabases"
    by blast
  ultimately show ?thesis
    using missing acc readmeProps_fields(2) by blast
qed

text \<open>
  Claim C1. The second half of the claim fails on a database map that is supplied as
  \<^verbatim>\<open>undefined\<close>. For the configuration of the README with \<^verbatim>\<open>mysqlDatabases: undefined\<close>
  the map passes the assertion and is not checked, but the spread copies the \<^verbatim>\<open>undefined\<close>
  over the default, and \<open>createSecret\<close> ends the constructor with a \<^verbatim>\<open>TypeError\<close> after the
  chart, the volume claims, the volumes and the config map have been created.
\<close>

theorem undefined_mysqlDatabases_TypeError:
  "isUndefined (mysqlDatabases (readmeProps\<lparr> mysqlDatabases := Undefined \<rparr>)) \<and>
   checkResourceMap ''mysql database''
     (read (mysqlDatabases (readmeProps\<lparr> mysqlDatabases := Undefined \<rparr>)))
     shanoirMysqlDatabases (emptyWorld :: unit world) = (Inr (), emptyWorld) \<and>
   mysqlDatabases (applyDefaults ''dummy'' (readmeProps\<lparr> mysqlDatabases := Undefined \<rparr>)) =
     Undefined \<and>
   fst (new_ShanoirNGChart exampleURL ''dummy'' (readmeProps\<lparr> mysqlDatabases := Undefined \<rparr>)
          emptyWorld) = Inl TypeError \<and>
   map constructKind
     (constructs (snd (new_ShanoirNGChart exampleURL ''dummy''
                         (readmeProps\<lparr> mysqlDatabases := Undefined \<rparr>) emptyWorld))) =
     ''Chart'' # map (\<lambda>_. ''PersistentVolumeClaim'') shanoirVolumes @
     map (\<lambda>_. ''Volume'') shanoirVolumes @ [''ConfigMap''] \<and>
   length (constructs (snd (new_ShanoirNGChart exampleURL ''dummy''
                              (readmeProps\<lparr> mysqlDatabases := Undefined \<rparr>) emptyWorld))) = 32"
proof -
  let ?c = "readmeProps\<lparr> mysqlDatabases := Undefined \<rparr>"
  let ?p = "applyDefaults ''dummy'' ?c"
  let ?run = "new_ShanoirNGChart exampleURL ''dummy'' ?c emptyWorld"
  have v: "isUndefined (mysqlDatabases ?c)" "isUndefined (postgresqlDatabases ?c)"
      "isUndefined (keycloakUrl ?c)" "set shanoirVolumes \<subseteq> set (keys (volumeClaimProps ?c))"
    by (simp_all add: readmeProps_fields)
  have r: "rootURL exampleURL (url ?p)" "rootURL exampleURL (viewerUrl ?p)"
    by (simp_all add: applyDefaults_simps readmeProps_fields rootURL_def exampleURL_readme)
  have m: "mysqlDatabases ?p = Undefined"
    by (simp add: applyDefaults_simps)
  then have n: "read (mysqlDatabases ?p) = None \<or> read (postgresqlDatabases ?p) = None"
    by simp
  have k: "fromEntries (map (\<lambda>x. (x, x @ ''-pvc'')) shanoirVolumes) =
      map (\<lambda>x. (x, x @ ''-pvc'')) shanoirVolumes"
    by (rule fromEntries_distinct) (simp add: comp_def shanoirVolumes_def)
  have vc: "volumeClaimProps ?p = map (\<lambda>name. (name, ())) shanoirVolumes"
    by (simp add: applyDefaults_simps readmeProps_def)
  let ?w = "emptyWorld\<lparr> console := console emptyWorld @ origProps ?c #
                   (if filter (\<lambda>x. x \<notin> set shanoirVolumes)
                         (newSet (keys (volumeClaimProps ?c))) = []
                    then []
                    else [message (''warning: unknown volume claim: '' @
                            join '','' (filter (\<lambda>x. x \<notin> set shanoirVolumes)
                                         (newSet (keys (volumeClaimProps ?c)))))]) @
                   [compiledProps ?p],
                 constructs := constructs emptyWorld @ [Chart ''dummy'' ?p] \<rparr> :: unit world"
  from afterSuper_secret_TypeError [where parseURL = exampleURL and w = ?w and a = True
      and b = True and c = True, OF r n]
  obtain d where "afterSuper exampleURL ?p True True True ?w =
     (Inl TypeError,
      ?w\<lparr> constructs := constructs ?w @
         map (\<lambda>(name, c). PersistentVolumeClaim (name @ ''-pvc'') c) (volumeClaimProps ?p) @
         map (\<lambda>(name, pvc). Volume (name @ ''-rv'') pvc)
           (fromEntries (map (\<lambda>(name, c). (name, name @ ''-pvc'')) (volumeClaimProps ?p))) @
         [ConfigMap ''common-cm'' d] \<rparr>)"
    by blast
  then have run: "?run =
     (Inl TypeError,
      ?w\<lparr> constructs := constructs ?w @
         map (\<lambda>(name, c). PersistentVolumeClaim (name @ ''-pvc'') c) (volumeClaimProps ?p) @
         map (\<lambda>(name, pvc). Volume (name @ ''-rv'') pvc)
           (fromEntries (map (\<lambda>(name, c). (name, name @ ''-pvc'')) (volumeClaimProps ?p))) @
         [ConfigMap ''common-cm'' d] \<rparr>)"
    by (simp only: validated_run [OF v])
  have "fst ?run = Inl TypeError \<and>
        map constructKind (constructs (snd ?run)) =
          ''Chart'' # map (\<lambda>_. ''PersistentVolumeClaim'') shanoirVolumes @
          map (\<lambda>_. ''Volume'') shanoirVolumes @ [''ConfigMap'']"
    unfolding run
    by (simp add: k vc emptyWorld_def comp_def)
  moreover from this have "length (constructs (snd ?run)) = 32"
    by (simp add: shanoirVolumes_def flip: length_map [of constructKind])
  moreover have "checkResourceMap ''mysql database'' (read (mysqlDatabases ?c))
     shanoirMysqlDatabases (emptyWorld :: unit world) = (Inr (), emptyWorld)"
    by (simp add: checkResourceMap_None)
  ultimately show ?thesis
    using v(1) m by blast
qed

text \<open>
  Claim C2, as stated, fails: a configuration that supplies \<open>mysqlDatabases\<close> with every
  expected key is not assembled without the database backend; the constructor stops at
  its first assertion (\<^verbatim>\<open>assert(props.mysqlDatabases == undefined); // not yet supported\<close>)
  and creates nothing.
\<close>

theorem supplied_mysqlDatabases_counterexample:
  "set shanoirMysqlDatabases \<subseteq> set (keys externalMysqlDatabases) \<and>
   new_ShanoirNGChart exampleURL ''dummy''
     (readmeProps\<lparr> mysqlDatabases := Value externalMysqlDatabases \<rparr>) emptyWorld =
   (Inl AssertionError,
    \<lparr> constructs = [],
      console = [origProps (readmeProps\<lparr> mysqlDatabases := Value externalMysqlDatabases \<rparr>)] \<rparr>)"
  by (simp add: externalMysqlDatabases_complete abort_mysql emptyWorld_def)

text \<open>
  Claim C2, amended. Every accepted construction had \<open>mysqlDatabases\<close> omitted, runs on the
  default databases (one per expected name, on the host \<open>database\<close>, with the name as
  database, user and password) and creates the deployment \<open>database-deploy\<close> and the
  service \<open>database\<close> on port 3306 that selects it. A configuration that supplies
  \<open>mysqlDatabases\<close>, whatever its keys, fails the assertion before anything is created.
\<close>

theorem omitted_mysqlDatabases_internal_database:
  fixes cfg :: "'c ShanoirNGProps" and w :: "'c world"
  shows
    "(\<forall>this w'. new_ShanoirNGChart parseURL ident cfg w = (Inr this, w') \<longrightarrow>
        mysqlDatabases cfg = Absent \<and>
        mysqlDatabases (props this) = Value defaultMysqlDatabases \<and>
        (\<exists>c. Deployment ''database-deploy'' c \<in> set (constructs w')) \<and>
        Service ''database-svc'' ''database'' [3306] ''database-deploy'' \<in> set (constructs w')) \<and>
     map fst defaultMysqlDatabases = shanoirMysqlDatabases \<and>
     (\<forall>name d. (name, d) \<in> set defaultMysqlDatabases \<longrightarrow>
        ShanoirDatabaseProps.host d = ''database'' \<and> db d = name \<and> username d = name \<and>
        password d = name) \<and>
     (\<forall>m. mysqlDatabases cfg = Value m \<longrightarrow>
        new_ShanoirNGChart parseURL ident cfg w =
          (Inl AssertionError, w\<lparr> console := console w @ [origProps cfg] \<rparr>))"
proof (intro conjI allI impI)
  fix this w'
  assume acc: "new_ShanoirNGChart parseURL ident cfg w = (Inr this, w')"
  note h = new_ShanoirNGChart_Inr [OF acc]
  from new_ShanoirNGChart_accepted [OF acc]
  have p: "props this = applyDefaults ident cfg"
    by (auto simp: assembled_def Let_def)
  show "mysqlDatabases cfg = Absent" by (rule h(2))
  show "mysqlDatabases (props this) = Value defaultMysqlDatabases"
    by (simp add: p h(2) applyDefaults_simps)
  show "\<exists>c. Deployment ''database-deploy'' c \<in> set (constructs w')"
    by (rule accepted_services(1) [OF acc])
  show "Service ''database-svc'' ''database'' [3306] ''database-deploy'' \<in> set (constructs w')"
    by (rule accepted_services(2) [OF acc])
next
  show "map fst defaultMysqlDatabases = shanoirMysqlDatabases"
    by (rule defaultMysqlDatabases_keys)
next
  fix name d
  assume "(name, d) \<in> set defaultMysqlDatabases"
  from defaultMysqlDatabases_entries [OF this]
  show "ShanoirDatabaseProps.host d = ''database''" and "db d = name" and "username d = name"
    and "password d = name"
    by simp_all
next
  fix m
  assume "mysqlDatabases cfg = Value m"
  then show "new_ShanoirNGChart parseURL ident cfg w =
      (Inl AssertionError, w\<lparr> console := console w @ [origProps cfg] \<rparr>)"
    by (rule abort_mysql)
qed

theorem omitted_mysqlDatabases_internal_database_witness:
  "(\<exists>this w'. new_ShanoirNGChart exampleURL ''dummy'' readmeProps emptyWorld = (Inr this, w') \<and>
      mysqlDatabases readmeProps = Absent \<and>
      mysqlDatabases (props this) = Value defaultMysqlDatabases \<and>
      (\<exists>c. Deployment ''database-deploy'' c \<in> set (constructs w')) \<and>
      Service ''database-svc'' ''database'' [3306] ''database-deploy'' \<in> set (constructs w')) \<and>
   fst (new_ShanoirNGChart exampleURL ''dummy''
         (readmeProps\<lparr> mysqlDatabases := Value externalMysqlDatabases \<rparr>)
         (emptyWorld :: unit world)) = Inl AssertionError"
proof -
  obtain this w'
    where acc: "new_ShanoirNGChart exampleURL ''dummy'' readmeProps emptyWorld = (Inr this, w')"
    using readme_accepted by blast
  note t1 = omitted_mysqlDatabases_internal_database [where cfg = readmeProps
      and parseURL = exampleURL and ident = "''dummy''" and w = emptyWorld]
  note t2 = omitted_mysqlDatabases_internal_database
      [where cfg = "readmeProps\<lparr> mysqlDatabases := Value externalMysqlDatabases \<rparr>"
      and parseURL = exampleURL and ident = "''dummy''" and w = emptyWorld]
  from t1 acc have "mysqlDatabases readmeProps = Absent \<and>
      mysqlDatabases (props this) = Value defaultMysqlDatabases \<and>
      (\<exists>c. Deployment ''database-deploy'' c \<in> set (constructs w')) \<and>
      Service ''database-svc'' ''database'' [3306] ''database-deploy'' \<in> set (constructs w')"
    by blast
  moreover from t2 have "fst (new_ShanoirNGChart exampleURL ''dummy''
         (readmeProps\<lparr> mysqlDatabases := Value externalMysqlDatabases \<rparr>)
         (emptyWorld :: unit world)) = Inl AssertionError"
    by simp
  ultimately show ?thesis using acc by blast
qed

text \<open>
  Claim C3, as stated, fails: a configuration that supplies \<open>keycloakUrl\<close> is not assembled
  without the keycloak backend; the constructor stops at its assertion
  (\<^verbatim>\<open>assert(props.keycloakUrl == undefined); // not yet supported\<close>) and creates nothing.
\<close>

theorem supplied_keycloakUrl_counterexample:
  "new_ShanoirNGChart exampleURL ''dummy''
     (readmeProps\<lparr> keycloakUrl := Value ''https://keycloak.example.org/'' \<rparr>) emptyWorld =
   (Inl AssertionError,
    \<lparr> constructs = [],
      console =
        [origProps (readmeProps\<lparr> keycloakUrl := Value ''https://keycloak.example.org/'' \<rparr>)] \<rparr>)"
  by (simp add: abort_keycloakUrl emptyWorld_def)

text \<open>
  Claim C3, amended. Every accepted construction had \<open>keycloakUrl\<close> unset and creates the
  deployment \<open>keycloak-deploy\<close> and the service \<open>keycloak\<close> on port 8080 that selects it. A
  configuration that supplies \<open>keycloakUrl\<close> fails the assertion before anything is created.
\<close>

theorem unset_keycloakUrl_internal_keycloak:
  fixes cfg :: "'c ShanoirNGProps" and w :: "'c world"
  shows
    "(\<forall>this w'. new_ShanoirNGChart parseURL ident cfg w = (Inr this, w') \<longrightarrow>
        isUndefined (keycloakUrl cfg) \<and>
        (\<exists>c. Deployment ''keycloak-deploy'' c \<in> set (constructs w')) \<and>
        Service ''keycloak-svc'' ''keycloak'' [8080] ''keycloak-deploy'' \<in> set (constructs w')) \<and>
     (\<forall>k. keycloakUrl cfg = Value k \<longrightarrow>
        new_ShanoirNGChart parseURL ident cfg w =
          (Inl AssertionError, w\<lparr> console := console w @ [origProps cfg] \<rparr>))"
proof (intro conjI allI impI)
  fix this w'
  assume acc: "new_ShanoirNGChart parseURL ident cfg w = (Inr this, w')"
  show "isUndefined (keycloakUrl cfg)"
    by (rule new_ShanoirNGChart_Inr(1) [OF acc])
  show "\<exists>c. Deployment ''keycloak-deploy'' c \<in> set (constructs w')"
    by (rule accepted_services(3) [OF acc])
  show "Service ''keycloak-svc'' ''keycloak'' [8080] ''keycloak-deploy'' \<in> set (constructs w')"
    by (rule accepted_services(4) [OF acc])
next
  fix k
  assume "keycloakUrl cfg = Value k"
  then show "new_ShanoirNGChart parseURL ident cfg w =
      (Inl AssertionError, w\<lparr> console := console w @ [origProps cfg] \<rparr>)"
    by (rule abort_keycloakUrl)
qed

theorem unset_keycloakUrl_internal_keycloak_witness:
  "(\<exists>this w'. new_ShanoirNGChart exampleURL ''dummy'' readmeProps emptyWorld = (Inr this, w') \<and>
      isUndefined (keycloakUrl readmeProps) \<and>
      (\<exists>c. Deployment ''keycloak-deploy'' c \<in> set (constructs w')) \<and>
      Service ''keycloak-svc'' ''keycloak'' [8080] ''keycloak-deploy'' \<in> set (constructs w')) \<and>
   fst (new_ShanoirNGChart exampleURL ''dummy''
         (readmeProps\<lparr> keycloakUrl := Value ''https://keycloak.example.org/'' \<rparr>)
         (emptyWorld :: unit world)) = Inl AssertionError"
proof -
  obtain this w'
    where acc: "new_ShanoirNGChart exampleURL ''dummy'' readmeProps emptyWorld = (Inr this, w')"
    using readme_accepted by blast
  note t1 = unset_keycloakUrl_internal_keycloak [where cfg = readmeProps
      and parseURL = exampleURL and ident = "''dummy''" and w = emptyWorld]
  note t2 = unset_keycloakUrl_internal_keycloak
      [where cfg = "readmeProps\<lparr> keycloakUrl := Value ''https://keycloak.example.org/'' \<rparr>"
      and parseURL = exampleURL and ident = "''dummy''" and w = emptyWorld]
  from t1 acc have "isUndefined (keycloakUrl readmeProps) \<and>
      (\<exists>c. Deployment ''keycloak-deploy'' c \<in> set (constructs w')) \<and>
      Service ''keycloak-svc'' ''keycloak'' [8080] ''keycloak-deploy'' \<in> set (constructs w')"
    by blast
  moreover from t2 have "fst (new_ShanoirNGChart exampleURL ''dummy''
         (readmeProps\<lparr> keycloakUrl := Value ''https://keycloak.example.org/'' \<rparr>)
         (emptyWorld :: unit world)) = Inl AssertionError"
    by simp
  ultimately show ?thesis using acc by blast
qed



text \<open>
  Claim C7. In every accepted construction the chart has one secret, \<open>sec\<close>, and its
  entries are exactly: one entry per database of \<open>mysqlDatabases\<close> and
  \<open>postgresqlDatabases\<close> (which are the defaults), keyed by the name of the database with its
  password as value, then \<open>keycloak-admin\<close>, \<open>vip-client-secret\<close> and \<open>smtp\<close> (the password
  of \<open>smtp.auth\<close>, or the empty string when \<open>auth\<close> is undefined). No key occurs twice.
\<close>

theorem secret_entries:
  fixes cfg :: "'c ShanoirNGProps" and w :: "'c world"
  assumes acc: "new_ShanoirNGChart parseURL ident cfg w = (Inr this, w')"
  shows "\<exists>mysql postgresql v entries.
     mysqlDatabases (props this) = Value mysql \<and>
     postgresqlDatabases (props this) = Value postgresql \<and>
     vip (props this) = Value v \<and>
     entries =
       map (\<lambda>(name, cred). (name, Some (password cred))) (mysql @ postgresql) @
       [(''keycloak-admin'', Some (password (keycloakCredentials (props this)))),
        (''vip-client-secret'', read (clientSecret v)),
        (''smtp'', Some (case read (auth (smtp (props this))) of
                          None \<Rightarrow> []
                        | Some a \<Rightarrow> password a))] \<and>
     filter (\<lambda>c. constructKind c = ''Secret'') (drop (length (constructs w)) (constructs w')) =
       [Secret ''sec'' entries] \<and>
     map fst entries =
       shanoirMysqlDatabases @ shanoirPostgresqlDatabases @
       [''keycloak-admin'', ''vip-client-secret'', ''smtp''] \<and>
     distinct (map fst entries)"
proof -
  from new_ShanoirNGChart_accepted [OF acc] obtain u viewer v svcs
    where v: "vip (applyDefaults ident cfg) = Value v"
      and a: "assembled ident cfg u viewer v w this w' svcs"
    by blast
  note h = new_ShanoirNGChart_Inr [OF acc]
  from a have p: "props this = applyDefaults ident cfg"
    by (simp add: assembled_def Let_def)
  let ?entries = "map (\<lambda>(name, cred). (name, Some (password cred)))
       (defaultMysqlDatabases @ defaultPostgresqlDatabases) @
       [(''keycloak-admin'', Some (password (keycloakCredentials (props this)))),
        (''vip-client-secret'', read (clientSecret v)),
        (''smtp'', Some (case read (auth (smtp (props this))) of
                          None \<Rightarrow> []
                        | Some a \<Rightarrow> password a))]"
  have my: "mysqlDatabases (props this) = Value defaultMysqlDatabases"
    and pg: "postgresqlDatabases (props this) = Value defaultPostgresqlDatabases"
    by (simp_all add: p h(2,3) applyDefaults_simps)
  have pvc: "\<And>xs :: (string \<times> 'c) list. filter (\<lambda>c. constructKind c = ''Secret'')
      (map (\<lambda>(name, c). PersistentVolumeClaim (name @ ''-pvc'') c) xs) = []"
    by (auto simp: filter_empty_conv)
  have vol: "\<And>xs. filter (\<lambda>c :: 'c construct. constructKind c = ''Secret'')
      (map (\<lambda>(name, pvc). Volume (name @ ''-rv'') pvc) xs) = []"
    by (auto simp: filter_empty_conv)
  from a have f1: "filter (\<lambda>c. constructKind c = ''Secret'')
      (drop (length (constructs w)) (constructs w')) = [Secret ''sec'' ?entries]"
    by (simp add: assembled_def Let_def pvc vol services_kinds [OF a] p applyDefaults_simps)
  have f2: "map fst ?entries =
       shanoirMysqlDatabases @ shanoirPostgresqlDatabases @
       [''keycloak-admin'', ''vip-client-secret'', ''smtp'']"
    by (simp add: defaultMysqlDatabases_def shanoirMysqlDatabases_def
        defaultPostgresqlDatabases_def shanoirPostgresqlDatabases_def)
  have f3: "distinct (map fst ?entries)"
    by (simp add: defaultMysqlDatabases_def shanoirMysqlDatabases_def
        defaultPostgresqlDatabases_def)
  from v have vp: "vip (props this) = Value v"
    by (simp add: p)
  show ?thesis
    by (rule exI [of _ defaultMysqlDatabases], rule exI [of _ defaultPostgresqlDatabases],
        rule exI [of _ v], rule exI [of _ ?entries])
       (intro conjI my pg vp refl f1 f2 f3)
qed

theorem secret_entries_witness:
  "\<exists>this w'.
     new_ShanoirNGChart exampleURL ''dummy'' readmeProps emptyWorld = (Inr this, w') \<and>
     filter (\<lambda>c. constructKind c = ''Secret'') (constructs w') =
       [Secret ''sec''
          [(''datasets'', Some ''datasets''), (''import'', Some ''import''),
           (''keycloak'', Some ''keycloak''), (''migrations'', Some ''migrations''),
           (''mysql'', Some ''mysql''), (''preclinical'', Some ''preclinical''),
           (''studies'', Some ''studies''), (''sys'', Some ''sys''), (''users'', Some ''users''),
           (''dcm4chee'', Some ''pacs''),
           (''keycloak-admin'', Some ''qzflpuy;''),
           (''vip-client-secret'', Some ''SECRET''),
           (''smtp'', Some ''stmp-pass'')]]"
proof -
  obtain this w'
    where acc: "new_ShanoirNGChart exampleURL ''dummy'' readmeProps emptyWorld = (Inr this, w')"
    using readme_accepted by blast
  from new_ShanoirNGChart_accepted [OF acc]
  have p: "props this = applyDefaults ''dummy'' readmeProps"
    by (auto simp: assembled_def Let_def)
  from secret_entries [OF acc] obtain mysql postgresql v entries
    where my: "mysqlDatabases (props this) = Value mysql"
      and pg: "postgresqlDatabases (props this) = Value postgresql"
      and v: "vip (props this) = Value v"
      and e: "entries =
       map (\<lambda>(name, cred). (name, Some (password cred))) (mysql @ postgresql) @
       [(''keycloak-admin'', Some (password (keycloakCredentials (props this)))),
        (''vip-client-secret'', read (clientSecret v)),
        (''smtp'', Some (case read (auth (smtp (props this))) of
                          None \<Rightarrow> []
                        | Some a \<Rightarrow> password a))]"
      and f: "filter (\<lambda>c. constructKind c = ''Secret'')
                (drop (length (constructs (emptyWorld :: unit world))) (constructs w')) =
              [Secret ''sec'' entries]"
    by blast
  from my pg v have "mysql = defaultMysqlDatabases" "postgresql = defaultPostgresqlDatabases"
    "v = shanoirVipDefaults"
    by (simp_all add: p applyDefaults_simps readmeProps_fields)
  with e have "entries =
          [(''datasets'', Some ''datasets''), (''import'', Some ''import''),
           (''keycloak'', Some ''keycloak''), (''migrations'', Some ''migrations''),
           (''mysql'', Some ''mysql''), (''preclinical'', Some ''preclinical''),
           (''studies'', Some ''studies''), (''sys'', Some ''sys''), (''users'', Some ''users''),
           (''dcm4chee'', Some ''pacs''),
           (''keycloak-admin'', Some ''qzflpuy;''),
           (''vip-client-secret'', Some ''SECRET''),
           (''smtp'', Some ''stmp-pass'')]"
    by (simp add: p applyDefaults_simps defaultMysqlDatabases_def shanoirMysqlDatabases_def
        defaultPostgresqlDatabases_def shanoirVipDefaults_def readmeProps_def)
  with f acc show ?thesis
    by (simp add: emptyWorld_def)
qed

text \<open>
  Claim C5, as stated, fails for the database maps: a supplied \<open>mysqlDatabases\<close> with every
  expected key and one unknown key does not end in a warning and a completed construction;
  the constructor stops at its assertion that \<open>mysqlDatabases\<close> is undefined.
\<close>

theorem unknown_key_in_database_map_counterexample:
  "set shanoirMysqlDatabases \<subseteq>
     set (keys (externalMysqlDatabases @
                [(''analytics'', \<lparr> username = ''a'', password = ''b'', db = ''analytics'',
                                  ShanoirDatabaseProps.host = ''mysql.example.org'',
                                  ShanoirDatabaseProps.port = Absent \<rparr>)])) \<and>
   ''analytics'' \<notin> set shanoirMysqlDatabases \<and>
   fst (new_ShanoirNGChart exampleURL ''dummy''
         (readmeProps\<lparr> mysqlDatabases :=
            Value (externalMysqlDatabases @
                   [(''analytics'', \<lparr> username = ''a'', password = ''b'', db = ''analytics'',
                                     ShanoirDatabaseProps.host = ''mysql.example.org'',
                                     ShanoirDatabaseProps.port = Absent \<rparr>)]) \<rparr>)
         (emptyWorld :: unit world)) = Inl AssertionError"
proof -
  have "set shanoirMysqlDatabases \<subseteq>
     set (keys (externalMysqlDatabases @
                [(''analytics'', \<lparr> username = ''a'', password = ''b'', db = ''analytics'',
                                  ShanoirDatabaseProps.host = ''mysql.example.org'',
                                  ShanoirDatabaseProps.port = Absent \<rparr>)]))"
    using externalMysqlDatabases_complete by (auto simp: keys_def)
  moreover have "''analytics'' \<notin> set shanoirMysqlDatabases"
    by (simp add: shanoirMysqlDatabases_def)
  ultimately show ?thesis
    by (simp add: abort_mysql)
qed

text \<open>
  Claim C5, amended. \<open>checkResourceMap\<close> never fails on a supplied map that has every
  expected key: it prints one warning that lists the unknown keys, if there are any, and
  returns. In the constructor this holds for the volume claims: entries added to the
  volume claims of an accepted configuration leave it accepted, and the console then holds
  the original properties, the warning if a key is unknown, and the compiled properties.
  A supplied MySQL or PostgreSQL map fails the assertion whatever its keys.
\<close>

theorem unknown_keys_only_warn:
  fixes cfg :: "'c ShanoirNGProps" and w :: "'c world" and obj :: "(string \<times> 'v) list"
  shows
    "(set expect \<subseteq> set (keys obj) \<longrightarrow>
        checkResourceMap desc (Some obj) expect w =
          (Inr (),
           w\<lparr> console := console w @
                (if filter (\<lambda>x. x \<notin> set expect) (newSet (keys obj)) = [] then []
                 else [message (''warning: unknown '' @ desc @ '': '' @
                         join '','' (filter (\<lambda>x. x \<notin> set expect) (newSet (keys obj))))]) \<rparr>)) \<and>
     (\<forall>this w'. new_ShanoirNGChart parseURL ident cfg w = (Inr this, w') \<longrightarrow>
        (\<exists>this2 w2.
           new_ShanoirNGChart parseURL ident
             (cfg\<lparr> volumeClaimProps := volumeClaimProps cfg @ extra \<rparr>) w = (Inr this2, w2) \<and>
           console w2 =
             console w @
             origProps (cfg\<lparr> volumeClaimProps := volumeClaimProps cfg @ extra \<rparr>) #
             (if filter (\<lambda>x. x \<notin> set shanoirVolumes)
                   (newSet (keys (volumeClaimProps cfg @ extra))) = []
              then []
              else [message (''warning: unknown volume claim: '' @
                      join '','' (filter (\<lambda>x. x \<notin> set shanoirVolumes)
                                   (newSet (keys (volumeClaimProps cfg @ extra)))))]) @
             [compiledProps
                (applyDefaults ident (cfg\<lparr> volumeClaimProps := volumeClaimProps cfg @ extra \<rparr>))])) \<and>
     (\<forall>m. mysqlDatabases cfg = Value m \<or> postgresqlDatabases cfg = Value m \<longrightarrow>
        fst (new_ShanoirNGChart parseURL ident cfg w) = Inl AssertionError)"
proof (intro conjI allI impI)
  assume "set expect \<subseteq> set (keys obj)"
  then show "checkResourceMap desc (Some obj) expect w =
          (Inr (),
           w\<lparr> console := console w @
                (if filter (\<lambda>x. x \<notin> set expect) (newSet (keys obj)) = [] then []
                 else [message (''warning: unknown '' @ desc @ '': '' @
                         join '','' (filter (\<lambda>x. x \<notin> set expect) (newSet (keys obj))))]) \<rparr>)"
    by (rule checkResourceMap_complete)
next
  fix this w'
  let ?cfg = "cfg\<lparr> volumeClaimProps := volumeClaimProps cfg @ extra \<rparr>"
  assume acc: "new_ShanoirNGChart parseURL ident cfg w = (Inr this, w')"
  note h = new_ShanoirNGChart_Inr [OF acc]
  have vip: "vip (applyDefaults ident ?cfg) = vip (applyDefaults ident cfg)"
    by (simp add: applyDefaults_vip)
  have "\<exists>this2 w2. new_ShanoirNGChart parseURL ident ?cfg w = (Inr this2, w2)"
    unfolding accepted_iff vip using h by (auto simp: keys_def)
  then obtain this2 w2
    where acc2: "new_ShanoirNGChart parseURL ident ?cfg w = (Inr this2, w2)"
    by blast
  from new_ShanoirNGChart_accepted [OF acc2] obtain u viewer v svcs
    where "assembled ident ?cfg u viewer v w this2 w2 svcs"
    by blast
  then have "console w2 =
             console w @ origProps ?cfg #
             (if filter (\<lambda>x. x \<notin> set shanoirVolumes)
                   (newSet (keys (volumeClaimProps cfg @ extra))) = []
              then []
              else [message (''warning: unknown volume claim: '' @
                      join '','' (filter (\<lambda>x. x \<notin> set shanoirVolumes)
                                   (newSet (keys (volumeClaimProps cfg @ extra)))))]) @
             [compiledProps (applyDefaults ident ?cfg)]"
    by (simp add: assembled_def Let_def)
  with acc2 show "\<exists>this2 w2.
           new_ShanoirNGChart parseURL ident ?cfg w = (Inr this2, w2) \<and>
           console w2 =
             console w @ origProps ?cfg #
             (if filter (\<lambda>x. x \<notin> set shanoirVolumes)
                   (newSet (keys (volumeClaimProps cfg @ extra))) = []
              then []
              else [message (''warning: unknown volume claim: '' @
                      join '','' (filter (\<lambda>x. x \<notin> set shanoirVolumes)
                                   (newSet (keys (volumeClaimProps cfg @ extra)))))]) @
             [compiledProps (applyDefaults ident ?cfg)]"
    by blast
next
  fix m
  assume "mysqlDatabases cfg = Value m \<or> postgresqlDatabases cfg = Value m"
  then show "fst (new_ShanoirNGChart parseURL ident cfg w) = Inl AssertionError"
    by (auto simp: abort_mysql abort_postgresql)
qed

lemma readme_scratch_unknown:
  "filter (\<lambda>x. x \<notin> set shanoirVolumes)
     (newSet (keys (volumeClaimProps readmeProps @ [(''scratch-data'', ())]))) =
   [''scratch-data'']"
  by (simp add: readmeProps_def keys_def newSet_def shanoirVolumes_def)

theorem unknown_keys_only_warn_witness:
  "set shanoirVolumes \<subseteq> set (keys (volumeClaimProps readmeProps @ [(''scratch-data'', ())])) \<and>
   checkResourceMap ''volume claim''
     (Some (volumeClaimProps readmeProps @ [(''scratch-data'', ())])) shanoirVolumes
     (emptyWorld :: unit world) =
   (Inr (), \<lparr> constructs = [],
              console = [message ''warning: unknown volume claim: scratch-data''] \<rparr>) \<and>
   (\<exists>this2 w2.
      new_ShanoirNGChart exampleURL ''dummy''
        (readmeProps\<lparr> volumeClaimProps := volumeClaimProps readmeProps @ [(''scratch-data'', ())] \<rparr>)
        emptyWorld = (Inr this2, w2) \<and>
      console w2 =
        [origProps
           (readmeProps\<lparr> volumeClaimProps :=
              volumeClaimProps readmeProps @ [(''scratch-data'', ())] \<rparr>),
         message ''warning: unknown volume claim: scratch-data'',
         compiledProps
           (applyDefaults ''dummy''
              (readmeProps\<lparr> volumeClaimProps :=
                 volumeClaimProps readmeProps @ [(''scratch-data'', ())] \<rparr>))]) \<and>
   fst (new_ShanoirNGChart exampleURL ''dummy''
         (readmeProps\<lparr> mysqlDatabases := Value externalMysqlDatabases \<rparr>)
         (emptyWorld :: unit world)) = Inl AssertionError"
proof -
  have sub: "set shanoirVolumes \<subseteq>
      set (keys (volumeClaimProps readmeProps @ [(''scratch-data'', ())]))"
    using readmeProps_fields(4) by (auto simp: keys_def)
  obtain this w'
    where acc: "new_ShanoirNGChart exampleURL ''dummy'' readmeProps emptyWorld = (Inr this, w')"
    using readme_accepted by blast
  note t = unknown_keys_only_warn [where cfg = readmeProps and parseURL = exampleURL
      and ident = "''dummy''" and w = emptyWorld and desc = "''volume claim''"
      and expect = shanoirVolumes
      and obj = "volumeClaimProps readmeProps @ [(''scratch-data'', ())]"
      and extra = "[(''scratch-data'', ())]"]
  note t2 = unknown_keys_only_warn
      [where cfg = "readmeProps\<lparr> mysqlDatabases := Value externalMysqlDatabases \<rparr>"
      and parseURL = exampleURL and ident = "''dummy''" and w = emptyWorld]
  from t sub have "checkResourceMap ''volume claim''
     (Some (volumeClaimProps readmeProps @ [(''scratch-data'', ())])) shanoirVolumes
     (emptyWorld :: unit world) =
   (Inr (), \<lparr> constructs = [],
              console = [message ''warning: unknown volume claim: scratch-data''] \<rparr>)"
    by (simp add: readme_scratch_unknown emptyWorld_def)
  moreover from t acc have "\<exists>this2 w2.
      new_ShanoirNGChart exampleURL ''dummy''
        (readmeProps\<lparr> volumeClaimProps := volumeClaimProps readmeProps @ [(''scratch-data'', ())] \<rparr>)
        emptyWorld = (Inr this2, w2) \<and>
      console w2 =
        [origProps
           (readmeProps\<lparr> volumeClaimProps :=
              volumeClaimProps readmeProps @ [(''scratch-data'', ())] \<rparr>),
         message ''warning: unknown volume claim: scratch-data'',
         compiledProps
           (applyDefaults ''dummy''
              (readmeProps\<lparr> volumeClaimProps :=
                 volumeClaimProps readmeProps @ [(''scratch-data'', ())] \<rparr>))]"
    by (simp add: readme_scratch_unknown emptyWorld_def)
  moreover from t2 [THEN conjunct2, THEN conjunct2]
  have "fst (new_ShanoirNGChart exampleURL ''dummy''
         (readmeProps\<lparr> mysqlDatabases := Value externalMysqlDatabases \<rparr>)
         (emptyWorld :: unit world)) = Inl AssertionError"
    by simp
  ultimately show ?thesis using sub by blast
qed

text \<open>
  Claim C6. For \<open>url = "https://x.test/"\<close> and \<open>viewerUrl = "https://y.test/"\<close>, parsed as
  whatwg-url parses them (scheme \<open>https:\<close>, the host, no port, path \<open>/\<close>), the config map
  \<open>common-cm\<close> holds the scheme \<open>https\<close> and the hosts \<open>x.test\<close> and \<open>y.test\<close>, none of
  them with a slash; this is what \<open>createCommonConfigMap\<close> creates, and what every accepted
  construction of such a configuration contains.
\<close>

theorem common_config_map_example:
  fixes p cfg :: "'c ShanoirNGProps" and w w0 :: "'c world"
  assumes x: "parseURL ''https://x.test/'' =
      Some \<lparr> protocol = ''https:'', URL.host = ''x.test'', URL.port = [], pathname = ''/'' \<rparr>"
    and y: "parseURL ''https://y.test/'' =
      Some \<lparr> protocol = ''https:'', URL.host = ''y.test'', URL.port = [], pathname = ''/'' \<rparr>"
  shows
    "(url p = ''https://x.test/'' \<and> viewerUrl p = ''https://y.test/'' \<longrightarrow>
        (\<exists>d. createCommonConfigMap parseURL p w =
               (Inr ''common-cm'', w\<lparr> constructs := constructs w @ [ConfigMap ''common-cm'' d] \<rparr>) \<and>
             map_of d ''SHANOIR_URL_SCHEME'' = Some (Some ''https'') \<and>
             map_of d ''SHANOIR_URL_HOST'' = Some (Some ''x.test'') \<and>
             map_of d ''SHANOIR_VIEWER_OHIF_URL_SCHEME'' = Some (Some ''https'') \<and>
             map_of d ''SHANOIR_VIEWER_OHIF_URL_HOST'' = Some (Some ''y.test'') \<and>
             (\<forall>k v. k \<in> {''SHANOIR_URL_SCHEME'', ''SHANOIR_URL_HOST'',
                          ''SHANOIR_VIEWER_OHIF_URL_SCHEME'', ''SHANOIR_VIEWER_OHIF_URL_HOST''} \<and>
                    map_of d k = Some (Some v) \<longrightarrow> CHR ''/'' \<notin> set v))) \<and>
     (\<forall>this w'. url cfg = ''https://x.test/'' \<and> viewerUrl cfg = ''https://y.test/'' \<and>
        new_ShanoirNGChart parseURL ident cfg w0 = (Inr this, w') \<longrightarrow>
        (\<exists>d. ConfigMap ''common-cm'' d \<in> set (constructs w') \<and>
             map_of d ''SHANOIR_URL_SCHEME'' = Some (Some ''https'') \<and>
             map_of d ''SHANOIR_URL_HOST'' = Some (Some ''x.test'') \<and>
             map_of d ''SHANOIR_VIEWER_OHIF_URL_SCHEME'' = Some (Some ''https'') \<and>
             map_of d ''SHANOIR_VIEWER_OHIF_URL_HOST'' = Some (Some ''y.test'')))"
proof (intro conjI allI impI)
  assume "url p = ''https://x.test/'' \<and> viewerUrl p = ''https://y.test/''"
  then have u: "parseURL (url p) =
      Some \<lparr> protocol = ''https:'', URL.host = ''x.test'', URL.port = [], pathname = ''/'' \<rparr>"
    and v: "parseURL (viewerUrl p) =
      Some \<lparr> protocol = ''https:'', URL.host = ''y.test'', URL.port = [], pathname = ''/'' \<rparr>"
    using x y by simp_all
  show "\<exists>d. createCommonConfigMap parseURL p w =
               (Inr ''common-cm'', w\<lparr> constructs := constructs w @ [ConfigMap ''common-cm'' d] \<rparr>) \<and>
             map_of d ''SHANOIR_URL_SCHEME'' = Some (Some ''https'') \<and>
             map_of d ''SHANOIR_URL_HOST'' = Some (Some ''x.test'') \<and>
             map_of d ''SHANOIR_VIEWER_OHIF_URL_SCHEME'' = Some (Some ''https'') \<and>
             map_of d ''SHANOIR_VIEWER_OHIF_URL_HOST'' = Some (Some ''y.test'') \<and>
             (\<forall>k v. k \<in> {''SHANOIR_URL_SCHEME'', ''SHANOIR_URL_HOST'',
                          ''SHANOIR_VIEWER_OHIF_URL_SCHEME'', ''SHANOIR_VIEWER_OHIF_URL_HOST''} \<and>
                    map_of d k = Some (Some v) \<longrightarrow> CHR ''/'' \<notin> set v)"
    by (subst createCommonConfigMap_run [OF u _ _ v]) (auto simp: stripColon_def)
next
  fix this w'
  assume a: "url cfg = ''https://x.test/'' \<and> viewerUrl cfg = ''https://y.test/'' \<and>
        new_ShanoirNGChart parseURL ident cfg w0 = (Inr this, w')"
  then have acc: "new_ShanoirNGChart parseURL ident cfg w0 = (Inr this, w')"
    by simp
  from new_ShanoirNGChart_accepted [OF acc] obtain u viewer v svcs
    where u: "parseURL (url cfg) = Some u" and vw: "parseURL (viewerUrl cfg) = Some viewer"
      and as: "assembled ident cfg u viewer v w0 this w' svcs"
    by blast
  from u vw a x y
  have uv: "u = \<lparr> protocol = ''https:'', URL.host = ''x.test'', URL.port = [], pathname = ''/'' \<rparr>"
    "viewer = \<lparr> protocol = ''https:'', URL.host = ''y.test'', URL.port = [], pathname = ''/'' \<rparr>"
    by simp_all
  let ?d = "[(''SHANOIR_PREFIX'', Some []),
          (''SHANOIR_URL_SCHEME'', Some (stripColon (protocol u))),
          (''SHANOIR_URL_HOST'', Some (URL.host u)),
          (''SHANOIR_VIEWER_OHIF_URL_SCHEME'', Some (stripColon (protocol viewer))),
          (''SHANOIR_VIEWER_OHIF_URL_HOST'', Some (URL.host viewer)),
          (''SHANOIR_ADMIN_EMAIL'', Some (adminEmail cfg)),
          (''SHANOIR_ADMIN_NAME'', Some (adminName cfg)),
          (''SHANOIR_INSTANCE_COLOR'', read (instanceColor (applyDefaults ident cfg))),
          (''SHANOIR_INSTANCE_NAME'', read (instanceName (applyDefaults ident cfg))),
          (''SHANOIR_KEYCLOAK_ADAPTER_MODE'', Some ''check-sso''),
          (''SHANOIR_X_FORWARDED'', Some ''trust''),
          (''SHANOIR_CERTIFICATE'', Some ''manual''),
          (''SHANOIR_CERTIFICATE_PEM_CRT'', Some ''none''),
          (''SHANOIR_CERTIFICATE_PEM_KEY'', Some ''none''),
          (''SHANOIR_MIGRATION'', Some ''never'')]"
  from as have "ConfigMap ''common-cm'' ?d \<in> set (constructs w')"
    by (simp add: assembled_def Let_def)
  moreover have "map_of ?d ''SHANOIR_URL_SCHEME'' = Some (Some ''https'')"
    "map_of ?d ''SHANOIR_URL_HOST'' = Some (Some ''x.test'')"
    "map_of ?d ''SHANOIR_VIEWER_OHIF_URL_SCHEME'' = Some (Some ''https'')"
    "map_of ?d ''SHANOIR_VIEWER_OHIF_URL_HOST'' = Some (Some ''y.test'')"
    by (simp_all add: uv stripColon_def)
  ultimately show "\<exists>d. ConfigMap ''common-cm'' d \<in> set (constructs w') \<and>
             map_of d ''SHANOIR_URL_SCHEME'' = Some (Some ''https'') \<and>
             map_of d ''SHANOIR_URL_HOST'' = Some (Some ''x.test'') \<and>
             map_of d ''SHANOIR_VIEWER_OHIF_URL_SCHEME'' = Some (Some ''https'') \<and>
             map_of d ''SHANOIR_VIEWER_OHIF_URL_HOST'' = Some (Some ''y.test'')"
    by blast
qed

lemma exampleURL_xy:
  "exampleURL ''https://x.test/'' =
     Some \<lparr> protocol = ''https:'', URL.host = ''x.test'', URL.port = [], pathname = ''/'' \<rparr>"
  "exampleURL ''https://y.test/'' =
     Some \<lparr> protocol = ''https:'', URL.host = ''y.test'', URL.port = [], pathname = ''/'' \<rparr>"
  by (simp_all add: exampleURL_def)

lemma readme_vip_rootURL:
  "\<exists>v. vip (applyDefaults ident (readmeProps\<lparr> url := a, viewerUrl := b \<rparr>)) = Value v \<and>
       rootURL exampleURL (template (ShanoirVipProps.url v))"
  by (simp add: applyDefaults_vip readmeProps_def shanoirVipDefaults_def rootURL_def
      exampleURL_readme)

theorem common_config_map_example_witness:
  "exampleURL ''https://x.test/'' =
     Some \<lparr> protocol = ''https:'', URL.host = ''x.test'', URL.port = [], pathname = ''/'' \<rparr> \<and>
   exampleURL ''https://y.test/'' =
     Some \<lparr> protocol = ''https:'', URL.host = ''y.test'', URL.port = [], pathname = ''/'' \<rparr> \<and>
   (\<exists>d. createCommonConfigMap exampleURL
          (readmeProps\<lparr> url := ''https://x.test/'', viewerUrl := ''https://y.test/'' \<rparr>)
          emptyWorld =
        (Inr ''common-cm'', \<lparr> constructs = [ConfigMap ''common-cm'' d], console = [] \<rparr>) \<and>
        map_of d ''SHANOIR_URL_SCHEME'' = Some (Some ''https'') \<and>
        map_of d ''SHANOIR_URL_HOST'' = Some (Some ''x.test'') \<and>
        map_of d ''SHANOIR_VIEWER_OHIF_URL_SCHEME'' = Some (Some ''https'') \<and>
        map_of d ''SHANOIR_VIEWER_OHIF_URL_HOST'' = Some (Some ''y.test'')) \<and>
   (\<exists>this w' d.
        new_ShanoirNGChart exampleURL ''dummy''
          (readmeProps\<lparr> url := ''https://x.test/'', viewerUrl := ''https://y.test/'' \<rparr>)
          emptyWorld = (Inr this, w') \<and>
        ConfigMap ''common-cm'' d \<in> set (constructs w') \<and>
        map_of d ''SHANOIR_URL_SCHEME'' = Some (Some ''https'') \<and>
        map_of d ''SHANOIR_URL_HOST'' = Some (Some ''x.test'') \<and>
        map_of d ''SHANOIR_VIEWER_OHIF_URL_SCHEME'' = Some (Some ''https'') \<and>
        map_of d ''SHANOIR_VIEWER_OHIF_URL_HOST'' = Some (Some ''y.test''))"
proof -
  let ?xy = "readmeProps\<lparr> url := ''https://x.test/'', viewerUrl := ''https://y.test/'' \<rparr>"
  note t = common_config_map_example [OF exampleURL_xy, where p = ?xy and cfg = ?xy
      and w = emptyWorld and w0 = emptyWorld and ident = "''dummy''"]
  have "\<exists>this w'. new_ShanoirNGChart exampleURL ''dummy'' ?xy emptyWorld = (Inr this, w')"
    unfolding accepted_iff
    using readme_vip_rootURL [where ident = "''dummy''" and a = "''https://x.test/''"
        and b = "''https://y.test/''"]
    by (simp add: readmeProps_def keys_def comp_def rootURL_def exampleURL_xy)
  then obtain this w'
    where acc: "new_ShanoirNGChart exampleURL ''dummy'' ?xy emptyWorld = (Inr this, w')"
    by blast
  from t [THEN conjunct1] have "\<exists>d. createCommonConfigMap exampleURL ?xy emptyWorld =
        (Inr ''common-cm'', \<lparr> constructs = [ConfigMap ''common-cm'' d], console = [] \<rparr>) \<and>
        map_of d ''SHANOIR_URL_SCHEME'' = Some (Some ''https'') \<and>
        map_of d ''SHANOIR_URL_HOST'' = Some (Some ''x.test'') \<and>
        map_of d ''SHANOIR_VIEWER_OHIF_URL_SCHEME'' = Some (Some ''https'') \<and>
        map_of d ''SHANOIR_VIEWER_OHIF_URL_HOST'' = Some (Some ''y.test'')"
    by (simp add: emptyWorld_def) blast
  moreover from t [THEN conjunct2] acc have "\<exists>d.
        ConfigMap ''common-cm'' d \<in> set (constructs w') \<and>
        map_of d ''SHANOIR_URL_SCHEME'' = Some (Some ''https'') \<and>
        map_of d ''SHANOIR_URL_HOST'' = Some (Some ''x.test'') \<and>
        map_of d ''SHANOIR_VIEWER_OHIF_URL_SCHEME'' = Some (Some ''https'') \<and>
        map_of d ''SHANOIR_VIEWER_OHIF_URL_HOST'' = Some (Some ''y.test'')"
    by simp
  ultimately show ?thesis
    using acc exampleURL_xy by blast
qed

text \<open>
  Claim C9. The three URLs of a configuration (\<open>url\<close>, \<open>viewerUrl\<close> and the \<open>url\<close> of the
  layered \<open>vip\<close>) must have an empty port and the path \<open>/\<close>. A URL that parses with a port
  or with another path fails the assertion of \<open>createCommonConfigMap\<close>, respectively of
  \<open>createVipEnvVariables\<close>, with nothing created by that function; no construction with such
  a URL is accepted, and the constructor ends with the assertion error whenever it reaches
  the assertion. With the three URLs at the root, the config map is created, the variables
  of VIP are returned, and acceptance depends on the other conditions only.
\<close>

theorem url_assertions:
  fixes cfg p :: "'c ShanoirNGProps" and w :: "'c world"
  shows
   "(\<forall>u. parseURL (url p) = Some u \<and> \<not> (URL.port u = [] \<and> pathname u = ''/'') \<longrightarrow>
         createCommonConfigMap parseURL p w = (Inl AssertionError, w)) \<and>
    (\<forall>viewer. rootURL parseURL (url p) \<and> parseURL (viewerUrl p) = Some viewer \<and>
         \<not> (URL.port viewer = [] \<and> pathname viewer = ''/'') \<longrightarrow>
         createCommonConfigMap parseURL p w = (Inl AssertionError, w)) \<and>
    (\<forall>v u. vip p = Value v \<and> parseURL (template (ShanoirVipProps.url v)) = Some u \<and>
         \<not> (URL.port u = [] \<and> pathname u = ''/'') \<longrightarrow>
         createVipEnvVariables parseURL p w = (Inl AssertionError, w)) \<and>
    (\<not> rootURL parseURL (url cfg) \<or> \<not> rootURL parseURL (viewerUrl cfg) \<or>
     (\<forall>v. vip (applyDefaults ident cfg) = Value v \<longrightarrow>
          \<not> rootURL parseURL (template (ShanoirVipProps.url v))) \<longrightarrow>
       (\<exists>e w'. new_ShanoirNGChart parseURL ident cfg w = (Inl e, w'))) \<and>
    (\<forall>u. isUndefined (mysqlDatabases cfg) \<and> isUndefined (postgresqlDatabases cfg) \<and>
         isUndefined (keycloakUrl cfg) \<and>
         set shanoirVolumes \<subseteq> set (keys (volumeClaimProps cfg)) \<and>
         (parseURL (url cfg) = Some u \<or>
          rootURL parseURL (url cfg) \<and> parseURL (viewerUrl cfg) = Some u) \<and>
         \<not> (URL.port u = [] \<and> pathname u = ''/'') \<longrightarrow>
         fst (new_ShanoirNGChart parseURL ident cfg w) = Inl AssertionError) \<and>
    (\<forall>v u. mysqlDatabases cfg = Absent \<and> postgresqlDatabases cfg = Absent \<and>
         isUndefined (keycloakUrl cfg) \<and>
         set shanoirVolumes \<subseteq> set (keys (volumeClaimProps cfg)) \<and>
         rootURL parseURL (url cfg) \<and> rootURL parseURL (viewerUrl cfg) \<and>
         port (smtp cfg) \<noteq> Undefined \<and>
         vip (applyDefaults ident cfg) = Value v \<and>
         parseURL (template (ShanoirVipProps.url v)) = Some u \<and>
         \<not> (URL.port u = [] \<and> pathname u = ''/'') \<longrightarrow>
         fst (new_ShanoirNGChart parseURL ident cfg w) = Inl AssertionError) \<and>
    (rootURL parseURL (url p) \<and> rootURL parseURL (viewerUrl p) \<longrightarrow>
       (\<exists>d. createCommonConfigMap parseURL p w =
          (Inr ''common-cm'', w\<lparr> constructs := constructs w @ [ConfigMap ''common-cm'' d] \<rparr>))) \<and>
    (\<forall>v. vip p = Value v \<and> rootURL parseURL (template (ShanoirVipProps.url v)) \<longrightarrow>
       (\<exists>env. createVipEnvVariables parseURL p w = (Inr env, w) \<and>
          map fst env = [''VIP_URL_SCHEME'', ''VIP_URL_HOST''])) \<and>
    (rootURL parseURL (url cfg) \<and> rootURL parseURL (viewerUrl cfg) \<and>
     (\<exists>v. vip (applyDefaults ident cfg) = Value v \<and>
          rootURL parseURL (template (ShanoirVipProps.url v))) \<longrightarrow>
       ((\<exists>this w'. new_ShanoirNGChart parseURL ident cfg w = (Inr this, w')) \<longleftrightarrow>
        isUndefined (keycloakUrl cfg) \<and> mysqlDatabases cfg = Absent \<and>
        postgresqlDatabases cfg = Absent \<and>
        set shanoirVolumes \<subseteq> set (keys (volumeClaimProps cfg)) \<and>
        port (smtp cfg) \<noteq> Undefined \<and> allowedAdminIps cfg \<noteq> Undefined))"
proof -
  let ?run = "new_ShanoirNGChart parseURL ident cfg w"
  let ?q = "applyDefaults ident cfg"
  have f1: "\<forall>u. parseURL (url p) = Some u \<and> \<not> (URL.port u = [] \<and> pathname u = ''/'') \<longrightarrow>
         createCommonConfigMap parseURL p w = (Inl AssertionError, w)"
    by (intro allI impI, elim conjE) (rule createCommonConfigMap_url_assertion)
  have f2: "\<forall>viewer. rootURL parseURL (url p) \<and> parseURL (viewerUrl p) = Some viewer \<and>
         \<not> (URL.port viewer = [] \<and> pathname viewer = ''/'') \<longrightarrow>
         createCommonConfigMap parseURL p w = (Inl AssertionError, w)"
    by (intro allI impI, elim conjE) (rule createCommonConfigMap_viewer_assertion)
  have f3: "\<forall>v u. vip p = Value v \<and> parseURL (template (ShanoirVipProps.url v)) = Some u \<and>
         \<not> (URL.port u = [] \<and> pathname u = ''/'') \<longrightarrow>
         createVipEnvVariables parseURL p w = (Inl AssertionError, w)"
    by (intro allI impI, elim conjE) (rule createVipEnvVariables_assertion)
  have f4: "\<not> rootURL parseURL (url cfg) \<or> \<not> rootURL parseURL (viewerUrl cfg) \<or>
     (\<forall>v. vip (applyDefaults ident cfg) = Value v \<longrightarrow>
          \<not> rootURL parseURL (template (ShanoirVipProps.url v))) \<longrightarrow>
       (\<exists>e w'. ?run = (Inl e, w'))"
  proof
    assume "\<not> rootURL parseURL (url cfg) \<or> \<not> rootURL parseURL (viewerUrl cfg) \<or>
     (\<forall>v. vip (applyDefaults ident cfg) = Value v \<longrightarrow>
          \<not> rootURL parseURL (template (ShanoirVipProps.url v)))"
    then have "\<not> (\<exists>this w'. ?run = (Inr this, w'))"
      unfolding accepted_iff by blast
    then show "\<exists>e w'. ?run = (Inl e, w')"
      by (cases ?run, cases "fst ?run") auto
  qed
  have f5: "\<forall>u. isUndefined (mysqlDatabases cfg) \<and> isUndefined (postgresqlDatabases cfg) \<and>
         isUndefined (keycloakUrl cfg) \<and>
         set shanoirVolumes \<subseteq> set (keys (volumeClaimProps cfg)) \<and>
         (parseURL (url cfg) = Some u \<or>
          rootURL parseURL (url cfg) \<and> parseURL (viewerUrl cfg) = Some u) \<and>
         \<not> (URL.port u = [] \<and> pathname u = ''/'') \<longrightarrow>
         fst ?run = Inl AssertionError"
  proof (intro allI impI, elim conjE)
    fix u
    assume v: "isUndefined (mysqlDatabases cfg)" "isUndefined (postgresqlDatabases cfg)"
        "isUndefined (keycloakUrl cfg)" "set shanoirVolumes \<subseteq> set (keys (volumeClaimProps cfg))"
      and u: "parseURL (url cfg) = Some u \<or>
          rootURL parseURL (url cfg) \<and> parseURL (viewerUrl cfg) = Some u"
      and bad: "\<not> (URL.port u = [] \<and> pathname u = ''/'')"
    have "\<And>w :: 'c world. createCommonConfigMap parseURL ?q w = (Inl AssertionError, w)"
      using u
    proof
      fix w :: "'c world"
      assume "parseURL (url cfg) = Some u"
      then have "parseURL (url ?q) = Some u"
        by (simp add: applyDefaults_simps)
      from this bad show "createCommonConfigMap parseURL ?q w = (Inl AssertionError, w)"
        by (rule createCommonConfigMap_url_assertion)
    next
      fix w :: "'c world"
      assume "rootURL parseURL (url cfg) \<and> parseURL (viewerUrl cfg) = Some u"
      then have "rootURL parseURL (url ?q)" and "parseURL (viewerUrl ?q) = Some u"
        by (simp_all add: applyDefaults_simps)
      from this bad show "createCommonConfigMap parseURL ?q w = (Inl AssertionError, w)"
        by (rule createCommonConfigMap_viewer_assertion)
    qed
    then show "fst ?run = Inl AssertionError"
      by (simp only: validated_run [OF v] afterSuper_config_assertion)
  qed
  have f6: "\<forall>v u. mysqlDatabases cfg = Absent \<and> postgresqlDatabases cfg = Absent \<and>
         isUndefined (keycloakUrl cfg) \<and>
         set shanoirVolumes \<subseteq> set (keys (volumeClaimProps cfg)) \<and>
         rootURL parseURL (url cfg) \<and> rootURL parseURL (viewerUrl cfg) \<and>
         port (smtp cfg) \<noteq> Undefined \<and>
         vip (applyDefaults ident cfg) = Value v \<and>
         parseURL (template (ShanoirVipProps.url v)) = Some u \<and>
         \<not> (URL.port u = [] \<and> pathname u = ''/'') \<longrightarrow>
         fst ?run = Inl AssertionError"
  proof (intro allI impI, elim conjE)
    fix v u
    assume my: "mysqlDatabases cfg = Absent" and pg: "postgresqlDatabases cfg = Absent"
      and kc: "isUndefined (keycloakUrl cfg)"
      and vol: "set shanoirVolumes \<subseteq> set (keys (volumeClaimProps cfg))"
      and r: "rootURL parseURL (url cfg)" "rootURL parseURL (viewerUrl cfg)"
      and n: "port (smtp cfg) \<noteq> Undefined"
      and v: "vip (applyDefaults ident cfg) = Value v"
        "parseURL (template (ShanoirVipProps.url v)) = Some u"
        "\<not> (URL.port u = [] \<and> pathname u = ''/'')"
    from my pg have i: "isUndefined (mysqlDatabases cfg)" "isUndefined (postgresqlDatabases cfg)"
      by simp_all
    from r have r': "rootURL parseURL (url ?q)" "rootURL parseURL (viewerUrl ?q)"
      by (simp_all add: applyDefaults_simps)
    from my pg have d: "mysqlDatabases ?q = Value defaultMysqlDatabases"
        "postgresqlDatabases ?q = Value defaultPostgresqlDatabases"
      by (simp_all add: applyDefaults_simps)
    from n have n': "port (smtp ?q) \<noteq> Undefined" "port (smtp ?q) \<noteq> Absent"
      by (cases "port (smtp cfg)"; simp add: applyDefaults_simps)+
    show "fst ?run = Inl AssertionError"
      by (simp only: validated_run [OF i kc vol]
          afterSuper_vip_assertion [where parseURL = parseURL, OF r' d n' v])
  qed
  have f7: "rootURL parseURL (url p) \<and> rootURL parseURL (viewerUrl p) \<longrightarrow>
       (\<exists>d. createCommonConfigMap parseURL p w =
          (Inr ''common-cm'', w\<lparr> constructs := constructs w @ [ConfigMap ''common-cm'' d] \<rparr>))"
  proof (intro impI, elim conjE)
    assume "rootURL parseURL (url p)" and "rootURL parseURL (viewerUrl p)"
    then obtain x y
      where x: "parseURL (url p) = Some x" "URL.port x = []" "pathname x = ''/''"
        and y: "parseURL (viewerUrl p) = Some y" "URL.port y = []" "pathname y = ''/''"
      by (elim rootURL_E) blast
    show "\<exists>d. createCommonConfigMap parseURL p w =
          (Inr ''common-cm'', w\<lparr> constructs := constructs w @ [ConfigMap ''common-cm'' d] \<rparr>)"
      using createCommonConfigMap_run [where parseURL = parseURL, OF x y] by blast
  qed
  have f8: "\<forall>v. vip p = Value v \<and> rootURL parseURL (template (ShanoirVipProps.url v)) \<longrightarrow>
       (\<exists>env. createVipEnvVariables parseURL p w = (Inr env, w) \<and>
          map fst env = [''VIP_URL_SCHEME'', ''VIP_URL_HOST''])"
  proof (intro allI impI, elim conjE)
    fix v
    assume v: "vip p = Value v" and "rootURL parseURL (template (ShanoirVipProps.url v))"
    then obtain u
      where u: "parseURL (template (ShanoirVipProps.url v)) = Some u" "URL.port u = []"
        "pathname u = ''/''"
      by (elim rootURL_E)
    show "\<exists>env. createVipEnvVariables parseURL p w = (Inr env, w) \<and>
          map fst env = [''VIP_URL_SCHEME'', ''VIP_URL_HOST'']"
      by (simp add: createVipEnvVariables_run [where parseURL = parseURL, OF v u])
  qed
  have f9: "rootURL parseURL (url cfg) \<and> rootURL parseURL (viewerUrl cfg) \<and>
     (\<exists>v. vip (applyDefaults ident cfg) = Value v \<and>
          rootURL parseURL (template (ShanoirVipProps.url v))) \<longrightarrow>
       ((\<exists>this w'. ?run = (Inr this, w')) \<longleftrightarrow>
        isUndefined (keycloakUrl cfg) \<and> mysqlDatabases cfg = Absent \<and>
        postgresqlDatabases cfg = Absent \<and>
        set shanoirVolumes \<subseteq> set (keys (volumeClaimProps cfg)) \<and>
        port (smtp cfg) \<noteq> Undefined \<and> allowedAdminIps cfg \<noteq> Undefined)"
    unfolding accepted_iff by blast
  show ?thesis
    by (rule conjI f1 f2 f3 f4 f5 f6 f7 f8 f9)+
qed

theorem url_assertions_witness:
  "exampleURL ''https://x.test:8443/'' =
     Some \<lparr> protocol = ''https:'', URL.host = ''x.test:8443'', URL.port = ''8443'',
            pathname = ''/'' \<rparr> \<and>
   exampleURL ''https://y.test/viewer'' =
     Some \<lparr> protocol = ''https:'', URL.host = ''y.test'', URL.port = [],
            pathname = ''/viewer'' \<rparr> \<and>
   createCommonConfigMap exampleURL (readmeProps\<lparr> url := ''https://x.test:8443/'' \<rparr>) emptyWorld =
     (Inl AssertionError, emptyWorld) \<and>
   fst (new_ShanoirNGChart exampleURL ''dummy'' (readmeProps\<lparr> url := ''https://x.test:8443/'' \<rparr>)
          emptyWorld) = Inl AssertionError \<and>
   fst (new_ShanoirNGChart exampleURL ''dummy''
          (readmeProps\<lparr> viewerUrl := ''https://y.test/viewer'' \<rparr>) emptyWorld) =
     Inl AssertionError \<and>
   fst (new_ShanoirNGChart exampleURL ''dummy''
          (readmeProps\<lparr> vip := Value \<lparr> ShanoirVipProps.url = Value ''https://x.test:8443/'',
                                        clientSecret = Absent, serviceEmail = Absent \<rparr> \<rparr>)
          emptyWorld) = Inl AssertionError \<and>
   (\<exists>d. createCommonConfigMap exampleURL readmeProps emptyWorld =
      (Inr ''common-cm'', \<lparr> constructs = [ConfigMap ''common-cm'' d], console = [] \<rparr>)) \<and>
   (\<exists>env. createVipEnvVariables exampleURL (applyDefaults ''dummy'' readmeProps) emptyWorld =
      (Inr env, emptyWorld) \<and> map fst env = [''VIP_URL_SCHEME'', ''VIP_URL_HOST''])"
proof -
  let ?x = "\<lparr> protocol = ''https:'', URL.host = ''x.test:8443'', URL.port = ''8443'',
              pathname = ''/'' \<rparr>"
  let ?y = "\<lparr> protocol = ''https:'', URL.host = ''y.test'', URL.port = [],
              pathname = ''/viewer'' \<rparr>"
  let ?v = "\<lparr> ShanoirVipProps.url = Value ''https://x.test:8443/'',
              clientSecret = Value ''SECRET'', serviceEmail = Value [] \<rparr>"
  let ?c1 = "readmeProps\<lparr> url := ''https://x.test:8443/'' \<rparr>"
  let ?c2 = "readmeProps\<lparr> viewerUrl := ''https://y.test/viewer'' \<rparr>"
  let ?c3 = "readmeProps\<lparr> vip := Value \<lparr> ShanoirVipProps.url = Value ''https://x.test:8443/'',
                                        clientSecret = Absent, serviceEmail = Absent \<rparr> \<rparr>"
  have x: "exampleURL ''https://x.test:8443/'' = Some ?x"
    and y: "exampleURL ''https://y.test/viewer'' = Some ?y"
    by (simp_all add: exampleURL_def Let_def)
  have r: "rootURL exampleURL ''https://shanoir-dummy.localhost/''"
      "rootURL exampleURL ''https://shanoir-dummy-viewer.localhost/''"
      "rootURL exampleURL ''https://vip.creatis.insa-lyon.fr''"
    by (simp_all add: rootURL_def exampleURL_readme)
  note t1 = url_assertions [where parseURL = exampleURL and ident = "''dummy''" and cfg = ?c1
      and p = ?c1 and w = emptyWorld]
  note t2 = url_assertions [where parseURL = exampleURL and ident = "''dummy''" and cfg = ?c2
      and p = ?c2 and w = emptyWorld]
  note t3 = url_assertions [where parseURL = exampleURL and ident = "''dummy''" and cfg = ?c3
      and p = ?c3 and w = emptyWorld]
  note t4 = url_assertions [where parseURL = exampleURL and ident = "''dummy''"
      and cfg = readmeProps and p = readmeProps and w = emptyWorld]
  note t5 = url_assertions [where parseURL = exampleURL and ident = "''dummy''"
      and cfg = readmeProps and p = "applyDefaults ''dummy'' readmeProps" and w = emptyWorld]
  have a1: "createCommonConfigMap exampleURL ?c1 emptyWorld = (Inl AssertionError, emptyWorld)"
    using t1 [THEN conjunct1, THEN spec [where x = ?x]] x by simp
  have a2: "fst (new_ShanoirNGChart exampleURL ''dummy'' ?c1 emptyWorld) = Inl AssertionError"
    using t1 [THEN conjunct2, THEN conjunct2, THEN conjunct2, THEN conjunct2, THEN conjunct1,
        THEN spec [where x = ?x]] x
    by (simp add: readmeProps_fields)
  have a3: "fst (new_ShanoirNGChart exampleURL ''dummy'' ?c2 emptyWorld) = Inl AssertionError"
    using t2 [THEN conjunct2, THEN conjunct2, THEN conjunct2, THEN conjunct2, THEN conjunct1,
        THEN spec [where x = ?y]] y r
    by (simp add: readmeProps_fields)
  have v: "vip (applyDefaults ''dummy'' ?c3) = Value ?v"
    by (simp add: applyDefaults_vip)
  have a4: "fst (new_ShanoirNGChart exampleURL ''dummy'' ?c3 emptyWorld) = Inl AssertionError"
    using t3 [THEN conjunct2, THEN conjunct2, THEN conjunct2, THEN conjunct2, THEN conjunct2,
        THEN conjunct1, THEN spec [where x = ?v], THEN spec [where x = ?x]] x r v
    by (simp add: readmeProps_fields)
  have a5: "\<exists>d. createCommonConfigMap exampleURL readmeProps emptyWorld =
      (Inr ''common-cm'', \<lparr> constructs = [ConfigMap ''common-cm'' d], console = [] \<rparr>)"
    using t4 [THEN conjunct2, THEN conjunct2, THEN conjunct2, THEN conjunct2, THEN conjunct2,
        THEN conjunct2, THEN conjunct1] r
    by (simp add: readmeProps_fields emptyWorld_def)
  have a6: "\<exists>env. createVipEnvVariables exampleURL (applyDefaults ''dummy'' readmeProps)
       emptyWorld = (Inr env, emptyWorld) \<and> map fst env = [''VIP_URL_SCHEME'', ''VIP_URL_HOST'']"
    using t5 [THEN conjunct2, THEN conjunct2, THEN conjunct2, THEN conjunct2, THEN conjunct2,
        THEN conjunct2, THEN conjunct2, THEN conjunct1, THEN spec [where x = shanoirVipDefaults]] r
    by (simp add: readmeProps_fields shanoirVipDefaults_def)
  show ?thesis
    by (intro conjI x y a1 a2 a3 a4 a5 a6)
qed

lemma accepted_secret:
  fixes cfg :: "'c ShanoirNGProps" and w :: "'c world"
  assumes acc: "new_ShanoirNGChart parseURL ident cfg w = (Inr this, w')"
  shows "\<exists>a b. filter (\<lambda>c. constructKind c = ''Secret'')
           (drop (length (constructs w)) (constructs w')) =
         [Secret ''sec''
            (map (\<lambda>(name, cred). (name, Some (password cred)))
               (defaultMysqlDatabases @ defaultPostgresqlDatabases) @
             [(''keycloak-admin'', a), (''vip-client-secret'', b),
              (''smtp'', Some (case read (auth (smtp cfg)) of
                                None \<Rightarrow> []
                              | Some a \<Rightarrow> password a))])]"
proof -
  from new_ShanoirNGChart_accepted [OF acc] obtain u viewer v svcs
    where a: "assembled ident cfg u viewer v w this w' svcs"
    by blast
  have pvc: "\<And>xs :: (string \<times> 'c) list. filter (\<lambda>c. constructKind c = ''Secret'')
      (map (\<lambda>(name, c). PersistentVolumeClaim (name @ ''-pvc'') c) xs) = []"
    by (auto simp: filter_empty_conv)
  have vol: "\<And>xs. filter (\<lambda>c :: 'c construct. constructKind c = ''Secret'')
      (map (\<lambda>(name, pvc). Volume (name @ ''-rv'') pvc) xs) = []"
    by (auto simp: filter_empty_conv)
  from a show ?thesis
    by (simp add: assembled_def Let_def pvc vol services_kinds [OF a] applyDefaults_simps)
qed

text \<open>
  Claim C10. A configuration whose \<open>smtp.auth\<close> is unset keeps it undefined after the
  layering. The environment of SMTP then has \<open>SHANOIR_STMP_AUTH\<close> set to \<open>false\<close> and
  \<open>SHANOIR_SMTP_USERNAME\<close> set to the empty string, and the entry \<open>smtp\<close> of the secret of
  every accepted construction is the empty string. The credentials are never validated:
  whether a configuration is accepted does not depend on \<open>smtp.auth\<close> at all.
\<close>

theorem smtp_auth_unset:
  fixes cfg :: "'c ShanoirNGProps" and w :: "'c world"
  assumes unset: "isUndefined (auth (smtp cfg))"
  shows
   "isUndefined (auth (smtp (applyDefaults ident cfg))) \<and>
    (port (smtp cfg) \<noteq> Undefined \<longrightarrow>
       (\<exists>env. createSmtpEnvVariables (applyDefaults ident cfg) sec w = (Inr env, w) \<and>
          map_of env ''SHANOIR_STMP_AUTH'' = Some (fromValue (Some ''false'')) \<and>
          map_of env ''SHANOIR_SMTP_USERNAME'' = Some (fromValue (Some [])) \<and>
          map_of env ''SHANOIR_SMTP_PASSWORD'' = Some (fromSecretValue sec ''smtp''))) \<and>
    (\<forall>this w'. new_ShanoirNGChart parseURL ident cfg w = (Inr this, w') \<longrightarrow>
       (\<exists>d. filter (\<lambda>c. constructKind c = ''Secret'')
               (drop (length (constructs w)) (constructs w')) = [Secret ''sec'' d] \<and>
            map_of d ''smtp'' = Some (Some []))) \<and>
    (\<forall>a. (\<exists>this w'. new_ShanoirNGChart parseURL ident
                       (cfg\<lparr> smtp := (smtp cfg)\<lparr> auth := a \<rparr> \<rparr>) w = (Inr this, w')) \<longleftrightarrow>
         (\<exists>this w'. new_ShanoirNGChart parseURL ident cfg w = (Inr this, w')))"
proof -
  let ?p = "applyDefaults ident cfg"
  from unset have none: "read (auth (smtp cfg)) = None"
    by (simp add: isUndefined_def)
  have f1: "isUndefined (auth (smtp ?p))"
    by (simp add: isUndefined_def applyDefaults_simps none)
  have f2: "port (smtp cfg) \<noteq> Undefined \<longrightarrow>
       (\<exists>env. createSmtpEnvVariables ?p sec w = (Inr env, w) \<and>
          map_of env ''SHANOIR_STMP_AUTH'' = Some (fromValue (Some ''false'')) \<and>
          map_of env ''SHANOIR_SMTP_USERNAME'' = Some (fromValue (Some [])) \<and>
          map_of env ''SHANOIR_SMTP_PASSWORD'' = Some (fromSecretValue sec ''smtp''))"
  proof
    assume "port (smtp cfg) \<noteq> Undefined"
    then obtain n where n: "port (smtp ?p) = Value n"
      by (cases "port (smtp cfg)") (simp_all add: applyDefaults_simps)
    from f1 have "read (auth (smtp ?p)) = None"
      by (simp add: isUndefined_def)
    with f1 show "\<exists>env. createSmtpEnvVariables ?p sec w = (Inr env, w) \<and>
          map_of env ''SHANOIR_STMP_AUTH'' = Some (fromValue (Some ''false'')) \<and>
          map_of env ''SHANOIR_SMTP_USERNAME'' = Some (fromValue (Some [])) \<and>
          map_of env ''SHANOIR_SMTP_PASSWORD'' = Some (fromSecretValue sec ''smtp'')"
      by (simp add: createSmtpEnvVariables_run [OF n] boolToString_def)
  qed
  have f3: "\<forall>this w'. new_ShanoirNGChart parseURL ident cfg w = (Inr this, w') \<longrightarrow>
       (\<exists>d. filter (\<lambda>c. constructKind c = ''Secret'')
               (drop (length (constructs w)) (constructs w')) = [Secret ''sec'' d] \<and>
            map_of d ''smtp'' = Some (Some []))"
  proof (intro allI impI)
    fix this w'
    assume "new_ShanoirNGChart parseURL ident cfg w = (Inr this, w')"
    from accepted_secret [OF this] obtain a b
      where s: "filter (\<lambda>c. constructKind c = ''Secret'')
           (drop (length (constructs w)) (constructs w')) =
         [Secret ''sec''
            (map (\<lambda>(name, cred). (name, Some (password cred)))
               (defaultMysqlDatabases @ defaultPostgresqlDatabases) @
             [(''keycloak-admin'', a), (''vip-client-secret'', b), (''smtp'', Some [])])]"
      by (auto simp: none)
    have "map_of (map (\<lambda>(name, cred). (name, Some (password cred)))
               (defaultMysqlDatabases @ defaultPostgresqlDatabases) @
             [(''keycloak-admin'', a), (''vip-client-secret'', b), (''smtp'', Some [])])
            ''smtp'' = Some (Some [])"
      by (simp add: defaultMysqlDatabases_def shanoirMysqlDatabases_def
          defaultPostgresqlDatabases_def shanoirPostgresqlDatabases_def)
    with s show "\<exists>d. filter (\<lambda>c. constructKind c = ''Secret'')
               (drop (length (constructs w)) (constructs w')) = [Secret ''sec'' d] \<and>
            map_of d ''smtp'' = Some (Some [])"
      by blast
  qed
  have f4: "\<forall>a. (\<exists>this w'. new_ShanoirNGChart parseURL ident
                       (cfg\<lparr> smtp := (smtp cfg)\<lparr> auth := a \<rparr> \<rparr>) w = (Inr this, w')) \<longleftrightarrow>
         (\<exists>this w'. new_ShanoirNGChart parseURL ident cfg w = (Inr this, w'))"
    by (simp add: accepted_iff applyDefaults_vip)
  show ?thesis
    by (rule conjI f1 f2 f3 f4)+
qed

theorem smtp_auth_unset_witness:
  "isUndefined (auth (smtp (readmeProps\<lparr> smtp := (smtp readmeProps)\<lparr> auth := Absent \<rparr> \<rparr>))) \<and>
   (\<exists>env. createSmtpEnvVariables
       (applyDefaults ''dummy'' (readmeProps\<lparr> smtp := (smtp readmeProps)\<lparr> auth := Absent \<rparr> \<rparr>))
       ''sec'' emptyWorld = (Inr env, emptyWorld) \<and>
      map_of env ''SHANOIR_STMP_AUTH'' = Some (fromValue (Some ''false'')) \<and>
      map_of env ''SHANOIR_SMTP_USERNAME'' = Some (fromValue (Some [])) \<and>
      map_of env ''SHANOIR_SMTP_PASSWORD'' = Some (fromSecretValue ''sec'' ''smtp'')) \<and>
   (\<exists>this w' d.
      new_ShanoirNGChart exampleURL ''dummy''
        (readmeProps\<lparr> smtp := (smtp readmeProps)\<lparr> auth := Absent \<rparr> \<rparr>) emptyWorld =
        (Inr this, w') \<and>
      filter (\<lambda>c. constructKind c = ''Secret'') (constructs w') = [Secret ''sec'' d] \<and>
      map_of d ''smtp'' = Some (Some []))"
proof -
  let ?c = "readmeProps\<lparr> smtp := (smtp readmeProps)\<lparr> auth := Absent \<rparr> \<rparr>"
  have u: "isUndefined (auth (smtp ?c))"
    by simp
  note t = smtp_auth_unset [OF u, where parseURL = exampleURL and ident = "''dummy''"
      and w = emptyWorld and sec = "''sec''"]
  have "\<exists>this w'. new_ShanoirNGChart exampleURL ''dummy'' ?c emptyWorld = (Inr this, w')"
    using t [THEN conjunct2, THEN conjunct2, THEN conjunct2,
        THEN spec [where x = "Value \<lparr> username = ''smtp-user'', password = ''stmp-pass'' \<rparr>"]]
      readme_accepted [where w = emptyWorld]
    by (simp add: readmeProps_def)
  then obtain this w'
    where acc: "new_ShanoirNGChart exampleURL ''dummy'' ?c emptyWorld = (Inr this, w')"
    by blast
  from t [THEN conjunct2, THEN conjunct2, THEN conjunct1, THEN spec [where x = this],
      THEN spec [where x = w'], THEN mp, OF acc]
  have s: "\<exists>d. filter (\<lambda>c. constructKind c = ''Secret'') (constructs w') = [Secret ''sec'' d] \<and>
      map_of d ''smtp'' = Some (Some [])"
    by (simp add: emptyWorld_def)
  have e: "\<exists>env. createSmtpEnvVariables (applyDefaults ''dummy'' ?c) ''sec'' emptyWorld =
        (Inr env, emptyWorld) \<and>
      map_of env ''SHANOIR_STMP_AUTH'' = Some (fromValue (Some ''false'')) \<and>
      map_of env ''SHANOIR_SMTP_USERNAME'' = Some (fromValue (Some [])) \<and>
      map_of env ''SHANOIR_SMTP_PASSWORD'' = Some (fromSecretValue ''sec'' ''smtp'')"
    using t [THEN conjunct2, THEN conjunct1] by (simp add: readmeProps_def)
  from u e s acc show ?thesis
    by blast
qed



end
